theory Spec2Isabelle
  imports Main "HOL-Library.Word" "HOL-Library.Signed_Division"
begin

unbundle bit_operations_syntax

section \<open>Register sizes and masks\<close>

text \<open>
  Modelled from the spec: the register-size constants of the instruction-set header
  (\<open>kWRegSize\<close>, \<open>kXRegSize\<close>, \<open>kWMaxUInt\<close>, \<open>kXMaxUInt\<close>, \<open>kWRegMask\<close>, \<open>kXRegMask\<close>,
  \<open>kWSignMask\<close>, \<open>kXSignMask\<close>, \<open>kByteMask\<close>, \<open>kHalfWordMask\<close>, \<open>kWordMask\<close>,
  \<open>kWMinInt\<close>, \<open>kXMinInt\<close>) are declared outside \<open>simulator-aarch64.cc\<close>. A W register
  is 32 bits wide and an X register 64 bits; the masks select the low 32 or 64 bits,
  the sign masks select bit \<open>size - 1\<close>, and the smallest signed integers have only that
  bit set.
\<close>

type_synonym u64 = "64 word"

definition kWRegSize :: nat where "kWRegSize = 32"
definition kXRegSize :: nat where "kXRegSize = 64"

definition kWMaxUInt :: u64 where "kWMaxUInt = 0xffffffff"
definition kXMaxUInt :: u64 where "kXMaxUInt = 0xffffffffffffffff"
definition kWRegMask :: u64 where "kWRegMask = 0xffffffff"
definition kXRegMask :: u64 where "kXRegMask = 0xffffffffffffffff"
definition kWSignMask :: u64 where "kWSignMask = 0x80000000"
definition kXSignMask :: u64 where "kXSignMask = 0x8000000000000000"
definition kByteMask :: u64 where "kByteMask = 0xff"
definition kHalfWordMask :: u64 where "kHalfWordMask = 0xffff"
definition kWordMask :: u64 where "kWordMask = 0xffffffff"
definition kWMinInt :: "32 word" where "kWMinInt = 0x80000000"
definition kXMinInt :: "64 word" where "kXMinInt = 0x8000000000000000"

section \<open>The condition flags\<close>

text \<open>
  The NZCV system register, reduced to its four one-bit fields. \<open>SetN\<close>, \<open>SetZ\<close>,
  \<open>SetC\<close> and \<open>SetV\<close> of the source become record updates.
\<close>

record nzcv =
  flagN :: bool
  flagZ :: bool
  flagC :: bool
  flagV :: bool

text \<open>
  Modelled from the spec: \<open>CalcNFlag\<close> and \<open>CalcZFlag\<close> are declared in the simulator's
  header. N is the result's sign bit (bit \<open>reg_size - 1\<close>) and Z says whether the result
  is zero.
\<close>

definition CalcNFlag :: "u64 \<Rightarrow> nat \<Rightarrow> bool" where
  "CalcNFlag result reg_size = (drop_bit (reg_size - 1) result AND 1 = 1)"

definition CalcZFlag :: "u64 \<Rightarrow> bool" where
  "CalcZFlag result = (result = 0)"

section \<open>AddWithCarry\<close>

text \<open>
  \<open>Simulator::AddWithCarry\<close>. The two assertions of the source (\<open>carry_in\<close> is 0 or 1,
  \<open>reg_size\<close> is 32 or 64) are preconditions of the theorems below. The carry is a C
  \<open>int\<close>, converted to \<open>uint64_t\<close> by the additions; the flags register is passed in and
  returned.
\<close>

definition AddWithCarry :: "nat \<Rightarrow> bool \<Rightarrow> u64 \<Rightarrow> u64 \<Rightarrow> int \<Rightarrow> nzcv \<Rightarrow> u64 \<times> nzcv" where
  "AddWithCarry reg_size set_flags left0 right0 carry_in flags =
    (let max_uint = (if reg_size = kWRegSize then kWMaxUInt else kXMaxUInt);
         reg_mask = (if reg_size = kWRegSize then kWRegMask else kXRegMask);
         sign_mask = (if reg_size = kWRegSize then kWSignMask else kXSignMask);
         left = left0 AND reg_mask;
         right = right0 AND reg_mask;
         result = (left + right + word_of_int carry_in) AND reg_mask
     in if set_flags then
          (let max_uint_2op = max_uint - word_of_int carry_in;
               C = (left > max_uint_2op \<or> max_uint_2op - left < right);
               left_sign = left AND sign_mask;
               right_sign = right AND sign_mask;
               result_sign = result AND sign_mask;
               V = (left_sign = right_sign \<and> left_sign \<noteq> result_sign)
           in (result, flags\<lparr>flagN := CalcNFlag result reg_size,
                               flagZ := CalcZFlag result,
                               flagC := C,
                               flagV := V\<rparr>))
        else (result, flags))"

section \<open>Fatal conditions\<close>

text \<open>
  The simulator stops the process on \<open>VIXL_UNIMPLEMENTED\<close>, \<open>VIXL_UNREACHABLE\<close>,
  \<open>VIXL_ALIGNMENT_EXCEPTION\<close> and \<open>VIXL_ABORT_WITH_MSG\<close>. Each is a value here: a handler
  returns \<open>Inl\<close> of the condition, or \<open>Inr\<close> of its result.
\<close>

datatype sim_error =
    Unimplemented
  | Unreachable
  | AlignmentException
  | AbortWithMsg string

section \<open>ShiftOperand and ExtendValue\<close>

text \<open>
  Modelled from the spec: the enumerations \<open>Shift\<close> and \<open>Extend\<close> are declared in the
  constants header. Besides the four shift kinds and eight extend kinds they hold the
  markers \<open>NO_SHIFT\<close>, \<open>MSL\<close> and \<open>NO_EXTEND\<close>, which reach the \<open>default\<close> branches
  of the two functions.
\<close>

datatype Shift = NO_SHIFT | LSL | LSR | ASR | ROR | MSL

datatype Extend = NO_EXTEND | UXTB | UXTH | UXTW | UXTX | SXTB | SXTH | SXTW | SXTX

text \<open>
  Modelled from the spec: \<open>RotateRight\<close> is a utility declared outside the simulator
  source; it rotates the low \<open>width\<close> bits of the value right by \<open>rot\<close> places.
\<close>

definition RotateRight :: "u64 \<Rightarrow> nat \<Rightarrow> nat \<Rightarrow> u64" where
  "RotateRight v rot width =
    (let w = v AND mask width
     in (push_bit (width - rot) w OR drop_bit rot w) AND mask width)"

text \<open>
  \<open>Simulator::ShiftOperand\<close>. The \<open>int64_t\<close> value is held as its 64-bit pattern.
  The early return for \<open>amount = 0\<close> comes before the switch, as in the source, so
  it is taken for every shift kind. A C++ shift by 64 or more is undefined; the callers
  pass amounts below the register size, and the model is only meant for those.
\<close>

definition ShiftOperand :: "nat \<Rightarrow> u64 \<Rightarrow> Shift \<Rightarrow> nat \<Rightarrow> sim_error + u64" where
  "ShiftOperand reg_size val shift_type amount =
    (if amount = 0 then Inr val
     else
       (let uvalue = val;
            msk = (if reg_size = kXRegSize then kXRegMask else kWRegMask);
            is_negative = (if reg_size = kXRegSize then uvalue AND kXSignMask \<noteq> 0
                           else uvalue AND kWSignMask \<noteq> 0)
        in case shift_type of
             LSL \<Rightarrow> Inr (push_bit amount uvalue AND msk)
           | LSR \<Rightarrow> Inr (drop_bit amount uvalue AND msk)
           | ASR \<Rightarrow>
               Inr ((if is_negative
                     then drop_bit amount uvalue OR push_bit (reg_size - amount) (NOT 0)
                     else drop_bit amount uvalue) AND msk)
           | ROR \<Rightarrow> Inr (RotateRight uvalue amount reg_size AND msk)
           | _ \<Rightarrow> Inl Unimplemented))"

text \<open>
  \<open>Simulator::ExtendValue\<close>: mask to the byte, half-word or word, sign-extend for the
  signed kinds, then shift left through \<open>ShiftOperand\<close>.
\<close>

definition ExtendValue :: "nat \<Rightarrow> u64 \<Rightarrow> Extend \<Rightarrow> nat \<Rightarrow> sim_error + u64" where
  "ExtendValue reg_size val extend_type left_shift =
    (case extend_type of
       UXTB \<Rightarrow> ShiftOperand reg_size (val AND kByteMask) LSL left_shift
     | UXTH \<Rightarrow> ShiftOperand reg_size (val AND kHalfWordMask) LSL left_shift
     | UXTW \<Rightarrow> ShiftOperand reg_size (val AND kWordMask) LSL left_shift
     | SXTB \<Rightarrow>
         (let v = val AND kByteMask;
              v' = (if v AND 0x80 \<noteq> 0 then v OR push_bit 8 (NOT 0) else v)
          in ShiftOperand reg_size v' LSL left_shift)
     | SXTH \<Rightarrow>
         (let v = val AND kHalfWordMask;
              v' = (if v AND 0x8000 \<noteq> 0 then v OR push_bit 16 (NOT 0) else v)
          in ShiftOperand reg_size v' LSL left_shift)
     | SXTW \<Rightarrow>
         (let v = val AND kWordMask;
              v' = (if v AND 0x80000000 \<noteq> 0 then v OR push_bit 32 (NOT 0) else v)
          in ShiftOperand reg_size v' LSL left_shift)
     | UXTX \<Rightarrow> ShiftOperand reg_size val LSL left_shift
     | SXTX \<Rightarrow> ShiftOperand reg_size val LSL left_shift
     | NO_EXTEND \<Rightarrow> Inl Unreachable)"

section \<open>Architectural state\<close>

text \<open>
  The guarded-branch classification \<open>BType\<close>, in the order of the source's enumeration.
\<close>

datatype BType =
    DefaultBType
  | BranchFromUnguardedOrToIP
  | BranchAndLink
  | BranchFromGuardedNotToIP

datatype Reg31Mode = Reg31IsStackPointer | Reg31IsZeroRegister

text \<open>
  Modelled from the spec: the register codes \<open>kZeroRegCode\<close> and \<open>kLinkRegCode\<close> of the
  instruction-set header. Code 31 is the zero register or the stack pointer, code 30 the
  link register.
\<close>

definition kZeroRegCode :: nat where "kZeroRegCode = 31"
definition kLinkRegCode :: nat where "kLinkRegCode = 30"

text \<open>
  Modelled from the spec: the simulator class, its register file, its memory and its
  exclusive monitors are declared in the simulator's header. The state holds
  \<^item> 32 general register slots of 64 bits, slot 31 being the stack pointer;
  \<^item> the NZCV flags;
  \<^item> a flat byte-addressed memory over 64-bit addresses;
  \<^item> the local exclusive monitor: at most one reservation of an address and a size,
    \<open>None\<close> when cleared;
  \<^item> the program counter, the current and the next \<open>BType\<close>, and whether the program
    counter lies in a guarded page.
  The global exclusive monitor is shared between simulator instances; what it answers
  is an input of the handlers that ask it.
\<close>

record simulator =
  registers :: "nat \<Rightarrow> u64"
  sys_nzcv :: nzcv
  memory :: "u64 \<Rightarrow> 8 word"
  local_monitor :: "(u64 \<times> nat) option"
  pc :: u64
  btype :: BType
  next_btype :: BType
  guard_pages :: bool

subsection \<open>Registers\<close>

text \<open>
  Modelled from the spec: the register accessors of the header. Register code 31 read or
  written as the zero register reads as zero and discards writes; read or written as the
  stack pointer it is slot 31. A read of type \<open>T\<close> takes the low \<open>sizeof(T)\<close> bytes of the
  slot; a write of a narrower value zero-extends it into the full slot. The spec says
  so for 32-bit writes and is silent on how a write of one or two bytes fills the bits
  above them; the properties proved below only read back the low \<open>sizeof(T)\<close> bytes.
\<close>

definition ReadRegister :: "simulator \<Rightarrow> nat \<Rightarrow> Reg31Mode \<Rightarrow> 'a::len word" where
  "ReadRegister s code r31mode =
    (if code = kZeroRegCode \<and> r31mode = Reg31IsZeroRegister then 0
     else ucast (registers s code))"

definition WriteRegister :: "nat \<Rightarrow> 'a::len word \<Rightarrow> Reg31Mode \<Rightarrow> simulator \<Rightarrow> simulator" where
  "WriteRegister code v r31mode s =
    (if code = kZeroRegCode \<and> r31mode = Reg31IsZeroRegister then s
     else s\<lparr>registers := (registers s)(code := ucast v)\<rparr>)"

definition ReadXRegister :: "simulator \<Rightarrow> nat \<Rightarrow> u64" where
  "ReadXRegister s code = ReadRegister s code Reg31IsZeroRegister"

definition ReadWRegister :: "simulator \<Rightarrow> nat \<Rightarrow> 32 word" where
  "ReadWRegister s code = ReadRegister s code Reg31IsZeroRegister"

definition WriteXRegister :: "nat \<Rightarrow> u64 \<Rightarrow> simulator \<Rightarrow> simulator" where
  "WriteXRegister code v s = WriteRegister code v Reg31IsZeroRegister s"

definition WriteWRegister :: "nat \<Rightarrow> 32 word \<Rightarrow> simulator \<Rightarrow> simulator" where
  "WriteWRegister code v s = WriteRegister code v Reg31IsZeroRegister s"

text \<open>
  The write that takes the register size as an argument: the 64-bit result of a handler
  is truncated to 32 bits for a W destination.
\<close>

definition WriteRegisterSized :: "nat \<Rightarrow> nat \<Rightarrow> u64 \<Rightarrow> simulator \<Rightarrow> simulator" where
  "WriteRegisterSized reg_size code v s =
    (if reg_size = kWRegSize then WriteWRegister code (ucast v) s
     else WriteXRegister code v s)"

subsection \<open>Memory\<close>

text \<open>
  Modelled from the spec: \<open>Memory::Read<T>\<close> and \<open>Memory::Write<T>\<close> of the header copy
  \<open>sizeof(T)\<close> bytes between the flat address space and a value of type \<open>T\<close>. The bytes of
  a value are laid out least significant first, and addresses wrap around at \<open>2^64\<close>.
\<close>

fun from_bytes :: "8 word list \<Rightarrow> 'a::len word" where
  "from_bytes [] = 0"
| "from_bytes (b # bs) = ucast b OR push_bit 8 (from_bytes bs)"

definition to_bytes :: "'a::len word \<Rightarrow> 8 word list" where
  "to_bytes v = map (\<lambda>i. ucast (drop_bit (8 * i) v)) [0..<LENGTH('a) div 8]"

fun store_bytes :: "(u64 \<Rightarrow> 8 word) \<Rightarrow> u64 \<Rightarrow> 8 word list \<Rightarrow> (u64 \<Rightarrow> 8 word)" where
  "store_bytes m a [] = m"
| "store_bytes m a (b # bs) = store_bytes (m(a := b)) (a + 1) bs"

definition load_bytes :: "(u64 \<Rightarrow> 8 word) \<Rightarrow> u64 \<Rightarrow> nat \<Rightarrow> 8 word list" where
  "load_bytes m a n = map (\<lambda>i. m (a + of_nat i)) [0..<n]"

definition Memory_Read :: "(u64 \<Rightarrow> 8 word) \<Rightarrow> u64 \<Rightarrow> 'a::len word" where
  "Memory_Read m a = from_bytes (load_bytes m a (LENGTH('a) div 8))"

definition Memory_Write :: "(u64 \<Rightarrow> 8 word) \<Rightarrow> u64 \<Rightarrow> 'a::len word \<Rightarrow> (u64 \<Rightarrow> 8 word)" where
  "Memory_Write m a v = store_bytes m a (to_bytes v)"

subsection \<open>The local exclusive monitor\<close>

text \<open>
  Modelled from the spec: the local monitor class of the header. \<open>MarkExclusive\<close> records
  the reservation, \<open>Clear\<close> drops it, and \<open>IsExclusive\<close> holds when the recorded
  reservation has this address and this size.
\<close>

definition MarkExclusive :: "u64 \<Rightarrow> nat \<Rightarrow> simulator \<Rightarrow> simulator" where
  "MarkExclusive address sz s = s\<lparr>local_monitor := Some (address, sz)\<rparr>"

definition Clear :: "simulator \<Rightarrow> simulator" where
  "Clear s = s\<lparr>local_monitor := None\<rparr>"

definition IsExclusive :: "simulator \<Rightarrow> u64 \<Rightarrow> nat \<Rightarrow> bool" where
  "IsExclusive s address sz = (local_monitor s = Some (address, sz))"

text \<open>
  What the host decides for the handlers: whether an atomic access at a base register,
  address and size passes \<open>CheckIsValidUnalignedAtomicAccess\<close> (declared in the header;
  a failed check is a fatal alignment fault), what the global monitor answers, and
  whether \<open>MaybeClear\<close> of the local monitor clears it this time.
\<close>

record host =
  CheckIsValidUnalignedAtomicAccess :: "nat \<Rightarrow> u64 \<Rightarrow> nat \<Rightarrow> bool"
  global_IsExclusive :: "u64 \<Rightarrow> nat \<Rightarrow> bool"
  MaybeClear_clears :: bool

definition MaybeClear :: "host \<Rightarrow> simulator \<Rightarrow> simulator" where
  "MaybeClear h s = (if MaybeClear_clears h then Clear s else s)"

section \<open>Decoded instructions\<close>

text \<open>
  The decoded instruction is opaque to the handlers, which only call its accessors.
  The record holds the accessors that the handlers below call; the value of each
  \<open>Mask\<close> test is passed to the handler as a separate opcode argument.
\<close>

record Instruction =
  GetRd :: nat
  GetRn :: nat
  GetRm :: nat
  GetRs :: nat
  GetRt :: nat
  GetRt2 :: nat
  GetSixtyFourBits :: bool
  ExtractBit :: "nat \<Rightarrow> nat"
  GetNextInstruction :: u64
  GetLdStXNotExclusive :: bool
  GetLdStXAcquireRelease :: bool
  GetLdStXLoad :: bool
  GetLdStXPair :: bool
  GetLdStXSizeLog2 :: nat

section \<open>Pointer authentication\<close>

datatype PACKey = kPACKeyIA | kPACKeyIB | kPACKeyDA | kPACKeyDB | kPACKeyGA

datatype PointerType = kDataPointer | kInstructionPointer

text \<open>
  Modelled from the spec: \<open>ComputePAC\<close>, \<open>CalculatePACMask\<close>, \<open>GetTopPACBit\<close>,
  \<open>AddPAC\<close>, \<open>AuthPAC\<close> and \<open>StripPAC\<close> live in the pointer-authentication source file,
  which is not part of \<open>simulator-aarch64.cc\<close>. The keyed cryptographic code, the mask of
  the code bits and the top code bit (both fixed by the configured virtual-address size
  and the pointer kind) are parameters.
\<close>

record pac_config =
  ComputePAC :: "u64 \<Rightarrow> u64 \<Rightarrow> PACKey \<Rightarrow> u64"
  CalculatePACMask :: "PointerType \<Rightarrow> u64"
  TopPACBit :: "PointerType \<Rightarrow> nat"

definition GetTopPACBit :: "pac_config \<Rightarrow> u64 \<Rightarrow> PointerType \<Rightarrow> nat" where
  "GetTopPACBit cfg ptr kind = TopPACBit cfg kind"

text \<open>Modelled from the spec: \<open>StripPAC\<close> clears the code bits without checking them.\<close>

definition StripPAC :: "pac_config \<Rightarrow> u64 \<Rightarrow> PointerType \<Rightarrow> u64" where
  "StripPAC cfg ptr kind = ptr AND NOT (CalculatePACMask cfg kind)"

text \<open>
  Modelled from the spec: \<open>AddPAC\<close> computes the keyed code over the pointer and the
  modifier and splices it into the code bits of the pointer.
\<close>

definition AddPAC :: "pac_config \<Rightarrow> u64 \<Rightarrow> u64 \<Rightarrow> PACKey \<Rightarrow> PointerType \<Rightarrow> u64" where
  "AddPAC cfg ptr modifier key kind =
    (let pac_mask = CalculatePACMask cfg kind;
         ext_ptr = ptr AND NOT pac_mask;
         pac = ComputePAC cfg ext_ptr modifier key
     in (pac AND pac_mask) OR ext_ptr)"

text \<open>
  Modelled from the spec: the marker written on a failed authentication. The spec only
  says that marker bits are corrupted; the model writes the two-bit code 1 for an A key
  and 2 for a B key into the two bits below the top code bit, the bits that the
  authenticating branch inspects.
\<close>

definition error_code :: "PACKey \<Rightarrow> u64" where
  "error_code key = (case key of kPACKeyIB \<Rightarrow> 2 | kPACKeyDB \<Rightarrow> 2 | _ \<Rightarrow> 1)"

text \<open>
  Modelled from the spec: \<open>AuthPAC\<close> recomputes the code the same way and compares it
  with the code bits found in the pointer. On a match it returns the pointer with the
  code bits cleared; on a mismatch it also overwrites the marker bits.
\<close>

definition AuthPAC :: "pac_config \<Rightarrow> u64 \<Rightarrow> u64 \<Rightarrow> PACKey \<Rightarrow> PointerType \<Rightarrow> u64" where
  "AuthPAC cfg ptr modifier key kind =
    (let pac_mask = CalculatePACMask cfg kind;
         original_ptr = ptr AND NOT pac_mask;
         pac = ComputePAC cfg original_ptr modifier key
     in if pac AND pac_mask = ptr AND pac_mask then original_ptr
        else
          (let error_lsb = GetTopPACBit cfg ptr kind - 2;
               error_mask = push_bit error_lsb 3
           in (original_ptr AND NOT error_mask) OR push_bit error_lsb (error_code key)))"

section \<open>Branches to a register and the next BType\<close>

text \<open>
  The values of \<open>instr->Mask(UnconditionalBranchToRegisterMask)\<close> that the source
  names; \<open>NotBranchToRegister\<close> stands for every other value, that is for an instruction
  of another class.
\<close>

datatype UnconditionalBranchToRegisterOp =
    BR | BLR | RET
  | BRAAZ | BRABZ | BLRAAZ | BLRABZ
  | RETAA | RETAB
  | BRAA | BRAB | BLRAA | BLRAB
  | NotBranchToRegister

definition PcIsInGuardedPage :: "simulator \<Rightarrow> bool" where
  "PcIsInGuardedPage s = guard_pages s"

definition ReadBType :: "simulator \<Rightarrow> BType" where
  "ReadBType s = btype s"

definition WriteNextBType :: "BType \<Rightarrow> simulator \<Rightarrow> simulator" where
  "WriteNextBType bt s = s\<lparr>next_btype := bt\<rparr>"

definition WritePc :: "u64 \<Rightarrow> simulator \<Rightarrow> simulator" where
  "WritePc a s = s\<lparr>pc := a\<rparr>"

definition WriteLr :: "u64 \<Rightarrow> simulator \<Rightarrow> simulator" where
  "WriteLr a s = WriteXRegister kLinkRegCode a s"

text \<open>\<open>Simulator::GetBTypeFromInstruction\<close>.\<close>

definition GetBTypeFromInstruction ::
    "UnconditionalBranchToRegisterOp \<Rightarrow> Instruction \<Rightarrow> simulator \<Rightarrow> BType" where
  "GetBTypeFromInstruction op instr s =
    (let from_br = (if GetRn instr = 16 \<or> GetRn instr = 17 \<or> \<not> PcIsInGuardedPage s
                    then BranchFromUnguardedOrToIP
                    else BranchFromGuardedNotToIP)
     in case op of
          BLR \<Rightarrow> BranchAndLink
        | BLRAA \<Rightarrow> BranchAndLink
        | BLRAB \<Rightarrow> BranchAndLink
        | BLRAAZ \<Rightarrow> BranchAndLink
        | BLRABZ \<Rightarrow> BranchAndLink
        | BR \<Rightarrow> from_br
        | BRAA \<Rightarrow> from_br
        | BRAB \<Rightarrow> from_br
        | BRAAZ \<Rightarrow> from_br
        | BRABZ \<Rightarrow> from_br
        | _ \<Rightarrow> DefaultBType)"

text \<open>
  \<open>Simulator::VisitUnconditionalBranchToRegister\<close>. The switch of the source sets
  \<open>link\<close>, \<open>authenticate\<close>, the address and the context; they are four functions of
  the opcode here. An authenticating branch aborts when the two marker bits of the
  authenticated address are not both zero.
\<close>

definition branch_link :: "UnconditionalBranchToRegisterOp \<Rightarrow> bool" where
  "branch_link op = (op = BLR \<or> op = BLRAAZ \<or> op = BLRABZ \<or> op = BLRAA \<or> op = BLRAB)"

definition branch_authenticate :: "UnconditionalBranchToRegisterOp \<Rightarrow> bool" where
  "branch_authenticate op = (op \<noteq> BR \<and> op \<noteq> BLR \<and> op \<noteq> RET)"

definition branch_addr ::
    "UnconditionalBranchToRegisterOp \<Rightarrow> Instruction \<Rightarrow> simulator \<Rightarrow> u64" where
  "branch_addr op instr s =
    (if op = RETAA \<or> op = RETAB then ReadXRegister s kLinkRegCode
     else ReadXRegister s (GetRn instr))"

definition branch_context ::
    "UnconditionalBranchToRegisterOp \<Rightarrow> Instruction \<Rightarrow> simulator \<Rightarrow> u64" where
  "branch_context op instr s =
    (if op = BLRAA \<or> op = BLRAB \<or> op = BRAA \<or> op = BRAB then ReadXRegister s (GetRd instr)
     else if op = RETAA \<or> op = RETAB then ReadRegister s 31 Reg31IsStackPointer
     else 0)"

definition VisitUnconditionalBranchToRegister ::
    "pac_config \<Rightarrow> UnconditionalBranchToRegisterOp \<Rightarrow> Instruction \<Rightarrow> simulator
      \<Rightarrow> sim_error + simulator" where
  "VisitUnconditionalBranchToRegister cfg op instr s =
    (if op = NotBranchToRegister then Inl Unreachable
     else
       (let addr = branch_addr op instr s;
            context = branch_context op instr s;
            s1 = (if branch_link op then WriteLr (GetNextInstruction instr) s else s)
        in if branch_authenticate op then
             (let key = (if ExtractBit instr 10 = 0 then kPACKeyIA else kPACKeyIB);
                  addr' = AuthPAC cfg addr context key kInstructionPointer;
                  error_lsb = GetTopPACBit cfg addr' kInstructionPointer - 2
              in if drop_bit error_lsb addr' AND 3 \<noteq> 0
                 then Inl (AbortWithMsg ''Failed to authenticate pointer.'')
                 else (let s2 = WritePc addr' s1
                       in Inr (WriteNextBType (GetBTypeFromInstruction op instr s2) s2)))
           else (let s2 = WritePc addr s1
                 in Inr (WriteNextBType (GetBTypeFromInstruction op instr s2) s2))))"

section \<open>System instructions: hints and pointer authentication\<close>

text \<open>
  The pointer-authentication system instructions generated by \<open>PAUTH_SYSTEM_MODES\<close>, and
  the hint immediates that \<open>VisitSystem\<close> names; \<open>OtherHint\<close> stands for any other
  immediate.
\<close>

datatype SystemPAuthOp =
    PACIA1716 | AUTIA1716
  | PACIB1716 | AUTIB1716
  | PACIAZ | AUTIAZ
  | PACIBZ | AUTIBZ
  | PACIASP | AUTIASP
  | PACIBSP | AUTIBSP

datatype SystemHint = NOP | ESB | CSDB | BTI | BTI_c | BTI_j | BTI_jc | OtherHint

text \<open>
  The classes of system instruction of \<open>VisitSystem\<close> that read \<open>BType\<close>, sign or
  authenticate a pointer, or touch the exclusive monitor. The other classes (PSTATE flag
  manipulation, \<open>MRS\<close>/\<open>MSR\<close>, barriers and \<open>SYS\<close>) are not modelled.
\<close>

datatype SystemInstr =
    XPACLRI
  | SystemPAuth SystemPAuthOp
  | CLREX
  | Hint SystemHint

text \<open>
  The check at the head of the pointer-authentication branch. Its switch over \<open>BType\<close>
  has four cases and each of them only breaks (the source assumes \<open>SCTLR_EL1.BT0\<close> to
  be zero), so the check lets every \<open>BType\<close> through. \<open>None\<close> means that execution goes
  on.
\<close>

definition PAuth_BType_check :: "SystemPAuthOp \<Rightarrow> simulator \<Rightarrow> sim_error option" where
  "PAuth_BType_check i s =
    (if PcIsInGuardedPage s then
       (if i = PACIASP \<or> i = PACIBSP then
          (case ReadBType s of
             BranchFromGuardedNotToIP \<Rightarrow> None
           | DefaultBType \<Rightarrow> None
           | BranchFromUnguardedOrToIP \<Rightarrow> None
           | BranchAndLink \<Rightarrow> None)
        else None)
     else None)"

definition pauth_system_dst :: "SystemPAuthOp \<Rightarrow> nat" where
  "pauth_system_dst i = (if i \<in> {PACIA1716, AUTIA1716, PACIB1716, AUTIB1716} then 17 else 30)"

definition pauth_system_mod :: "SystemPAuthOp \<Rightarrow> simulator \<Rightarrow> u64" where
  "pauth_system_mod i s =
    (if i \<in> {PACIA1716, AUTIA1716, PACIB1716, AUTIB1716} then ReadXRegister s 16
     else if i \<in> {PACIAZ, AUTIAZ, PACIBZ, AUTIBZ} then 0
     else ReadRegister s 31 Reg31IsStackPointer)"

definition pauth_system_key :: "SystemPAuthOp \<Rightarrow> PACKey" where
  "pauth_system_key i =
    (if i \<in> {PACIA1716, AUTIA1716, PACIAZ, AUTIAZ, PACIASP, AUTIASP} then kPACKeyIA
     else kPACKeyIB)"

definition pauth_system_is_pac :: "SystemPAuthOp \<Rightarrow> bool" where
  "pauth_system_is_pac i = (i \<in> {PACIA1716, PACIB1716, PACIAZ, PACIBZ, PACIASP, PACIBSP})"

definition VisitSystem :: "pac_config \<Rightarrow> SystemInstr \<Rightarrow> simulator \<Rightarrow> sim_error + simulator" where
  "VisitSystem cfg instr s =
    (case instr of
       XPACLRI \<Rightarrow>
         Inr (WriteXRegister 30 (StripPAC cfg (ReadXRegister s 30) kInstructionPointer) s)
     | SystemPAuth i \<Rightarrow>
         (case PAuth_BType_check i s of
            Some e \<Rightarrow> Inl e
          | None \<Rightarrow>
              (let dst = pauth_system_dst i;
                   ptr = ReadXRegister s dst;
                   modifier = pauth_system_mod i s;
                   key = pauth_system_key i
               in if pauth_system_is_pac i
                  then Inr (WriteXRegister dst (AddPAC cfg ptr modifier key kInstructionPointer) s)
                  else Inr (WriteXRegister dst (AuthPAC cfg ptr modifier key kInstructionPointer) s)))
     | CLREX \<Rightarrow> Inr (Clear s)
     | Hint h \<Rightarrow>
         (case h of
            NOP \<Rightarrow> Inr s
          | ESB \<Rightarrow> Inr s
          | CSDB \<Rightarrow> Inr s
          | BTI_jc \<Rightarrow> Inr s
          | BTI \<Rightarrow>
              (if PcIsInGuardedPage s \<and> ReadBType s \<noteq> DefaultBType
               then Inl (AbortWithMsg ''Executing BTI with wrong BType.'')
               else Inr s)
          | BTI_c \<Rightarrow>
              (if PcIsInGuardedPage s \<and> ReadBType s = BranchFromGuardedNotToIP
               then Inl (AbortWithMsg ''Executing BTI c with wrong BType.'')
               else Inr s)
          | BTI_j \<Rightarrow>
              (if PcIsInGuardedPage s \<and> ReadBType s = BranchAndLink
               then Inl (AbortWithMsg ''Executing BTI j with wrong BType.'')
               else Inr s)
          | OtherHint \<Rightarrow> Inl Unimplemented))"

section \<open>Integer division\<close>

text \<open>
  The division opcodes of \<open>VisitDataProcessing2Source\<close>; the variable shifts, \<open>PACGA\<close>
  and the CRC32 cases of the source are not modelled. For a division \<open>shift_op\<close> stays
  \<open>NO_SHIFT\<close>, so the handler ends by writing \<open>result\<close> to the destination. C++
  division of signed integers truncates towards zero: it is \<open>sdiv\<close> on the signed
  values. The result is an \<open>int64_t\<close>: a signed 32-bit quotient is sign-extended into
  it, an unsigned one zero-extended.
\<close>

datatype DataProcessing2SourceOp = SDIV_w | SDIV_x | UDIV_w | UDIV_x

definition division_result :: "DataProcessing2SourceOp \<Rightarrow> Instruction \<Rightarrow> simulator \<Rightarrow> u64" where
  "division_result op instr s =
    (case op of
       SDIV_w \<Rightarrow>
         (let rn = ReadWRegister s (GetRn instr);
              rm = ReadWRegister s (GetRm instr)
          in if rn = kWMinInt \<and> rm = - 1 then scast kWMinInt
             else if rm = 0 then 0
             else scast (word_of_int (sint rn sdiv sint rm) :: 32 word))
     | SDIV_x \<Rightarrow>
         (let rn = ReadXRegister s (GetRn instr);
              rm = ReadXRegister s (GetRm instr)
          in if rn = kXMinInt \<and> rm = - 1 then kXMinInt
             else if rm = 0 then 0
             else word_of_int (sint rn sdiv sint rm))
     | UDIV_w \<Rightarrow>
         (let rn = ReadWRegister s (GetRn instr);
              rm = ReadWRegister s (GetRm instr)
          in if rm = 0 then 0 else ucast (rn div rm))
     | UDIV_x \<Rightarrow>
         (let rn = ReadXRegister s (GetRn instr);
              rm = ReadXRegister s (GetRm instr)
          in if rm = 0 then 0 else rn div rm))"

definition VisitDataProcessing2Source ::
    "DataProcessing2SourceOp \<Rightarrow> Instruction \<Rightarrow> simulator \<Rightarrow> sim_error + simulator" where
  "VisitDataProcessing2Source op instr s =
    (let reg_size = (if GetSixtyFourBits instr then kXRegSize else kWRegSize);
         result = division_result op instr s
     in Inr (WriteRegisterSized reg_size (GetRd instr) result s))"

section \<open>Compare and swap\<close>

text \<open>
  The helpers below are templates over the element type \<open>T\<close> in the source. The type
  argument is the word type \<open>'a\<close> here, so \<open>sizeof(T)\<close> is \<open>LENGTH('a) div 8\<close>. The
  memory barriers of the acquire and release forms (\<open>__sync_synchronize\<close>) and the trace
  calls do not change the state of a single simulator and are left out.
\<close>

text \<open>\<open>Simulator::CompareAndSwapHelper<T>\<close>.\<close>

definition CompareAndSwapHelper ::
    "'a::len itself \<Rightarrow> host \<Rightarrow> Instruction \<Rightarrow> simulator \<Rightarrow> sim_error + simulator" where
  "CompareAndSwapHelper T h instr s =
    (let rs = GetRs instr;
         rt = GetRt instr;
         rn = GetRn instr;
         element_size = LENGTH('a) div 8;
         address = (ReadRegister s rn Reg31IsStackPointer :: u64)
     in if \<not> CheckIsValidUnalignedAtomicAccess h rn address element_size
        then Inl AlignmentException
        else
          (let comparevalue = (ReadRegister s rs Reg31IsZeroRegister :: 'a word);
               newvalue = (ReadRegister s rt Reg31IsZeroRegister :: 'a word);
               s1 = Clear s;
               data = (Memory_Read (memory s1) address :: 'a word);
               s2 = (if data = comparevalue
                     then s1\<lparr>memory := Memory_Write (memory s1) address newvalue\<rparr>
                     else s1)
           in Inr (WriteRegister rs data Reg31IsZeroRegister s2)))"

text \<open>
  \<open>Simulator::CompareAndSwapPairHelper<T>\<close>. The value called \<open>high\<close> is the one at
  the base address and belongs to registers \<open>rs + 1\<close> and \<open>rt + 1\<close>; the value called
  \<open>low\<close> is the one at \<open>address + sizeof(T)\<close> and belongs to \<open>rs\<close> and \<open>rt\<close>. The
  source asserts that \<open>rs\<close> is even and that \<open>sizeof(T)\<close> is 4 or 8; the assertions
  are not part of the model.
\<close>

definition CompareAndSwapPairHelper ::
    "'a::len itself \<Rightarrow> host \<Rightarrow> Instruction \<Rightarrow> simulator \<Rightarrow> sim_error + simulator" where
  "CompareAndSwapPairHelper T h instr s =
    (let rs = GetRs instr;
         rt = GetRt instr;
         rn = GetRn instr;
         element_size = LENGTH('a) div 8;
         address = (ReadRegister s rn Reg31IsStackPointer :: u64)
     in if \<not> CheckIsValidUnalignedAtomicAccess h rn address (element_size * 2)
        then Inl AlignmentException
        else
          (let address2 = address + of_nat element_size;
               comparevalue_high = (ReadRegister s (rs + 1) Reg31IsZeroRegister :: 'a word);
               comparevalue_low = (ReadRegister s rs Reg31IsZeroRegister :: 'a word);
               newvalue_high = (ReadRegister s (rt + 1) Reg31IsZeroRegister :: 'a word);
               newvalue_low = (ReadRegister s rt Reg31IsZeroRegister :: 'a word);
               s1 = Clear s;
               data_high = (Memory_Read (memory s1) address :: 'a word);
               data_low = (Memory_Read (memory s1) address2 :: 'a word);
               same = (data_high = comparevalue_high \<and> data_low = comparevalue_low);
               s2 = (if same
                     then s1\<lparr>memory :=
                            Memory_Write (Memory_Write (memory s1) address newvalue_high)
                              address2 newvalue_low\<rparr>
                     else s1)
           in Inr (WriteRegister rs data_low Reg31IsZeroRegister
                    (WriteRegister (rs + 1) data_high Reg31IsZeroRegister s2))))"

section \<open>Atomic memory operations\<close>

text \<open>
  The values of \<open>instr->Mask(AtomicMemorySimpleOpMask)\<close>, and the opcodes of
  \<open>VisitAtomicMemory\<close>. The source builds the case labels of the simple operations with
  macros, from the operation, the ordering suffix (none, \<open>A\<close>, \<open>L\<close>, \<open>AL\<close>) and the
  size suffix (\<open>B\<close>, \<open>H\<close>, \<open>_w\<close>, \<open>_x\<close>); the opcode is that triple here.
\<close>

datatype AtomicMemorySimpleOp =
    LDADDOp | LDCLROp | LDEOROp | LDSETOp | LDSMAXOp | LDSMINOp | LDUMAXOp | LDUMINOp

datatype AtomicOrdering = NoOrdering | Ordering_A | Ordering_L | Ordering_AL

datatype AtomicSize = Size_B | Size_H | Size_w | Size_x

datatype AtomicMemoryOp =
    AtomicSimple AtomicMemorySimpleOp AtomicOrdering AtomicSize
  | SWP AtomicOrdering AtomicSize
  | LDAPR AtomicSize

text \<open>
  \<open>Simulator::AtomicMemorySimpleHelper<T>\<close>. Whether \<open>T\<close> is a signed type is the
  argument \<open>is_signed\<close>: it decides how \<open>data > value\<close> compares. The source asserts
  that \<open>T\<close> is unsigned in the three bitwise cases; the assertions are not part of the
  model.
\<close>

definition greater_T :: "bool \<Rightarrow> 'a::len word \<Rightarrow> 'a word \<Rightarrow> bool" where
  "greater_T is_signed x y = (if is_signed then sint y < sint x else y < x)"

text \<open>The switch over the operation: the new value from the old value and the source.\<close>

definition atomic_result ::
    "bool \<Rightarrow> AtomicMemorySimpleOp \<Rightarrow> 'a::len word \<Rightarrow> 'a word \<Rightarrow> 'a word" where
  "atomic_result is_signed op data val =
    (case op of
       LDADDOp \<Rightarrow> data + val
     | LDCLROp \<Rightarrow> data AND NOT val
     | LDEOROp \<Rightarrow> data XOR val
     | LDSETOp \<Rightarrow> data OR val
     | LDSMAXOp \<Rightarrow> (if greater_T is_signed data val then data else val)
     | LDUMAXOp \<Rightarrow> (if greater_T is_signed data val then data else val)
     | LDSMINOp \<Rightarrow> (if greater_T is_signed data val then val else data)
     | LDUMINOp \<Rightarrow> (if greater_T is_signed data val then val else data))"

definition AtomicMemorySimpleHelper ::
    "'a::len itself \<Rightarrow> bool \<Rightarrow> AtomicMemorySimpleOp \<Rightarrow> host \<Rightarrow> Instruction \<Rightarrow> simulator
      \<Rightarrow> sim_error + simulator" where
  "AtomicMemorySimpleHelper T is_signed op h instr s =
    (let rs = GetRs instr;
         rt = GetRt instr;
         rn = GetRn instr;
         element_size = LENGTH('a) div 8;
         address = (ReadRegister s rn Reg31IsStackPointer :: u64)
     in if \<not> CheckIsValidUnalignedAtomicAccess h rn address element_size
        then Inl AlignmentException
        else
          (let val = (ReadRegister s rs Reg31IsZeroRegister :: 'a word);
               data = (Memory_Read (memory s) address :: 'a word);
               result = atomic_result is_signed op data val;
               s1 = s\<lparr>memory := Memory_Write (memory s) address result\<rparr>
           in Inr (WriteRegister rt data Reg31IsZeroRegister s1)))"

text \<open>\<open>Simulator::AtomicMemorySwapHelper<T>\<close>.\<close>

definition AtomicMemorySwapHelper ::
    "'a::len itself \<Rightarrow> host \<Rightarrow> Instruction \<Rightarrow> simulator \<Rightarrow> sim_error + simulator" where
  "AtomicMemorySwapHelper T h instr s =
    (let rs = GetRs instr;
         rt = GetRt instr;
         rn = GetRn instr;
         element_size = LENGTH('a) div 8;
         address = (ReadRegister s rn Reg31IsStackPointer :: u64)
     in if \<not> CheckIsValidUnalignedAtomicAccess h rn address element_size
        then Inl AlignmentException
        else
          (let data = (Memory_Read (memory s) address :: 'a word);
               s1 = s\<lparr>memory :=
                      Memory_Write (memory s) address
                        (ReadRegister s rs Reg31IsZeroRegister :: 'a word)\<rparr>
           in Inr (WriteRegister rt data Reg31IsZeroRegister s1)))"

text \<open>\<open>Simulator::LoadAcquireRCpcHelper<T>\<close>.\<close>

definition LoadAcquireRCpcHelper ::
    "'a::len itself \<Rightarrow> host \<Rightarrow> Instruction \<Rightarrow> simulator \<Rightarrow> sim_error + simulator" where
  "LoadAcquireRCpcHelper T h instr s =
    (let rt = GetRt instr;
         rn = GetRn instr;
         element_size = LENGTH('a) div 8;
         address = (ReadRegister s rn Reg31IsStackPointer :: u64)
     in if \<not> CheckIsValidUnalignedAtomicAccess h rn address element_size
        then Inl AlignmentException
        else Inr (WriteRegister rt (Memory_Read (memory s) address :: 'a word)
                    Reg31IsZeroRegister s))"

text \<open>
  \<open>Simulator::VisitAtomicMemory\<close>: the signed maximum and minimum run the helper at the
  signed type of the size, every other simple operation at the unsigned type.
\<close>

definition VisitAtomicMemory ::
    "host \<Rightarrow> AtomicMemoryOp \<Rightarrow> Instruction \<Rightarrow> simulator \<Rightarrow> sim_error + simulator" where
  "VisitAtomicMemory h op instr s =
    (case op of
       AtomicSimple sop ord sz \<Rightarrow>
         (let is_signed = (sop = LDSMAXOp \<or> sop = LDSMINOp)
          in case sz of
               Size_B \<Rightarrow> AtomicMemorySimpleHelper TYPE(8) is_signed sop h instr s
             | Size_H \<Rightarrow> AtomicMemorySimpleHelper TYPE(16) is_signed sop h instr s
             | Size_w \<Rightarrow> AtomicMemorySimpleHelper TYPE(32) is_signed sop h instr s
             | Size_x \<Rightarrow> AtomicMemorySimpleHelper TYPE(64) is_signed sop h instr s)
     | SWP ord sz \<Rightarrow>
         (case sz of
            Size_B \<Rightarrow> AtomicMemorySwapHelper TYPE(8) h instr s
          | Size_H \<Rightarrow> AtomicMemorySwapHelper TYPE(16) h instr s
          | Size_w \<Rightarrow> AtomicMemorySwapHelper TYPE(32) h instr s
          | Size_x \<Rightarrow> AtomicMemorySwapHelper TYPE(64) h instr s)
     | LDAPR sz \<Rightarrow>
         (case sz of
            Size_B \<Rightarrow> LoadAcquireRCpcHelper TYPE(8) h instr s
          | Size_H \<Rightarrow> LoadAcquireRCpcHelper TYPE(16) h instr s
          | Size_w \<Rightarrow> LoadAcquireRCpcHelper TYPE(32) h instr s
          | Size_x \<Rightarrow> LoadAcquireRCpcHelper TYPE(64) h instr s))"

section \<open>Example inputs\<close>

text \<open>
  A concrete simulator state, host, pointer-authentication configuration and decoded
  instruction, on which the theorems below are instantiated. Register 1 holds the
  address \<open>0x1000\<close>; memory holds the 32-bit words \<open>0x11223344\<close> at \<open>0x1000\<close> and
  \<open>0x55667788\<close> at \<open>0x1004\<close>, least significant byte first; the local monitor holds the
  reservation of four bytes at \<open>0x1000\<close>. The example host accepts naturally aligned
  accesses.
\<close>

definition example_registers :: "nat \<Rightarrow> u64" where
  "example_registers =
    (\<lambda>_. 0)(1 := 0x1000, 2 := 0xffffffffffffffff, 3 := 0x11223344, 4 := 0xdeadbeef,
            5 := 7, 6 := 0x8000000000000000, 7 := 0x80000000,
            8 := 0x55667788, 9 := 0x11223344)"

definition example_memory :: "u64 \<Rightarrow> 8 word" where
  "example_memory =
    (\<lambda>_. 0)(0x1000 := 0x44, 0x1001 := 0x33, 0x1002 := 0x22, 0x1003 := 0x11,
            0x1004 := 0x88, 0x1005 := 0x77, 0x1006 := 0x66, 0x1007 := 0x55)"

definition example_state :: simulator where
  "example_state =
    \<lparr>registers = example_registers,
     sys_nzcv = \<lparr>flagN = False, flagZ = False, flagC = False, flagV = False\<rparr>,
     memory = example_memory,
     local_monitor = Some (0x1000, 4),
     pc = 0x2000,
     btype = DefaultBType,
     next_btype = DefaultBType,
     guard_pages = True\<rparr>"

definition example_host :: host where
  "example_host =
    \<lparr>CheckIsValidUnalignedAtomicAccess = (\<lambda>rn address sz. unat address mod sz = 0),
     global_IsExclusive = (\<lambda>address sz. True),
     MaybeClear_clears = True\<rparr>"

definition example_pac :: pac_config where
  "example_pac =
    \<lparr>ComputePAC = (\<lambda>ptr modifier key. ptr XOR modifier XOR 0x5a5a5a5a5a5a5a5a),
     CalculatePACMask = (\<lambda>kind. 0x007f000000000000),
     TopPACBit = (\<lambda>kind. 55)\<rparr>"

definition example_instr :: Instruction where
  "example_instr =
    \<lparr>GetRd = 0, GetRn = 1, GetRm = 2, GetRs = 3, GetRt = 4, GetRt2 = 5,
     GetSixtyFourBits = False,
     ExtractBit = (\<lambda>_. 0),
     GetNextInstruction = 0x2004,
     GetLdStXNotExclusive = False,
     GetLdStXAcquireRelease = False,
     GetLdStXLoad = False,
     GetLdStXPair = False,
     GetLdStXSizeLog2 = 2\<rparr>"

section \<open>Load and store exclusive\<close>

text \<open>
  The values of \<open>instr->Mask(LoadStoreExclusiveMask)\<close> that \<open>VisitLoadStoreExclusive\<close>
  names.
\<close>

datatype LoadStoreExclusive =
    CAS_w | CASA_w | CASL_w | CASAL_w
  | CAS_x | CASA_x | CASL_x | CASAL_x
  | CASB | CASAB | CASLB | CASALB
  | CASH | CASAH | CASLH | CASALH
  | CASP_w | CASPA_w | CASPL_w | CASPAL_w
  | CASP_x | CASPA_x | CASPL_x | CASPAL_x
  | LDXRB_w | LDAXRB_w | LDARB_w | LDLARB
  | LDXRH_w | LDAXRH_w | LDARH_w | LDLARH
  | LDXR_w | LDAXR_w | LDAR_w | LDLAR_w
  | LDXR_x | LDAXR_x | LDAR_x | LDLAR_x
  | LDXP_w | LDAXP_w
  | LDXP_x | LDAXP_x
  | STXRB_w | STLXRB_w | STLRB_w | STLLRB
  | STXRH_w | STLXRH_w | STLRH_w | STLLRH
  | STXR_w | STLXR_w | STLR_w | STLLR_w
  | STXR_x | STLXR_x | STLR_x | STLLR_x
  | STXP_w | STLXP_w
  | STXP_x | STLXP_x

text \<open>
  The inner switch of the load branch: the access width follows the opcode, the second
  address of a pair follows \<open>element_size\<close>. An opcode outside the load cases reaches
  \<open>VIXL_UNREACHABLE\<close>.
\<close>

definition exclusive_load ::
    "LoadStoreExclusive \<Rightarrow> u64 \<Rightarrow> nat \<Rightarrow> nat \<Rightarrow> nat \<Rightarrow> simulator \<Rightarrow> sim_error + simulator" where
  "exclusive_load op address element_size rt rt2 s =
    (if op \<in> {LDXRB_w, LDAXRB_w, LDARB_w, LDLARB} then
       Inr (WriteWRegister rt (ucast (Memory_Read (memory s) address :: 8 word)) s)
     else if op \<in> {LDXRH_w, LDAXRH_w, LDARH_w, LDLARH} then
       Inr (WriteWRegister rt (ucast (Memory_Read (memory s) address :: 16 word)) s)
     else if op \<in> {LDXR_w, LDAXR_w, LDAR_w, LDLAR_w} then
       Inr (WriteWRegister rt (Memory_Read (memory s) address) s)
     else if op \<in> {LDXR_x, LDAXR_x, LDAR_x, LDLAR_x} then
       Inr (WriteXRegister rt (Memory_Read (memory s) address) s)
     else if op \<in> {LDXP_w, LDAXP_w} then
       Inr (WriteWRegister rt2 (Memory_Read (memory s) (address + of_nat element_size))
             (WriteWRegister rt (Memory_Read (memory s) address) s))
     else if op \<in> {LDXP_x, LDAXP_x} then
       Inr (WriteXRegister rt2 (Memory_Read (memory s) (address + of_nat element_size))
             (WriteXRegister rt (Memory_Read (memory s) address) s))
     else Inl Unreachable)"

text \<open>
  The inner switch of the store branch. The stored values are read from the registers
  when the store is made, that is after the status has been written to \<open>rs\<close>.
\<close>

definition exclusive_store ::
    "LoadStoreExclusive \<Rightarrow> u64 \<Rightarrow> nat \<Rightarrow> nat \<Rightarrow> nat \<Rightarrow> simulator \<Rightarrow> sim_error + simulator" where
  "exclusive_store op address element_size rt rt2 s =
    (if op \<in> {STXRB_w, STLXRB_w, STLRB_w, STLLRB} then
       Inr (s\<lparr>memory := Memory_Write (memory s) address (ucast (ReadWRegister s rt) :: 8 word)\<rparr>)
     else if op \<in> {STXRH_w, STLXRH_w, STLRH_w, STLLRH} then
       Inr (s\<lparr>memory := Memory_Write (memory s) address (ucast (ReadWRegister s rt) :: 16 word)\<rparr>)
     else if op \<in> {STXR_w, STLXR_w, STLR_w, STLLR_w} then
       Inr (s\<lparr>memory := Memory_Write (memory s) address (ReadWRegister s rt)\<rparr>)
     else if op \<in> {STXR_x, STLXR_x, STLR_x, STLLR_x} then
       Inr (s\<lparr>memory := Memory_Write (memory s) address (ReadXRegister s rt)\<rparr>)
     else if op \<in> {STXP_w, STLXP_w} then
       Inr (s\<lparr>memory :=
               Memory_Write (Memory_Write (memory s) address (ReadWRegister s rt))
                 (address + of_nat element_size) (ReadWRegister s rt2)\<rparr>)
     else if op \<in> {STXP_x, STLXP_x} then
       Inr (s\<lparr>memory :=
               Memory_Write (Memory_Write (memory s) address (ReadXRegister s rt))
                 (address + of_nat element_size) (ReadXRegister s rt2)\<rparr>)
     else Inl Unreachable)"

text \<open>
  \<open>Simulator::VisitLoadStoreExclusive\<close>. The compare-and-swap opcodes go to their
  helpers; every other opcode takes the \<open>default\<close> branch, which reads the kind of
  access from the instruction's accessors. \<open>IsExclusive\<close> of the global monitor is only
  asked when the local monitor holds the reservation.
\<close>

definition VisitLoadStoreExclusive ::
    "host \<Rightarrow> LoadStoreExclusive \<Rightarrow> Instruction \<Rightarrow> simulator \<Rightarrow> sim_error + simulator" where
  "VisitLoadStoreExclusive h op instr s =
    (if op \<in> {CAS_w, CASA_w, CASL_w, CASAL_w} then CompareAndSwapHelper TYPE(32) h instr s
     else if op \<in> {CAS_x, CASA_x, CASL_x, CASAL_x} then CompareAndSwapHelper TYPE(64) h instr s
     else if op \<in> {CASB, CASAB, CASLB, CASALB} then CompareAndSwapHelper TYPE(8) h instr s
     else if op \<in> {CASH, CASAH, CASLH, CASALH} then CompareAndSwapHelper TYPE(16) h instr s
     else if op \<in> {CASP_w, CASPA_w, CASPL_w, CASPAL_w}
       then CompareAndSwapPairHelper TYPE(32) h instr s
     else if op \<in> {CASP_x, CASPA_x, CASPL_x, CASPAL_x}
       then CompareAndSwapPairHelper TYPE(64) h instr s
     else
       (let rs = GetRs instr;
            rt = GetRt instr;
            rt2 = GetRt2 instr;
            rn = GetRn instr;
            is_exclusive = \<not> GetLdStXNotExclusive instr;
            is_load = GetLdStXLoad instr;
            is_pair = GetLdStXPair instr;
            element_size = 2 ^ GetLdStXSizeLog2 instr;
            access_size = (if is_pair then element_size * 2 else element_size);
            address = (ReadRegister s rn Reg31IsStackPointer :: u64)
        in if \<not> CheckIsValidUnalignedAtomicAccess h rn address access_size
           then Inl AlignmentException
           else if is_load then
             (let s1 = (if is_exclusive then MarkExclusive address access_size s else Clear s)
              in exclusive_load op address element_size rt rt2 s1)
           else
             (if is_exclusive then
                (let do_store = (IsExclusive s address access_size
                                 \<and> global_IsExclusive h address access_size);
                     s1 = WriteWRegister rs (if do_store then 0 else 1) s;
                     s2 = Clear s1
                 in if do_store then exclusive_store op address element_size rt rt2 s2
                    else Inr s2)
              else exclusive_store op address element_size rt rt2 (MaybeClear h s))))"

section \<open>Verified properties\<close>

subsection \<open>AddWithCarry\<close>

lemma unat_and_mask32: "unat ((w :: 64 word) AND mask 32) = unat w mod 2 ^ 32"
  by (simp only: take_bit_eq_mask [symmetric] unsigned_take_bit_eq) (simp add: take_bit_eq_mod)

lemma res64: "unat (l + r + word_of_int c :: 64 word) = (unat l + unat r + nat c) mod 2^64" if "c = 0 \<or> c = 1"
  using that by (auto simp: unat_word_ariths mod_Suc_eq)

lemma res32: "unat (((l AND mask 32) + (r AND mask 32) + word_of_int c) AND mask 32 :: 64 word) = (unat l + unat r + nat c) mod 2^32" if "c = 0 \<or> c = 1"
proof -
  have d: "(2::nat) ^ 32 dvd 2 ^ 64" by (simp add: le_imp_power_dvd)
  have "unat (((l AND mask 32) + (r AND mask 32) + word_of_int c) AND mask 32 :: 64 word)
      = ((unat l mod 2^32 + unat r mod 2^32 + nat c) mod 2^64) mod 2^32"
    by (simp only: unat_and_mask32 res64 [OF that])
  also have "\<dots> = (unat l mod 2^32 + unat r mod 2^32 + nat c) mod 2^32"
    using d by (simp only: mod_mod_cancel)
  also have "\<dots> = (unat l + unat r + nat c) mod 2^32"
    by (metis mod_add_eq mod_add_left_eq)
  finally show ?thesis .
qed

lemma C64: "((l::64 word) > 0xffffffffffffffff - word_of_int c \<or> 0xffffffffffffffff - word_of_int c - l < r)
   = (unat l + unat r + nat c > 2^64 - 1)" if "c = 0 \<or> c = 1"
proof -
  have lb: "unat l < 2^64" using unsigned_less [of l] by simp
  from that show ?thesis
  proof
    assume c: "c = 0"
    have "unat (0xffffffffffffffff - l) = 2^64 - 1 - unat l"
      using lb by (subst unat_sub) (simp_all add: word_le_nat_alt)
    then show ?thesis using lb c by (auto simp: word_less_nat_alt)
  next
    assume c: "c = 1"
    show ?thesis
    proof (cases "l = 0xffffffffffffffff")
      case True then show ?thesis using c by (simp add: word_less_nat_alt)
    next
      case False
      then have "unat l \<noteq> unat (0xffffffffffffffff :: 64 word)" by (simp only: word_unat_eq_iff [symmetric]) simp
      then have l2: "unat l \<le> 2^64 - 2" using lb by simp
      then have "unat (0xfffffffffffffffe - l) = 2^64 - 2 - unat l"
        by (subst unat_sub) (simp_all add: word_le_nat_alt)
      then show ?thesis using l2 c by (auto simp: word_less_nat_alt)
    qed
  qed
qed

lemma signbit_gen: "((w :: 64 word) AND push_bit n 1 = v AND push_bit n 1) = (bit w n = bit v n)" if "n < 64"
proof
  assume "w AND push_bit n 1 = v AND push_bit n 1"
  then have "bit (w AND push_bit n 1) n = bit (v AND push_bit n 1) n" by simp
  then show "bit w n = bit v n"
    using that by (simp add: bit_and_iff bit_exp_iff)
next
  assume "bit w n = bit v n"
  then show "w AND push_bit n 1 = v AND push_bit n 1"
    by (intro bit_eqI) (auto simp add: bit_and_iff bit_exp_iff)
qed

lemma signbit64: "((w :: 64 word) AND 0x8000000000000000 = v AND 0x8000000000000000) = (bit w 63 = bit v 63)"
  using signbit_gen [of 63 w v] by simp

lemma signbit32: "((w :: 64 word) AND 0x80000000 = v AND 0x80000000) = (bit w 31 = bit v 31)"
  using signbit_gen [of 31 w v] by simp

lemma nflag: "n < 64 \<Longrightarrow> (drop_bit n (w :: 64 word) AND 1 = 1) = bit w n"
  by (simp add: and_one_eq bit_iff_odd_drop_bit mod_2_eq_odd)

lemma CalcNFlag_bit: "0 < reg_size \<Longrightarrow> reg_size \<le> 64 \<Longrightarrow> CalcNFlag w reg_size = bit w (reg_size - 1)"
  unfolding CalcNFlag_def by (rule nflag) simp

lemma and_xmask: "(w :: 64 word) AND 0xffffffffffffffff = w"
proof -
  have "(0xffffffffffffffff :: 64 word) = - 1" by simp
  then show ?thesis by (simp only: and.right_neutral)
qed

lemma AddWithCarry_X:
  assumes c: "carry_in = 0 \<or> carry_in = 1"
  shows "AddWithCarry 64 set_flags left right carry_in flags =
    (left + right + word_of_int carry_in,
     if set_flags then
       flags\<lparr>flagN := bit (left + right + word_of_int carry_in) 63,
             flagZ := (left + right + word_of_int carry_in = 0),
             flagC := (2 ^ 64 - 1 < unat left + unat right + nat carry_in),
             flagV := (bit left 63 = bit right 63 \<and>
                       bit left 63 \<noteq> bit (left + right + word_of_int carry_in) 63)\<rparr>
     else flags)"
  by (simp add: C64 [OF c] AddWithCarry_def Let_def kWRegSize_def kXMaxUInt_def kXRegMask_def
      kXSignMask_def CalcNFlag_bit CalcZFlag_def signbit64 and_xmask)

lemma C32:
  fixes l r :: "64 word"
  assumes c: "c = 0 \<or> c = 1" and l: "unat l < 2 ^ 32" and r: "unat r < 2 ^ 32"
  shows "(l > 0xffffffff - word_of_int c \<or> 0xffffffff - word_of_int c - l < r)
   = (unat l + unat r + nat c > 2^32 - 1)"
proof -
  from c show ?thesis
  proof
    assume c: "c = 0"
    have "unat (0xffffffff - l) = 2^32 - 1 - unat l"
      using l by (subst unat_sub) (simp_all add: word_le_nat_alt)
    then show ?thesis using l c by (auto simp: word_less_nat_alt)
  next
    assume c: "c = 1"
    show ?thesis
    proof (cases "l = 0xffffffff")
      case True then show ?thesis using c by (simp add: word_less_nat_alt)
    next
      case False
      then have "unat l \<noteq> unat (0xffffffff :: 64 word)" by (simp only: word_unat_eq_iff [symmetric]) simp
      then have l2: "unat l \<le> 2^32 - 2" using l by simp
      then have "unat (0xfffffffe - l) = 2^32 - 2 - unat l"
        by (subst unat_sub) (simp_all add: word_le_nat_alt)
      then show ?thesis using l2 c by (auto simp: word_less_nat_alt)
    qed
  qed
qed

lemma bit31_and_mask: "bit ((w :: 64 word) AND mask 32) 31 = bit w 31"
  by (simp add: bit_and_iff bit_mask_iff)

lemma AddWithCarry_W:
  assumes c: "carry_in = 0 \<or> carry_in = 1"
  shows "AddWithCarry 32 set_flags left right carry_in flags =
    (let l = left AND mask 32; r = right AND mask 32;
         result = (l + r + word_of_int carry_in) AND mask 32 in
    (result,
     if set_flags then
       flags\<lparr>flagN := bit result 31,
             flagZ := (result = 0),
             flagC := (2 ^ 32 - 1 < unat l + unat r + nat carry_in),
             flagV := (bit l 31 = bit r 31 \<and> bit l 31 \<noteq> bit result 31)\<rparr>
     else flags))"
proof -
  have m: "(0xffffffff :: 64 word) = mask 32" by (simp add: mask_eq_exp_minus_1)
  have lb: "unat (left AND mask 32) < 2 ^ 32" and rb: "unat (right AND mask 32) < 2 ^ 32"
    by (simp_all add: unat_and_mask32)
  show ?thesis
    by (simp add: C32 [OF c lb rb, unfolded m] AddWithCarry_def Let_def kWRegSize_def kWMaxUInt_def kWRegMask_def
      kWSignMask_def CalcNFlag_bit CalcZFlag_def signbit32 m)
qed

lemma mask64_word: "(w :: 64 word) AND mask 64 = w"
  by (simp add: take_bit_eq_mask [symmetric] take_bit_word_eq_self)

text \<open>
  Claim C1. For a register size of 32 or 64 and a carry of 0 or 1, \<open>AddWithCarry\<close>
  returns \<open>(left + right + carry_in) mod 2^size\<close>. When \<open>set_flags\<close> holds, N is the
  sign bit of the result, Z says whether the result is zero, C holds iff the unsigned sum
  of the two operands (taken at the register size) and the carry exceeds the largest
  unsigned value of the size, and V holds iff the operands have the same sign bit and
  the result's sign bit differs from it. Without \<open>set_flags\<close> the flags are unchanged.
\<close>

theorem AddWithCarry_result_and_flags:
  assumes sz: "reg_size = 32 \<or> reg_size = 64" and c: "carry_in = 0 \<or> carry_in = 1"
  shows "(let l = left AND mask reg_size;
              r = right AND mask reg_size;
              result = fst (AddWithCarry reg_size set_flags left right carry_in flags);
              flags' = snd (AddWithCarry reg_size set_flags left right carry_in flags);
              sign = (\<lambda>w :: u64. bit w (reg_size - 1))
          in unat result = (unat left + unat right + nat carry_in) mod 2 ^ reg_size
           \<and> flags' =
               (if set_flags then
                  flags\<lparr>flagN := sign result,
                        flagZ := (result = 0),
                        flagC := (2 ^ reg_size - 1 < unat l + unat r + nat carry_in),
                        flagV := (sign l = sign r \<and> sign l \<noteq> sign result)\<rparr>
                else flags))"
  using sz
proof
  assume "reg_size = 32"
  then show ?thesis
    by (simp add: AddWithCarry_W [OF c] Let_def res32 [OF c] bit31_and_mask)
next
  assume "reg_size = 64"
  then show ?thesis
    by (simp add: AddWithCarry_X [OF c] Let_def res64 [OF c] mask64_word)
qed

text \<open>
  The addition \<open>0x7fffffff + 1\<close> at 32 bits: the result is \<open>0x80000000\<close> with N and V
  set, Z and C clear.
\<close>

theorem AddWithCarry_result_and_flags_witness:
  "((32::nat) = 32 \<or> (32::nat) = 64) \<and> ((0::int) = 0 \<or> (0::int) = 1)
   \<and> AddWithCarry 32 True 0x7fffffff 1 0 \<lparr>flagN = False, flagZ = True, flagC = True, flagV = False\<rparr>
     = (0x80000000, \<lparr>flagN = True, flagZ = False, flagC = False, flagV = True\<rparr>)"
  using AddWithCarry_result_and_flags [where reg_size = 32 and carry_in = 0
      and left = "0x7fffffff" and right = 1 and set_flags = True
      and flags = "\<lparr>flagN = False, flagZ = True, flagC = True, flagV = False\<rparr>"]
  by (simp add: AddWithCarry_def kWRegSize_def kWMaxUInt_def kWRegMask_def kWSignMask_def
      CalcNFlag_def CalcZFlag_def Let_def)

lemmas example_defs = example_state_def example_registers_def example_memory_def
  example_host_def example_instr_def example_pac_def

subsection \<open>ShiftOperand and ExtendValue with a zero amount\<close>

lemma ShiftOperand_zero: "ShiftOperand reg_size v shift_type 0 = Inr v"
  by (simp add: ShiftOperand_def)

lemma sign_extend_gen:
  fixes v :: "64 word"
  assumes "n < 63"
  shows "(if (v AND mask (Suc n)) AND 2 ^ n = 0 then v AND mask (Suc n)
          else (v AND mask (Suc n)) OR NOT (mask (Suc n)))
         = signed_take_bit n v"
proof -
  have "bit ((v AND mask (Suc n)) AND 2 ^ n) n = bit v n"
    using assms by (simp add: bit_and_iff bit_mask_iff bit_exp_iff)
  moreover have "((v AND mask (Suc n)) AND 2 ^ n = 0) = (\<not> bit ((v AND mask (Suc n)) AND 2 ^ n) n)"
    using assms by (simp add: and_exp_eq_0_iff_not_bit bit_and_iff bit_exp_iff)
  ultimately have b: "((v AND mask (Suc n)) AND 2 ^ n = 0) = (\<not> bit v n)" by simp
  show ?thesis
    unfolding b
    by (rule bit_eqI)
      (auto simp add: bit_signed_take_bit_iff bit_and_iff bit_or_iff bit_mask_iff
        bit_not_iff min_def less_Suc_eq_le)
qed

lemma sxtb: "(if (v AND 255) AND 128 = 0 then v AND 255 else v AND 255 OR NOT (mask 8))
             = signed_take_bit 7 (v :: 64 word)"
proof -
  have e: "(255 :: 64 word) = mask (Suc 7)" "(128 :: 64 word) = 2 ^ 7" "(mask 8 :: 64 word) = mask (Suc 7)"
    by (simp_all add: mask_eq_exp_minus_1)
  show ?thesis unfolding e by (rule sign_extend_gen) simp
qed

lemma sxth: "(if (v AND 65535) AND 32768 = 0 then v AND 65535 else v AND 65535 OR NOT (mask 16))
             = signed_take_bit 15 (v :: 64 word)"
proof -
  have e: "(65535 :: 64 word) = mask (Suc 15)" "(32768 :: 64 word) = 2 ^ 15"
      "(mask 16 :: 64 word) = mask (Suc 15)"
    by (simp_all add: mask_eq_exp_minus_1)
  show ?thesis unfolding e by (rule sign_extend_gen) simp
qed

lemma sxtw: "(if (v AND 4294967295) AND 2147483648 = 0 then v AND 4294967295
              else v AND 4294967295 OR NOT (mask 32))
             = signed_take_bit 31 (v :: 64 word)"
proof -
  have e: "(4294967295 :: 64 word) = mask (Suc 31)" "(2147483648 :: 64 word) = 2 ^ 31"
      "(mask 32 :: 64 word) = mask (Suc 31)"
    by (simp_all add: mask_eq_exp_minus_1)
  show ?thesis unfolding e by (rule sign_extend_gen) simp
qed

lemma uxt: "(v :: 64 word) AND 255 = take_bit 8 v" "v AND 65535 = take_bit 16 v"
   "v AND 4294967295 = take_bit 32 v"
  by (simp_all add: take_bit_eq_mask mask_eq_exp_minus_1)

lemma ExtendValue_zero_shift:
  "ExtendValue reg_size v extend_type 0 =
    (case extend_type of
       UXTB \<Rightarrow> Inr (take_bit 8 v)
     | UXTH \<Rightarrow> Inr (take_bit 16 v)
     | UXTW \<Rightarrow> Inr (take_bit 32 v)
     | SXTB \<Rightarrow> Inr (signed_take_bit 7 v)
     | SXTH \<Rightarrow> Inr (signed_take_bit 15 v)
     | SXTW \<Rightarrow> Inr (signed_take_bit 31 v)
     | UXTX \<Rightarrow> Inr v
     | SXTX \<Rightarrow> Inr v
     | NO_EXTEND \<Rightarrow> Inl Unreachable)"
proof (cases extend_type)
  case SXTB
  then show ?thesis using sxtb [of v]
    by (simp add: ExtendValue_def ShiftOperand_zero Let_def kByteMask_def split: if_splits)
next
  case SXTH
  then show ?thesis using sxth [of v]
    by (simp add: ExtendValue_def ShiftOperand_zero Let_def kHalfWordMask_def split: if_splits)
next
  case SXTW
  then show ?thesis using sxtw [of v]
    by (simp add: ExtendValue_def ShiftOperand_zero Let_def kWordMask_def split: if_splits)
qed (simp_all add: ExtendValue_def ShiftOperand_zero kByteMask_def kHalfWordMask_def
      kWordMask_def uxt)

text \<open>
  Claim C6, as stated, fails for \<open>ExtendValue\<close>: with \<open>left_shift = 0\<close> the unsigned
  byte extension of \<open>0x1ff\<close> is \<open>0xff\<close>, not the input.
\<close>

theorem ExtendValue_zero_shift_counterexample:
  "ExtendValue 64 0x1ff UXTB 0 = Inr 0xff \<and> ExtendValue 64 0x1ff UXTB 0 \<noteq> Inr 0x1ff"
  by (simp add: ExtendValue_def ShiftOperand_def kByteMask_def)

text \<open>
  Claim C6, amended. For every register size, value and shift kind, \<open>ShiftOperand\<close> with
  amount 0 returns its input unchanged. \<open>ExtendValue\<close> with \<open>left_shift = 0\<close> returns the
  extension of its input with no shift applied: the low 8, 16 or 32 bits zero-extended
  for \<open>UXTB\<close>, \<open>UXTH\<close>, \<open>UXTW\<close>, sign-extended to 64 bits for \<open>SXTB\<close>, \<open>SXTH\<close>,
  \<open>SXTW\<close>, and the input itself for \<open>UXTX\<close> and \<open>SXTX\<close>.
\<close>

theorem ShiftOperand_ExtendValue_zero_amount:
  "ShiftOperand reg_size v shift_type 0 = Inr v
 \<and> ExtendValue reg_size v extend_type 0 =
    (case extend_type of
       UXTB \<Rightarrow> Inr (take_bit 8 v)
     | UXTH \<Rightarrow> Inr (take_bit 16 v)
     | UXTW \<Rightarrow> Inr (take_bit 32 v)
     | SXTB \<Rightarrow> Inr (signed_take_bit 7 v)
     | SXTH \<Rightarrow> Inr (signed_take_bit 15 v)
     | SXTW \<Rightarrow> Inr (signed_take_bit 31 v)
     | UXTX \<Rightarrow> Inr v
     | SXTX \<Rightarrow> Inr v
     | NO_EXTEND \<Rightarrow> Inl Unreachable)"
  using ShiftOperand_zero ExtendValue_zero_shift by (rule conjI)

theorem ShiftOperand_ExtendValue_zero_amount_witness:
  "ShiftOperand 64 0x1ff ASR 0 = Inr 0x1ff \<and> ExtendValue 64 0x1ff SXTB 0 = Inr (- 1)
 \<and> ExtendValue 32 0x1ff UXTB 0 = Inr 0xff \<and> ExtendValue 64 0x1ff UXTX 0 = Inr 0x1ff"
  using ShiftOperand_ExtendValue_zero_amount [of 64 "0x1ff" ASR SXTB]
    ShiftOperand_ExtendValue_zero_amount [of 32 "0x1ff" ASR UXTB]
    ShiftOperand_ExtendValue_zero_amount [of 64 "0x1ff" ASR UXTX]
  by (simp add: signed_take_bit_eq_take_bit_minus take_bit_eq_mask mask_eq_exp_minus_1)

subsection \<open>Integer division\<close>

lemma div_zero_w:
  assumes "op = SDIV_w \<or> op = UDIV_w" and "ReadWRegister s (GetRm instr) = 0"
  shows "division_result op instr s = 0"
  using assms by (auto simp add: division_result_def Let_def kWMinInt_def)

lemma div_zero_x:
  assumes "op = SDIV_x \<or> op = UDIV_x" and "ReadXRegister s (GetRm instr) = 0"
  shows "division_result op instr s = 0"
  using assms by (auto simp add: division_result_def Let_def kXMinInt_def)

lemma div_min_w:
  assumes "ReadWRegister s (GetRn instr) = kWMinInt" and "ReadWRegister s (GetRm instr) = - 1"
  shows "division_result SDIV_w instr s = scast kWMinInt"
  using assms by (simp add: division_result_def)

lemma div_min_x:
  assumes "ReadXRegister s (GetRn instr) = kXMinInt" and "ReadXRegister s (GetRm instr) = - 1"
  shows "division_result SDIV_x instr s = kXMinInt"
  using assms by (simp add: division_result_def)

lemma WriteRegisterSized_zero: "WriteRegisterSized reg_size code 0 s = WriteXRegister code 0 s"
  by (simp add: WriteRegisterSized_def WriteWRegister_def WriteXRegister_def WriteRegister_def)

lemma WriteW_zero: "WriteWRegister code 0 s = WriteXRegister code 0 s"
  by (simp add: WriteWRegister_def WriteXRegister_def WriteRegister_def)

lemma ucast_scast_min: "(ucast (scast kWMinInt :: 64 word) :: 32 word) = kWMinInt"
  by (simp add: kWMinInt_def)

text \<open>
  Claim C4. \<open>SDIV\<close> and \<open>UDIV\<close> with a zero divisor write 0 to the destination, at 32
  and at 64 bits, for every dividend; \<open>SDIV\<close> of the smallest integer by -1 writes the
  smallest integer; and the handler returns a state for every operand, it has no abort.
\<close>

theorem division_by_zero_and_overflow:
  "((op = SDIV_w \<or> op = UDIV_w) \<and> ReadWRegister s (GetRm instr) = 0 \<longrightarrow>
      VisitDataProcessing2Source op instr s = Inr (WriteWRegister (GetRd instr) 0 s))
 \<and> ((op = SDIV_x \<or> op = UDIV_x) \<and> ReadXRegister s (GetRm instr) = 0 \<longrightarrow>
      VisitDataProcessing2Source op instr s = Inr (WriteXRegister (GetRd instr) 0 s))
 \<and> (\<not> GetSixtyFourBits instr \<and> ReadWRegister s (GetRn instr) = kWMinInt
        \<and> ReadWRegister s (GetRm instr) = - 1 \<longrightarrow>
      VisitDataProcessing2Source SDIV_w instr s = Inr (WriteWRegister (GetRd instr) kWMinInt s))
 \<and> (GetSixtyFourBits instr \<and> ReadXRegister s (GetRn instr) = kXMinInt
        \<and> ReadXRegister s (GetRm instr) = - 1 \<longrightarrow>
      VisitDataProcessing2Source SDIV_x instr s = Inr (WriteXRegister (GetRd instr) kXMinInt s))
 \<and> (\<exists>s'. VisitDataProcessing2Source op instr s = Inr s')"
  by (auto simp add: VisitDataProcessing2Source_def Let_def WriteRegisterSized_zero WriteW_zero
      div_zero_w div_zero_x div_min_w div_min_x)
    (simp_all add: WriteRegisterSized_def kWRegSize_def kXRegSize_def ucast_scast_min)

theorem division_by_zero_and_overflow_witness:
  "VisitDataProcessing2Source SDIV_w (example_instr\<lparr>GetRn := 5, GetRm := 0\<rparr>) example_state
     = Inr (WriteWRegister 0 0 example_state)
 \<and> VisitDataProcessing2Source UDIV_x
       (example_instr\<lparr>GetRn := 5, GetRm := 0, GetSixtyFourBits := True\<rparr>) example_state
     = Inr (WriteXRegister 0 0 example_state)
 \<and> VisitDataProcessing2Source SDIV_w (example_instr\<lparr>GetRn := 7\<rparr>) example_state
     = Inr (WriteWRegister 0 0x80000000 example_state)
 \<and> VisitDataProcessing2Source SDIV_x
       (example_instr\<lparr>GetRn := 6, GetSixtyFourBits := True\<rparr>) example_state
     = Inr (WriteXRegister 0 0x8000000000000000 example_state)"
  using division_by_zero_and_overflow [of SDIV_w example_state "example_instr\<lparr>GetRn := 5, GetRm := 0\<rparr>"]
    division_by_zero_and_overflow [of UDIV_x example_state
      "example_instr\<lparr>GetRn := 5, GetRm := 0, GetSixtyFourBits := True\<rparr>"]
    division_by_zero_and_overflow [of SDIV_w example_state "example_instr\<lparr>GetRn := 7\<rparr>"]
    division_by_zero_and_overflow [of SDIV_x example_state
      "example_instr\<lparr>GetRn := 6, GetSixtyFourBits := True\<rparr>"]
  by (simp add: example_state_def example_registers_def example_instr_def
      ReadWRegister_def ReadXRegister_def ReadRegister_def kZeroRegCode_def kWMinInt_def kXMinInt_def)

subsection \<open>The guarded-branch state\<close>

lemma GetBType_cases:
  "GetBTypeFromInstruction op instr s =
    (if op \<in> {BLR, BLRAA, BLRAB, BLRAAZ, BLRABZ} then BranchAndLink
     else if op \<in> {BR, BRAA, BRAB, BRAAZ, BRABZ} then
       (if GetRn instr = 16 \<or> GetRn instr = 17 \<or> \<not> PcIsInGuardedPage s
        then BranchFromUnguardedOrToIP else BranchFromGuardedNotToIP)
     else DefaultBType)"
  by (cases op) (simp_all add: GetBTypeFromInstruction_def)

lemma GetBType_frame:
  "guard_pages s' = guard_pages s \<Longrightarrow>
   GetBTypeFromInstruction op instr s' = GetBTypeFromInstruction op instr s"
  by (simp add: GetBTypeFromInstruction_def PcIsInGuardedPage_def)

lemma guard_pages_WriteXRegister: "guard_pages (WriteXRegister c v s) = guard_pages s"
  by (simp add: WriteXRegister_def WriteRegister_def)

lemma Visit_branch_next_btype:
  assumes "VisitUnconditionalBranchToRegister cfg op instr s = Inr s'"
  shows "next_btype s' = GetBTypeFromInstruction op instr s"
proof -
  have g: "guard_pages (WritePc a (if branch_link op then WriteLr n s else s)) = guard_pages s" for a n
    by (simp add: WritePc_def WriteLr_def guard_pages_WriteXRegister)
  show ?thesis
    using assms
    by (auto simp add: VisitUnconditionalBranchToRegister_def Let_def WriteNextBType_def
        GetBType_frame [OF g] split: if_splits)
qed

text \<open>
  Claim C8. The next \<open>BType\<close> is \<open>BranchAndLink\<close> for \<open>BLR\<close> and its authenticated
  variants; for \<open>BR\<close> and its variants it is \<open>BranchFromUnguardedOrToIP\<close> when the branch
  register is 16 or 17 or the program counter is outside a guarded page, and
  \<open>BranchFromGuardedNotToIP\<close> otherwise; for every other instruction it is the default.
  A branch to a register that completes stores this value as the next \<open>BType\<close>.
\<close>

theorem next_btype_of_indirect_branch:
  "GetBTypeFromInstruction op instr s =
    (if op \<in> {BLR, BLRAA, BLRAB, BLRAAZ, BLRABZ} then BranchAndLink
     else if op \<in> {BR, BRAA, BRAB, BRAAZ, BRABZ} then
       (if GetRn instr = 16 \<or> GetRn instr = 17 \<or> \<not> PcIsInGuardedPage s
        then BranchFromUnguardedOrToIP else BranchFromGuardedNotToIP)
     else DefaultBType)
   \<and> (\<forall>s'. VisitUnconditionalBranchToRegister cfg op instr s = Inr s' \<longrightarrow>
          next_btype s' = GetBTypeFromInstruction op instr s)"
  using GetBType_cases Visit_branch_next_btype by blast

theorem next_btype_of_indirect_branch_witness:
  "GetBTypeFromInstruction BLRAA example_instr example_state = BranchAndLink
 \<and> GetBTypeFromInstruction BR example_instr example_state = BranchFromGuardedNotToIP
 \<and> GetBTypeFromInstruction BR (example_instr\<lparr>GetRn := 16\<rparr>) example_state
      = BranchFromUnguardedOrToIP
 \<and> GetBTypeFromInstruction RET example_instr example_state = DefaultBType
 \<and> VisitUnconditionalBranchToRegister example_pac BR example_instr example_state
      = Inr (example_state\<lparr>pc := 0x1000, next_btype := BranchFromGuardedNotToIP\<rparr>)"
  using next_btype_of_indirect_branch [of BLRAA example_instr example_state example_pac]
    next_btype_of_indirect_branch [of BR example_instr example_state example_pac]
    next_btype_of_indirect_branch [of BR "example_instr\<lparr>GetRn := 16\<rparr>" example_state example_pac]
    next_btype_of_indirect_branch [of RET example_instr example_state example_pac]
  by (simp add: example_defs PcIsInGuardedPage_def VisitUnconditionalBranchToRegister_def
      branch_addr_def branch_context_def branch_link_def branch_authenticate_def
      WritePc_def WriteNextBType_def ReadXRegister_def ReadRegister_def kZeroRegCode_def)

text \<open>
  Claim C5, as stated, fails for \<open>PACIASP\<close> and \<open>PACIBSP\<close>: in a guarded page their
  check lets each of the four \<open>BType\<close> values through, and the instruction signs the
  link register instead of aborting.
\<close>

theorem PACIxSP_BType_counterexample:
  "PcIsInGuardedPage example_state
 \<and> PAuth_BType_check PACIASP (example_state\<lparr>btype := BranchFromGuardedNotToIP\<rparr>) = None
 \<and> PAuth_BType_check PACIASP (example_state\<lparr>btype := BranchFromUnguardedOrToIP\<rparr>) = None
 \<and> PAuth_BType_check PACIASP (example_state\<lparr>btype := BranchAndLink\<rparr>) = None
 \<and> PAuth_BType_check PACIASP (example_state\<lparr>btype := DefaultBType\<rparr>) = None
 \<and> PAuth_BType_check PACIBSP (example_state\<lparr>btype := BranchFromGuardedNotToIP\<rparr>) = None
 \<and> PAuth_BType_check PACIBSP (example_state\<lparr>btype := BranchFromUnguardedOrToIP\<rparr>) = None
 \<and> PAuth_BType_check PACIBSP (example_state\<lparr>btype := BranchAndLink\<rparr>) = None
 \<and> PAuth_BType_check PACIBSP (example_state\<lparr>btype := DefaultBType\<rparr>) = None
 \<and> VisitSystem example_pac (SystemPAuth PACIASP)
       (example_state\<lparr>btype := BranchFromGuardedNotToIP\<rparr>)
     = Inr (WriteXRegister 30
             (AddPAC example_pac 0 0 kPACKeyIA kInstructionPointer)
             (example_state\<lparr>btype := BranchFromGuardedNotToIP\<rparr>))"
  by (simp add: PAuth_BType_check_def VisitSystem_def example_defs PcIsInGuardedPage_def
      ReadBType_def pauth_system_dst_def pauth_system_mod_def pauth_system_key_def
      pauth_system_is_pac_def ReadXRegister_def ReadRegister_def kZeroRegCode_def Let_def)

lemma VisitSystem_PAuth_never_aborts:
  "\<exists>s'. VisitSystem cfg (SystemPAuth i) s = Inr s'"
proof -
  have "PAuth_BType_check i s = None"
    by (cases "ReadBType s") (simp_all add: PAuth_BType_check_def)
  then show ?thesis by (simp add: VisitSystem_def Let_def)
qed

text \<open>
  Claim C5, amended. In a guarded page \<open>BTI\<close> aborts iff \<open>BType\<close> is not the default,
  \<open>BTI c\<close> aborts iff it is \<open>BranchFromGuardedNotToIP\<close>, \<open>BTI j\<close> aborts iff it is
  \<open>BranchAndLink\<close>, and \<open>BTI jc\<close> never aborts; outside a guarded page none of them
  aborts. The pointer-authentication system instructions, \<open>PACIASP\<close> and \<open>PACIBSP\<close>
  among them, are never aborted: their \<open>BType\<close> check accepts all four values.
\<close>

theorem BType_checks:
  "VisitSystem cfg (Hint BTI) s =
     (if PcIsInGuardedPage s \<and> ReadBType s \<noteq> DefaultBType
      then Inl (AbortWithMsg ''Executing BTI with wrong BType.'') else Inr s)
 \<and> VisitSystem cfg (Hint BTI_c) s =
     (if PcIsInGuardedPage s \<and> ReadBType s = BranchFromGuardedNotToIP
      then Inl (AbortWithMsg ''Executing BTI c with wrong BType.'') else Inr s)
 \<and> VisitSystem cfg (Hint BTI_j) s =
     (if PcIsInGuardedPage s \<and> ReadBType s = BranchAndLink
      then Inl (AbortWithMsg ''Executing BTI j with wrong BType.'') else Inr s)
 \<and> VisitSystem cfg (Hint BTI_jc) s = Inr s
 \<and> (\<exists>s'. VisitSystem cfg (SystemPAuth i) s = Inr s')"
  using VisitSystem_PAuth_never_aborts [of cfg i s] by (simp add: VisitSystem_def)

theorem BType_checks_witness:
  "VisitSystem example_pac (Hint BTI) (example_state\<lparr>btype := BranchAndLink\<rparr>)
     = Inl (AbortWithMsg ''Executing BTI with wrong BType.'')
 \<and> VisitSystem example_pac (Hint BTI_c) (example_state\<lparr>btype := BranchFromGuardedNotToIP\<rparr>)
     = Inl (AbortWithMsg ''Executing BTI c with wrong BType.'')
 \<and> VisitSystem example_pac (Hint BTI_j) (example_state\<lparr>btype := BranchAndLink\<rparr>)
     = Inl (AbortWithMsg ''Executing BTI j with wrong BType.'')
 \<and> VisitSystem example_pac (Hint BTI_c) (example_state\<lparr>btype := BranchAndLink\<rparr>)
     = Inr (example_state\<lparr>btype := BranchAndLink\<rparr>)"
  using BType_checks [of example_pac "example_state\<lparr>btype := BranchAndLink\<rparr>" PACIASP]
    BType_checks [of example_pac "example_state\<lparr>btype := BranchFromGuardedNotToIP\<rparr>" PACIASP]
  by (simp add: example_defs PcIsInGuardedPage_def ReadBType_def)

subsection \<open>Memory: reading back what was written\<close>

lemma length_to_bytes: "length (to_bytes (v :: 'a::len word)) = LENGTH('a) div 8"
  by (simp add: to_bytes_def)

lemma store_bytes_frame:
  "(\<And>i. i < length bs \<Longrightarrow> x \<noteq> a + of_nat i) \<Longrightarrow> store_bytes m a bs x = m x"
proof (induction bs arbitrary: m a)
  case Nil
  then show ?case by simp
next
  case (Cons b bs)
  have "x \<noteq> a" using Cons.prems [of 0] by simp
  moreover have "store_bytes (m(a := b)) (a + 1) bs x = (m(a := b)) x"
  proof (rule Cons.IH)
    fix i assume "i < length bs"
    then show "x \<noteq> a + 1 + of_nat i" using Cons.prems [of "Suc i"] by (simp add: add.assoc)
  qed
  ultimately show ?case by simp
qed

lemma addr_offset_neq:
  fixes a :: "64 word"
  assumes "i < 2 ^ 64" and "j < 2 ^ 64" and "i \<noteq> j"
  shows "a + of_nat i \<noteq> a + of_nat j"
proof -
  have "(of_nat i :: 64 word) \<noteq> of_nat j"
    using assms by (simp add: word_of_nat_eq_iff take_bit_nat_eq_self)
  then show ?thesis by simp
qed

lemma store_bytes_nth:
  "length bs \<le> 2 ^ 64 \<Longrightarrow> i < length bs \<Longrightarrow> store_bytes m a bs (a + of_nat i) = bs ! i"
proof (induction bs arbitrary: m a i)
  case Nil
  then show ?case by simp
next
  case (Cons b bs)
  show ?case
  proof (cases i)
    case 0
    have "store_bytes (m(a := b)) (a + 1) bs a = (m(a := b)) a"
    proof (rule store_bytes_frame)
      fix k assume k: "k < length bs"
      have "a + of_nat 0 \<noteq> a + of_nat (Suc k)"
        using Cons.prems(1) k by (intro addr_offset_neq) simp_all
      then show "a \<noteq> a + 1 + of_nat k" by (simp add: add.assoc)
    qed
    with 0 show ?thesis by simp
  next
    case (Suc j)
    then have "store_bytes (m(a := b)) (a + 1) bs (a + 1 + of_nat j) = bs ! j"
      using Cons.prems by (intro Cons.IH) simp_all
    with Suc show ?thesis by (simp add: add.assoc)
  qed
qed

lemma load_store_bytes:
  assumes "length bs \<le> 2 ^ 64"
  shows "load_bytes (store_bytes m a bs) a (length bs) = bs"
  by (rule nth_equalityI) (simp_all add: load_bytes_def store_bytes_nth [OF assms])

lemma load_bytes_frame:
  assumes "\<And>i j. i < length bs \<Longrightarrow> j < n \<Longrightarrow> b + of_nat j \<noteq> a + of_nat i"
  shows "load_bytes (store_bytes m a bs) b n = load_bytes m b n"
  unfolding load_bytes_def
  by (rule map_cong [OF refl]) (simp add: store_bytes_frame assms)

lemma bit_from_bytes:
  "bit (from_bytes bs :: 'a::len word) n
     \<longleftrightarrow> n < LENGTH('a) \<and> n div 8 < length bs \<and> bit (bs ! (n div 8)) (n mod 8)"
proof (induction bs arbitrary: n)
  case Nil
  then show ?case by simp
next
  case (Cons b bs)
  show ?case
  proof (cases "n < 8")
    case True
    then show ?thesis
      by (auto simp add: bit_or_iff bit_word_ucast_iff bit_push_bit_iff dest: bit_imp_le_length)
  next
    case False
    then have d: "n div 8 = Suc ((n - 8) div 8)" and m: "n mod 8 = (n - 8) mod 8"
      by (simp_all add: le_div_geq le_mod_geq)
    from False show ?thesis
      by (auto simp add: bit_or_iff bit_word_ucast_iff bit_push_bit_iff Cons.IH d m)
  qed
qed

lemma from_to_bytes:
  assumes "8 dvd LENGTH('a::len)"
  shows "from_bytes (to_bytes v) = (v :: 'a word)"
proof (rule bit_eqI)
  fix n
  assume "possible_bit TYPE('a word) n"
  then have n: "n < LENGTH('a)" by simp
  from assms obtain k where k: "LENGTH('a) = 8 * k" ..
  with n have nd: "n div 8 < LENGTH('a) div 8" by simp
  have "n mod 8 < LENGTH('a)"
    using n by (meson le_less_trans mod_less_eq_dividend)
  then have "bit (ucast (drop_bit (8 * (n div 8)) v) :: 8 word) (n mod 8) = bit v n"
    by (simp add: bit_word_ucast_iff bit_drop_bit_eq n)
  then show "bit (from_bytes (to_bytes v) :: 'a word) n = bit v n"
    using n nd by (simp add: bit_from_bytes length_to_bytes) (simp add: to_bytes_def)
qed

lemma Memory_Read_Write_same:
  assumes "8 dvd LENGTH('a::len)" and "LENGTH('a) \<le> 64"
  shows "Memory_Read (Memory_Write m a (v :: 'a word)) a = v"
proof -
  have "length (to_bytes v) \<le> 2 ^ 64"
    using assms(2) by (simp add: length_to_bytes) 
  then have "load_bytes (store_bytes m a (to_bytes v)) a (LENGTH('a) div 8) = to_bytes v"
    using load_store_bytes [of "to_bytes v" m a] by (simp add: length_to_bytes)
  then show ?thesis
    by (simp add: Memory_Read_def Memory_Write_def from_to_bytes [OF assms(1)])
qed

lemma Memory_Read_Write_after:
  assumes "LENGTH('a::len) \<le> 64"
  shows "(Memory_Read (Memory_Write m a (v :: 'a word)) (a + of_nat (LENGTH('a) div 8)) :: 'a word)
         = Memory_Read m (a + of_nat (LENGTH('a) div 8))"
proof -
  have "load_bytes (store_bytes m a (to_bytes v)) (a + of_nat (LENGTH('a) div 8)) (LENGTH('a) div 8)
      = load_bytes m (a + of_nat (LENGTH('a) div 8)) (LENGTH('a) div 8)"
  proof (rule load_bytes_frame)
    fix i j assume "i < length (to_bytes v)" and "j < LENGTH('a) div 8"
    then have "i < LENGTH('a) div 8 + j" and "LENGTH('a) div 8 + j < 2 ^ 64" and "i < 2 ^ 64"
      using assms by (simp_all add: length_to_bytes)
    then have "a + of_nat (LENGTH('a) div 8 + j) \<noteq> a + of_nat i"
      by (intro addr_offset_neq) simp_all
    then show "a + of_nat (LENGTH('a) div 8) + of_nat j \<noteq> a + of_nat i"
      by (simp add: add.assoc)
  qed
  then show ?thesis by (simp add: Memory_Read_def Memory_Write_def)
qed

lemma Memory_Read_Write_before:
  assumes "LENGTH('a::len) \<le> 64"
  shows "(Memory_Read (Memory_Write m (a + of_nat (LENGTH('a) div 8)) (v :: 'a word)) a :: 'a word)
         = Memory_Read m a"
proof -
  have "load_bytes (store_bytes m (a + of_nat (LENGTH('a) div 8)) (to_bytes v)) a (LENGTH('a) div 8)
      = load_bytes m a (LENGTH('a) div 8)"
  proof (rule load_bytes_frame)
    fix i j assume "i < length (to_bytes v)" and "j < LENGTH('a) div 8"
    then have "j < LENGTH('a) div 8 + i" and "LENGTH('a) div 8 + i < 2 ^ 64" and "j < 2 ^ 64"
      using assms by (simp_all add: length_to_bytes)
    then have "a + of_nat j \<noteq> a + of_nat (LENGTH('a) div 8 + i)"
      by (intro addr_offset_neq) simp_all
    then show "a + of_nat j \<noteq> a + of_nat (LENGTH('a) div 8) + of_nat i"
      by (simp add: add.assoc)
  qed
  then show ?thesis by (simp add: Memory_Read_def Memory_Write_def)
qed

subsection \<open>Compare and swap\<close>

lemma ucast_ucast_small:
  "LENGTH('a::len) \<le> 64 \<Longrightarrow> (ucast (ucast (v :: 'a word) :: 64 word) :: 'a word) = v"
  by (rule bit_eqI) (auto simp add: bit_word_ucast_iff dest: bit_imp_le_length)

lemma ReadRegister_WriteRegister_same:
  assumes "LENGTH('a::len) \<le> 64" and "code \<noteq> 31"
  shows "(ReadRegister (WriteRegister code (v :: 'a word) Reg31IsZeroRegister s) code
            Reg31IsZeroRegister :: 'a word) = v"
  using assms by (simp add: ReadRegister_def WriteRegister_def kZeroRegCode_def ucast_ucast_small)

lemma ReadRegister_WriteRegister_other:
  assumes "code' \<noteq> code"
  shows "(ReadRegister (WriteRegister code (v :: 'a::len word) m s) code' m' :: 'b::len word)
           = ReadRegister s code' m'"
  using assms by (simp add: ReadRegister_def WriteRegister_def)

lemma ReadRegister_cong:
  "registers s' = registers s \<Longrightarrow> ReadRegister s' code m = ReadRegister s code m"
  by (simp add: ReadRegister_def)

lemma WriteRegister_fields [simp]:
  "memory (WriteRegister code v m s) = memory s"
  "local_monitor (WriteRegister code v m s) = local_monitor s"
  by (simp_all add: WriteRegister_def)

lemma registers_WriteRegister:
  "registers (WriteRegister code v m s) =
     (if code = kZeroRegCode \<and> m = Reg31IsZeroRegister then registers s
      else (registers s)(code := ucast v))"
  by (simp add: WriteRegister_def)

lemma example_address:
  "(ReadRegister example_state (GetRn example_instr) Reg31IsStackPointer :: u64) = 0x1000"
  by (simp add: example_defs ReadRegister_def kZeroRegCode_def)

lemma example_valid:
  "CheckIsValidUnalignedAtomicAccess example_host rn 0x1000 4"
  "CheckIsValidUnalignedAtomicAccess example_host rn 0x1000 8"
  by (simp_all add: example_defs)

lemma example_reads:
  "(ReadRegister example_state (GetRs example_instr) Reg31IsZeroRegister :: 32 word) = 0x11223344"
  "(ReadRegister example_state (GetRt example_instr) Reg31IsZeroRegister :: 32 word) = 0xdeadbeef"
  "(ReadRegister example_state 2 Reg31IsZeroRegister :: 32 word) = 0xffffffff"
  "(ReadRegister example_state 3 Reg31IsZeroRegister :: 32 word) = 0x11223344"
  "(ReadRegister example_state 4 Reg31IsZeroRegister :: 32 word) = 0xdeadbeef"
  "(ReadRegister example_state 5 Reg31IsZeroRegister :: 32 word) = 7"
  "(ReadRegister example_state 8 Reg31IsZeroRegister :: 32 word) = 0x55667788"
  "(ReadRegister example_state 9 Reg31IsZeroRegister :: 32 word) = 0x11223344"
  "(Memory_Read (memory example_state) 0x1000 :: 32 word) = 0x11223344"
  "(Memory_Read (memory example_state) 0x1004 :: 32 word) = 0x55667788"
  "GetRs example_instr = 3" "GetRt example_instr = 4"
  by (simp_all add: example_defs ReadRegister_def kZeroRegCode_def Memory_Read_def load_bytes_def upt_rec)

text \<open>
  Claim C3. When the access check passes, \<open>CompareAndSwapHelper\<close> at any element size
  of 8, 16, 32 or 64 bits returns a state in which memory at the address holds the new
  value from \<open>rt\<close> if the value read equals the compare value in \<open>rs\<close>, and is unchanged
  otherwise; in both cases register \<open>rs\<close> is written with the value read (it reads
  back as that value unless \<open>rs\<close> is the zero register) and the local monitor is
  cleared.
\<close>

theorem CompareAndSwap_writes_iff_equal:
  assumes a8: "8 dvd LENGTH('a::len)" and le: "LENGTH('a) \<le> 64"
    and valid: "CheckIsValidUnalignedAtomicAccess h (GetRn instr)
                  (ReadRegister s (GetRn instr) Reg31IsStackPointer) (LENGTH('a) div 8)"
  shows "\<exists>s'. CompareAndSwapHelper TYPE('a) h instr s = Inr s' \<and>
     (let address = (ReadRegister s (GetRn instr) Reg31IsStackPointer :: u64);
          data = (Memory_Read (memory s) address :: 'a word);
          comparevalue = ReadRegister s (GetRs instr) Reg31IsZeroRegister;
          newvalue = (ReadRegister s (GetRt instr) Reg31IsZeroRegister :: 'a word)
      in memory s' = (if data = comparevalue
                      then Memory_Write (memory s) address newvalue else memory s)
       \<and> (Memory_Read (memory s') address :: 'a word)
            = (if data = comparevalue then newvalue else data)
       \<and> registers s' = registers (WriteRegister (GetRs instr) data Reg31IsZeroRegister s)
       \<and> (GetRs instr \<noteq> 31 \<longrightarrow>
            (ReadRegister s' (GetRs instr) Reg31IsZeroRegister :: 'a word) = data)
       \<and> local_monitor s' = None)"
  using valid
  by (simp add: CompareAndSwapHelper_def Let_def Clear_def
      Memory_Read_Write_same [OF a8 le] ReadRegister_WriteRegister_same [OF le]
      registers_WriteRegister)

theorem CompareAndSwap_writes_iff_equal_witness:
  "(\<exists>s'. CompareAndSwapHelper TYPE(32) example_host example_instr example_state = Inr s'
      \<and> (Memory_Read (memory s') 0x1000 :: 32 word) = 0xdeadbeef
      \<and> (ReadRegister s' 3 Reg31IsZeroRegister :: 32 word) = 0x11223344
      \<and> local_monitor s' = None)
 \<and> (\<exists>s'. CompareAndSwapHelper TYPE(32) example_host (example_instr\<lparr>GetRs := 5\<rparr>)
            example_state = Inr s'
      \<and> memory s' = memory example_state
      \<and> (ReadRegister s' 5 Reg31IsZeroRegister :: 32 word) = 0x11223344
      \<and> local_monitor s' = None)"
  using CompareAndSwap_writes_iff_equal [where 'a = 32 and h = example_host
      and instr = example_instr and s = example_state]
    CompareAndSwap_writes_iff_equal [where 'a = 32 and h = example_host
      and instr = "example_instr\<lparr>GetRs := 5\<rparr>" and s = example_state]
  by (auto simp add: Let_def example_address example_valid example_reads)

text \<open>
  Claim C10. When the access check passes, \<open>CompareAndSwapPairHelper\<close> with element
  size \<open>s\<close> compares the value at the base address with register \<open>rs + 1\<close> and the value
  at \<open>address + s\<close> with register \<open>rs\<close>; when both are equal it writes register
  \<open>rt + 1\<close> to the base address and \<open>rt\<close> to \<open>address + s\<close>; in every case it returns
  the value read at the base address in \<open>rs + 1\<close> and the one read at \<open>address + s\<close> in
  \<open>rs\<close>, and clears the local monitor.
\<close>

theorem CompareAndSwapPair_register_pairing:
  assumes a8: "8 dvd LENGTH('a::len)" and le: "LENGTH('a) \<le> 64"
    and valid: "CheckIsValidUnalignedAtomicAccess h (GetRn instr)
                  (ReadRegister s (GetRn instr) Reg31IsStackPointer) (LENGTH('a) div 8 * 2)"
  shows "\<exists>s'. CompareAndSwapPairHelper TYPE('a) h instr s = Inr s' \<and>
     (let rs = GetRs instr;
          rt = GetRt instr;
          address = (ReadRegister s (GetRn instr) Reg31IsStackPointer :: u64);
          address2 = address + of_nat (LENGTH('a) div 8);
          at_base = (Memory_Read (memory s) address :: 'a word);
          at_next = (Memory_Read (memory s) address2 :: 'a word);
          same = (at_base = ReadRegister s (rs + 1) Reg31IsZeroRegister
                  \<and> at_next = ReadRegister s rs Reg31IsZeroRegister);
          new_base = (ReadRegister s (rt + 1) Reg31IsZeroRegister :: 'a word);
          new_next = (ReadRegister s rt Reg31IsZeroRegister :: 'a word)
      in memory s' = (if same
                      then Memory_Write (Memory_Write (memory s) address new_base)
                             address2 new_next
                      else memory s)
       \<and> (Memory_Read (memory s') address :: 'a word) = (if same then new_base else at_base)
       \<and> (Memory_Read (memory s') address2 :: 'a word) = (if same then new_next else at_next)
       \<and> registers s' =
            registers (WriteRegister rs at_next Reg31IsZeroRegister
                        (WriteRegister (rs + 1) at_base Reg31IsZeroRegister s))
       \<and> (rs + 1 \<noteq> 31 \<longrightarrow>
            (ReadRegister s' (rs + 1) Reg31IsZeroRegister :: 'a word) = at_base)
       \<and> (rs \<noteq> 31 \<longrightarrow> (ReadRegister s' rs Reg31IsZeroRegister :: 'a word) = at_next)
       \<and> local_monitor s' = None)"
proof -
  define rs where "rs = GetRs instr"
  define rt where "rt = GetRt instr"
  define address where "address = (ReadRegister s (GetRn instr) Reg31IsStackPointer :: u64)"
  define address2 where "address2 = address + of_nat (LENGTH('a) div 8)"
  define at_base where "at_base = (Memory_Read (memory s) address :: 'a word)"
  define at_next where "at_next = (Memory_Read (memory s) address2 :: 'a word)"
  define same where "same = (at_base = ReadRegister s (rs + 1) Reg31IsZeroRegister
                  \<and> at_next = ReadRegister s rs Reg31IsZeroRegister)"
  define new_base where "new_base = (ReadRegister s (rt + 1) Reg31IsZeroRegister :: 'a word)"
  define new_next where "new_next = (ReadRegister s rt Reg31IsZeroRegister :: 'a word)"
  define m' where "m' = (if same
                      then Memory_Write (Memory_Write (memory s) address new_base)
                             address2 new_next
                      else memory s)"
  define s2 where "s2 = (Clear s)\<lparr>memory := m'\<rparr>"
  define s' where "s' = WriteRegister rs at_next Reg31IsZeroRegister
                          (WriteRegister (rs + 1) at_base Reg31IsZeroRegister s2)"
  note defs = rs_def rt_def address_def address2_def at_base_def at_next_def same_def
    new_base_def new_next_def
  have run: "CompareAndSwapPairHelper TYPE('a) h instr s = Inr s'"
    using valid
    unfolding CompareAndSwapPairHelper_def Let_def s'_def s2_def m'_def defs
    by (simp add: Clear_def)
  have mem: "memory s' = m'"
    by (simp add: s'_def s2_def)
  have rb: "(Memory_Read (memory s') address :: 'a word) = (if same then new_base else at_base)"
    unfolding mem m'_def address2_def
    by (simp add: Memory_Read_Write_before [OF le] Memory_Read_Write_same [OF a8 le] at_base_def)
  have rn: "(Memory_Read (memory s') address2 :: 'a word) = (if same then new_next else at_next)"
    unfolding mem m'_def
    by (simp add: Memory_Read_Write_same [OF a8 le] at_next_def)
  have regs: "registers s' =
            registers (WriteRegister rs at_next Reg31IsZeroRegister
                        (WriteRegister (rs + 1) at_base Reg31IsZeroRegister s))"
    by (simp add: s'_def s2_def registers_WriteRegister Clear_def)
  have hi: "rs + 1 \<noteq> 31 \<longrightarrow>
      (ReadRegister s' (rs + 1) Reg31IsZeroRegister :: 'a word) = at_base"
    unfolding s'_def
    by (simp add: ReadRegister_WriteRegister_other ReadRegister_WriteRegister_same [OF le])
  have lo: "rs \<noteq> 31 \<longrightarrow> (ReadRegister s' rs Reg31IsZeroRegister :: 'a word) = at_next"
    unfolding s'_def by (simp add: ReadRegister_WriteRegister_same [OF le])
  have mon: "local_monitor s' = None"
    by (simp add: s'_def s2_def Clear_def)
  show ?thesis
    unfolding Let_def
    using run mem rb rn regs hi lo mon
    unfolding defs m'_def
    by (intro exI [of _ s'] conjI) assumption+
qed

theorem CompareAndSwapPair_register_pairing_witness:
  "\<exists>s'. CompareAndSwapPairHelper TYPE(32) example_host (example_instr\<lparr>GetRs := 8\<rparr>)
            example_state = Inr s'
      \<and> (Memory_Read (memory s') 0x1000 :: 32 word) = 7
      \<and> (Memory_Read (memory s') 0x1004 :: 32 word) = 0xdeadbeef
      \<and> (ReadRegister s' 9 Reg31IsZeroRegister :: 32 word) = 0x11223344
      \<and> (ReadRegister s' 8 Reg31IsZeroRegister :: 32 word) = 0x55667788
      \<and> local_monitor s' = None"
  using CompareAndSwapPair_register_pairing [where 'a = 32 and h = example_host
      and instr = "example_instr\<lparr>GetRs := 8\<rparr>" and s = example_state]
  by (auto simp add: Let_def example_address example_valid example_reads)

subsection \<open>Atomic memory operations\<close>

lemma AtomicMemorySwapHelper_spec:
  assumes a8: "8 dvd LENGTH('a::len)" and le: "LENGTH('a) \<le> 64"
    and valid: "CheckIsValidUnalignedAtomicAccess h (GetRn instr)
                  (ReadRegister s (GetRn instr) Reg31IsStackPointer) (LENGTH('a) div 8)"
  shows "\<exists>s'. AtomicMemorySwapHelper TYPE('a) h instr s = Inr s' \<and>
     (let address = (ReadRegister s (GetRn instr) Reg31IsStackPointer :: u64);
          data = (Memory_Read (memory s) address :: 'a word);
          val = (ReadRegister s (GetRs instr) Reg31IsZeroRegister :: 'a word)
      in memory s' = Memory_Write (memory s) address val
       \<and> (Memory_Read (memory s') address :: 'a word) = val
       \<and> registers s' = registers (WriteRegister (GetRt instr) data Reg31IsZeroRegister s)
       \<and> (GetRt instr \<noteq> 31 \<longrightarrow>
            (ReadRegister s' (GetRt instr) Reg31IsZeroRegister :: 'a word) = data))"
  using valid
  by (simp add: AtomicMemorySwapHelper_def Let_def
      Memory_Read_Write_same [OF a8 le] ReadRegister_WriteRegister_same [OF le]
      registers_WriteRegister)

lemma atomic_result_spec:
  assumes "is_signed = (op = LDSMAXOp \<or> op = LDSMINOp)"
  shows "(case op of
            LDADDOp \<Rightarrow> atomic_result is_signed op data val = data + val
          | LDCLROp \<Rightarrow> atomic_result is_signed op data val = data AND NOT val
          | LDEOROp \<Rightarrow> atomic_result is_signed op data val = data XOR val
          | LDSETOp \<Rightarrow> atomic_result is_signed op data val = data OR val
          | LDSMAXOp \<Rightarrow> sint (atomic_result is_signed op data val) = max (sint data) (sint val)
          | LDSMINOp \<Rightarrow> sint (atomic_result is_signed op data val) = min (sint data) (sint val)
          | LDUMAXOp \<Rightarrow> unat (atomic_result is_signed op data val) = max (unat data) (unat val)
          | LDUMINOp \<Rightarrow> unat (atomic_result is_signed op data val) = min (unat data) (unat val))"
  using assms
  by (cases op) (auto simp add: atomic_result_def greater_T_def word_less_nat_alt max_def min_def)

lemma AtomicMemorySimpleHelper_run:
  assumes a8: "8 dvd LENGTH('a::len)" and le: "LENGTH('a) \<le> 64"
    and valid: "CheckIsValidUnalignedAtomicAccess h (GetRn instr)
                  (ReadRegister s (GetRn instr) Reg31IsStackPointer) (LENGTH('a) div 8)"
  shows "\<exists>s'. AtomicMemorySimpleHelper TYPE('a) is_signed op h instr s = Inr s' \<and>
     (let address = (ReadRegister s (GetRn instr) Reg31IsStackPointer :: u64);
          data = (Memory_Read (memory s) address :: 'a word);
          val = (ReadRegister s (GetRs instr) Reg31IsZeroRegister :: 'a word)
      in (Memory_Read (memory s') address :: 'a word) = atomic_result is_signed op data val
       \<and> memory s' = Memory_Write (memory s) address (Memory_Read (memory s') address :: 'a word)
       \<and> registers s' = registers (WriteRegister (GetRt instr) data Reg31IsZeroRegister s)
       \<and> (GetRt instr \<noteq> 31 \<longrightarrow>
            (ReadRegister s' (GetRt instr) Reg31IsZeroRegister :: 'a word) = data))"
  using valid
  by (simp add: AtomicMemorySimpleHelper_def Let_def
      Memory_Read_Write_same [OF a8 le] ReadRegister_WriteRegister_same [OF le]
      registers_WriteRegister)

lemma atomic_helpers_spec:
  assumes a8: "8 dvd LENGTH('a::len)" and le: "LENGTH('a) \<le> 64"
    and valid: "CheckIsValidUnalignedAtomicAccess h (GetRn instr)
                  (ReadRegister s (GetRn instr) Reg31IsStackPointer) (LENGTH('a) div 8)"
    and sg: "is_signed = (op = LDSMAXOp \<or> op = LDSMINOp)"
  shows "(\<exists>s'. AtomicMemorySimpleHelper TYPE('a) is_signed op h instr s = Inr s' \<and>
     (let address = (ReadRegister s (GetRn instr) Reg31IsStackPointer :: u64);
          data = (Memory_Read (memory s) address :: 'a word);
          val = (ReadRegister s (GetRs instr) Reg31IsZeroRegister :: 'a word);
          result = (Memory_Read (memory s') address :: 'a word)
      in (case op of
            LDADDOp \<Rightarrow> result = data + val
          | LDCLROp \<Rightarrow> result = data AND NOT val
          | LDEOROp \<Rightarrow> result = data XOR val
          | LDSETOp \<Rightarrow> result = data OR val
          | LDSMAXOp \<Rightarrow> sint result = max (sint data) (sint val)
          | LDSMINOp \<Rightarrow> sint result = min (sint data) (sint val)
          | LDUMAXOp \<Rightarrow> unat result = max (unat data) (unat val)
          | LDUMINOp \<Rightarrow> unat result = min (unat data) (unat val))
       \<and> memory s' = Memory_Write (memory s) address result
       \<and> registers s' = registers (WriteRegister (GetRt instr) data Reg31IsZeroRegister s)
       \<and> (GetRt instr \<noteq> 31 \<longrightarrow>
            (ReadRegister s' (GetRt instr) Reg31IsZeroRegister :: 'a word) = data)))
   \<and> (\<exists>s'. AtomicMemorySwapHelper TYPE('a) h instr s = Inr s' \<and>
     (let address = (ReadRegister s (GetRn instr) Reg31IsStackPointer :: u64);
          data = (Memory_Read (memory s) address :: 'a word);
          val = (ReadRegister s (GetRs instr) Reg31IsZeroRegister :: 'a word)
      in memory s' = Memory_Write (memory s) address val
       \<and> (Memory_Read (memory s') address :: 'a word) = val
       \<and> registers s' = registers (WriteRegister (GetRt instr) data Reg31IsZeroRegister s)
       \<and> (GetRt instr \<noteq> 31 \<longrightarrow>
            (ReadRegister s' (GetRt instr) Reg31IsZeroRegister :: 'a word) = data)))"
proof -
  from AtomicMemorySimpleHelper_run [OF a8 le valid, of is_signed op]
  obtain s' where run: "AtomicMemorySimpleHelper TYPE('a) is_signed op h instr s = Inr s'"
    and res: "(Memory_Read (memory s') (ReadRegister s (GetRn instr) Reg31IsStackPointer) :: 'a word)
        = atomic_result is_signed op
            (Memory_Read (memory s) (ReadRegister s (GetRn instr) Reg31IsStackPointer))
            (ReadRegister s (GetRs instr) Reg31IsZeroRegister)"
    and rest: "memory s' = Memory_Write (memory s) (ReadRegister s (GetRn instr) Reg31IsStackPointer)
          (Memory_Read (memory s') (ReadRegister s (GetRn instr) Reg31IsStackPointer) :: 'a word)"
      "registers s' = registers (WriteRegister (GetRt instr)
          (Memory_Read (memory s) (ReadRegister s (GetRn instr) Reg31IsStackPointer) :: 'a word)
          Reg31IsZeroRegister s)"
      "GetRt instr \<noteq> 31 \<longrightarrow>
            (ReadRegister s' (GetRt instr) Reg31IsZeroRegister :: 'a word)
          = Memory_Read (memory s) (ReadRegister s (GetRn instr) Reg31IsStackPointer)"
    unfolding Let_def by blast
  have op_res: "(case op of
            LDADDOp \<Rightarrow> r = data + val
          | LDCLROp \<Rightarrow> r = data AND NOT val
          | LDEOROp \<Rightarrow> r = data XOR val
          | LDSETOp \<Rightarrow> r = data OR val
          | LDSMAXOp \<Rightarrow> sint r = max (sint data) (sint val)
          | LDSMINOp \<Rightarrow> sint r = min (sint data) (sint val)
          | LDUMAXOp \<Rightarrow> unat r = max (unat data) (unat val)
          | LDUMINOp \<Rightarrow> unat r = min (unat data) (unat val))"
    if "r = atomic_result is_signed op data val" for r data val :: "'a word"
    using atomic_result_spec [OF sg, of data val] that by (cases op) simp_all
  have first: "\<exists>s'. AtomicMemorySimpleHelper TYPE('a) is_signed op h instr s = Inr s' \<and>
     (let address = (ReadRegister s (GetRn instr) Reg31IsStackPointer :: u64);
          data = (Memory_Read (memory s) address :: 'a word);
          val = (ReadRegister s (GetRs instr) Reg31IsZeroRegister :: 'a word);
          result = (Memory_Read (memory s') address :: 'a word)
      in (case op of
            LDADDOp \<Rightarrow> result = data + val
          | LDCLROp \<Rightarrow> result = data AND NOT val
          | LDEOROp \<Rightarrow> result = data XOR val
          | LDSETOp \<Rightarrow> result = data OR val
          | LDSMAXOp \<Rightarrow> sint result = max (sint data) (sint val)
          | LDSMINOp \<Rightarrow> sint result = min (sint data) (sint val)
          | LDUMAXOp \<Rightarrow> unat result = max (unat data) (unat val)
          | LDUMINOp \<Rightarrow> unat result = min (unat data) (unat val))
       \<and> memory s' = Memory_Write (memory s) address result
       \<and> registers s' = registers (WriteRegister (GetRt instr) data Reg31IsZeroRegister s)
       \<and> (GetRt instr \<noteq> 31 \<longrightarrow>
            (ReadRegister s' (GetRt instr) Reg31IsZeroRegister :: 'a word) = data))"
    unfolding Let_def
    using run op_res [OF res] rest
    by (intro exI [of _ s'] conjI) assumption+
  show ?thesis
    using first AtomicMemorySwapHelper_spec [OF a8 le valid] by (rule conjI)
qed

text \<open>
  \<open>VisitAtomicMemory\<close> runs the helpers at the element type of the size suffix, and the
  simple helper at the signed type exactly for the signed maximum and minimum.
\<close>

lemma VisitAtomicMemory_simple:
  "VisitAtomicMemory h (AtomicSimple sop ord Size_B) instr s
     = AtomicMemorySimpleHelper TYPE(8) (sop = LDSMAXOp \<or> sop = LDSMINOp) sop h instr s"
  "VisitAtomicMemory h (AtomicSimple sop ord Size_H) instr s
     = AtomicMemorySimpleHelper TYPE(16) (sop = LDSMAXOp \<or> sop = LDSMINOp) sop h instr s"
  "VisitAtomicMemory h (AtomicSimple sop ord Size_w) instr s
     = AtomicMemorySimpleHelper TYPE(32) (sop = LDSMAXOp \<or> sop = LDSMINOp) sop h instr s"
  "VisitAtomicMemory h (AtomicSimple sop ord Size_x) instr s
     = AtomicMemorySimpleHelper TYPE(64) (sop = LDSMAXOp \<or> sop = LDSMINOp) sop h instr s"
  by (simp_all add: VisitAtomicMemory_def)

lemma VisitAtomicMemory_swap:
  "VisitAtomicMemory h (SWP ord Size_B) instr s = AtomicMemorySwapHelper TYPE(8) h instr s"
  "VisitAtomicMemory h (SWP ord Size_H) instr s = AtomicMemorySwapHelper TYPE(16) h instr s"
  "VisitAtomicMemory h (SWP ord Size_w) instr s = AtomicMemorySwapHelper TYPE(32) h instr s"
  "VisitAtomicMemory h (SWP ord Size_x) instr s = AtomicMemorySwapHelper TYPE(64) h instr s"
  by (simp_all add: VisitAtomicMemory_def)

lemma VisitAtomicMemory_simple_8:
  "(CheckIsValidUnalignedAtomicAccess h (GetRn instr)
      (ReadRegister s (GetRn instr) Reg31IsStackPointer) 1 \<longrightarrow>
    (\<exists>s'. VisitAtomicMemory h (AtomicSimple sop ord Size_B) instr s = Inr s' \<and>
      (let address = (ReadRegister s (GetRn instr) Reg31IsStackPointer :: u64);
           data = (Memory_Read (memory s) address :: 8 word);
           val = (ReadRegister s (GetRs instr) Reg31IsZeroRegister :: 8 word);
           result = (Memory_Read (memory s') address :: 8 word)
       in (case sop of
             LDADDOp \<Rightarrow> result = data + val
           | LDCLROp \<Rightarrow> result = data AND NOT val
           | LDEOROp \<Rightarrow> result = data XOR val
           | LDSETOp \<Rightarrow> result = data OR val
           | LDSMAXOp \<Rightarrow> sint result = max (sint data) (sint val)
           | LDSMINOp \<Rightarrow> sint result = min (sint data) (sint val)
           | LDUMAXOp \<Rightarrow> unat result = max (unat data) (unat val)
           | LDUMINOp \<Rightarrow> unat result = min (unat data) (unat val))
        \<and> memory s' = Memory_Write (memory s) address result
        \<and> registers s' = registers (WriteRegister (GetRt instr) data Reg31IsZeroRegister s)
        \<and> (GetRt instr \<noteq> 31 \<longrightarrow>
             (ReadRegister s' (GetRt instr) Reg31IsZeroRegister :: 8 word) = data))))"
  unfolding VisitAtomicMemory_simple
  using atomic_helpers_spec [where 'a = 8 and h = h and instr = instr and s = s and op = sop
      and is_signed = "sop = LDSMAXOp \<or> sop = LDSMINOp", THEN conjunct1]
  by simp

lemma VisitAtomicMemory_swap_8:
  "(CheckIsValidUnalignedAtomicAccess h (GetRn instr)
      (ReadRegister s (GetRn instr) Reg31IsStackPointer) 1 \<longrightarrow>
    (\<exists>s'. VisitAtomicMemory h (SWP ord Size_B) instr s = Inr s' \<and>
      (let address = (ReadRegister s (GetRn instr) Reg31IsStackPointer :: u64);
           data = (Memory_Read (memory s) address :: 8 word);
           val = (ReadRegister s (GetRs instr) Reg31IsZeroRegister :: 8 word)
       in memory s' = Memory_Write (memory s) address val
        \<and> (Memory_Read (memory s') address :: 8 word) = val
        \<and> registers s' = registers (WriteRegister (GetRt instr) data Reg31IsZeroRegister s)
        \<and> (GetRt instr \<noteq> 31 \<longrightarrow>
             (ReadRegister s' (GetRt instr) Reg31IsZeroRegister :: 8 word) = data))))"
  unfolding VisitAtomicMemory_swap
  using atomic_helpers_spec [where 'a = 8 and h = h and instr = instr and s = s and op = LDADDOp
      and is_signed = False, THEN conjunct2]
  by simp

lemma VisitAtomicMemory_simple_16:
  "(CheckIsValidUnalignedAtomicAccess h (GetRn instr)
      (ReadRegister s (GetRn instr) Reg31IsStackPointer) 2 \<longrightarrow>
    (\<exists>s'. VisitAtomicMemory h (AtomicSimple sop ord Size_H) instr s = Inr s' \<and>
      (let address = (ReadRegister s (GetRn instr) Reg31IsStackPointer :: u64);
           data = (Memory_Read (memory s) address :: 16 word);
           val = (ReadRegister s (GetRs instr) Reg31IsZeroRegister :: 16 word);
           result = (Memory_Read (memory s') address :: 16 word)
       in (case sop of
             LDADDOp \<Rightarrow> result = data + val
           | LDCLROp \<Rightarrow> result = data AND NOT val
           | LDEOROp \<Rightarrow> result = data XOR val
           | LDSETOp \<Rightarrow> result = data OR val
           | LDSMAXOp \<Rightarrow> sint result = max (sint data) (sint val)
           | LDSMINOp \<Rightarrow> sint result = min (sint data) (sint val)
           | LDUMAXOp \<Rightarrow> unat result = max (unat data) (unat val)
           | LDUMINOp \<Rightarrow> unat result = min (unat data) (unat val))
        \<and> memory s' = Memory_Write (memory s) address result
        \<and> registers s' = registers (WriteRegister (GetRt instr) data Reg31IsZeroRegister s)
        \<and> (GetRt instr \<noteq> 31 \<longrightarrow>
             (ReadRegister s' (GetRt instr) Reg31IsZeroRegister :: 16 word) = data))))"
  unfolding VisitAtomicMemory_simple
  using atomic_helpers_spec [where 'a = 16 and h = h and instr = instr and s = s and op = sop
      and is_signed = "sop = LDSMAXOp \<or> sop = LDSMINOp", THEN conjunct1]
  by simp

lemma VisitAtomicMemory_swap_16:
  "(CheckIsValidUnalignedAtomicAccess h (GetRn instr)
      (ReadRegister s (GetRn instr) Reg31IsStackPointer) 2 \<longrightarrow>
    (\<exists>s'. VisitAtomicMemory h (SWP ord Size_H) instr s = Inr s' \<and>
      (let address = (ReadRegister s (GetRn instr) Reg31IsStackPointer :: u64);
           data = (Memory_Read (memory s) address :: 16 word);
           val = (ReadRegister s (GetRs instr) Reg31IsZeroRegister :: 16 word)
       in memory s' = Memory_Write (memory s) address val
        \<and> (Memory_Read (memory s') address :: 16 word) = val
        \<and> registers s' = registers (WriteRegister (GetRt instr) data Reg31IsZeroRegister s)
        \<and> (GetRt instr \<noteq> 31 \<longrightarrow>
             (ReadRegister s' (GetRt instr) Reg31IsZeroRegister :: 16 word) = data))))"
  unfolding VisitAtomicMemory_swap
  using atomic_helpers_spec [where 'a = 16 and h = h and instr = instr and s = s and op = LDADDOp
      and is_signed = False, THEN conjunct2]
  by simp

lemma VisitAtomicMemory_simple_32:
  "(CheckIsValidUnalignedAtomicAccess h (GetRn instr)
      (ReadRegister s (GetRn instr) Reg31IsStackPointer) 4 \<longrightarrow>
    (\<exists>s'. VisitAtomicMemory h (AtomicSimple sop ord Size_w) instr s = Inr s' \<and>
      (let address = (ReadRegister s (GetRn instr) Reg31IsStackPointer :: u64);
           data = (Memory_Read (memory s) address :: 32 word);
           val = (ReadRegister s (GetRs instr) Reg31IsZeroRegister :: 32 word);
           result = (Memory_Read (memory s') address :: 32 word)
       in (case sop of
             LDADDOp \<Rightarrow> result = data + val
           | LDCLROp \<Rightarrow> result = data AND NOT val
           | LDEOROp \<Rightarrow> result = data XOR val
           | LDSETOp \<Rightarrow> result = data OR val
           | LDSMAXOp \<Rightarrow> sint result = max (sint data) (sint val)
           | LDSMINOp \<Rightarrow> sint result = min (sint data) (sint val)
           | LDUMAXOp \<Rightarrow> unat result = max (unat data) (unat val)
           | LDUMINOp \<Rightarrow> unat result = min (unat data) (unat val))
        \<and> memory s' = Memory_Write (memory s) address result
        \<and> registers s' = registers (WriteRegister (GetRt instr) data Reg31IsZeroRegister s)
        \<and> (GetRt instr \<noteq> 31 \<longrightarrow>
             (ReadRegister s' (GetRt instr) Reg31IsZeroRegister :: 32 word) = data))))"
  unfolding VisitAtomicMemory_simple
  using atomic_helpers_spec [where 'a = 32 and h = h and instr = instr and s = s and op = sop
      and is_signed = "sop = LDSMAXOp \<or> sop = LDSMINOp", THEN conjunct1]
  by simp

lemma VisitAtomicMemory_swap_32:
  "(CheckIsValidUnalignedAtomicAccess h (GetRn instr)
      (ReadRegister s (GetRn instr) Reg31IsStackPointer) 4 \<longrightarrow>
    (\<exists>s'. VisitAtomicMemory h (SWP ord Size_w) instr s = Inr s' \<and>
      (let address = (ReadRegister s (GetRn instr) Reg31IsStackPointer :: u64);
           data = (Memory_Read (memory s) address :: 32 word);
           val = (ReadRegister s (GetRs instr) Reg31IsZeroRegister :: 32 word)
       in memory s' = Memory_Write (memory s) address val
        \<and> (Memory_Read (memory s') address :: 32 word) = val
        \<and> registers s' = registers (WriteRegister (GetRt instr) data Reg31IsZeroRegister s)
        \<and> (GetRt instr \<noteq> 31 \<longrightarrow>
             (ReadRegister s' (GetRt instr) Reg31IsZeroRegister :: 32 word) = data))))"
  unfolding VisitAtomicMemory_swap
  using atomic_helpers_spec [where 'a = 32 and h = h and instr = instr and s = s and op = LDADDOp
      and is_signed = False, THEN conjunct2]
  by simp

lemma VisitAtomicMemory_simple_64:
  "(CheckIsValidUnalignedAtomicAccess h (GetRn instr)
      (ReadRegister s (GetRn instr) Reg31IsStackPointer) 8 \<longrightarrow>
    (\<exists>s'. VisitAtomicMemory h (AtomicSimple sop ord Size_x) instr s = Inr s' \<and>
      (let address = (ReadRegister s (GetRn instr) Reg31IsStackPointer :: u64);
           data = (Memory_Read (memory s) address :: 64 word);
           val = (ReadRegister s (GetRs instr) Reg31IsZeroRegister :: 64 word);
           result = (Memory_Read (memory s') address :: 64 word)
       in (case sop of
             LDADDOp \<Rightarrow> result = data + val
           | LDCLROp \<Rightarrow> result = data AND NOT val
           | LDEOROp \<Rightarrow> result = data XOR val
           | LDSETOp \<Rightarrow> result = data OR val
           | LDSMAXOp \<Rightarrow> sint result = max (sint data) (sint val)
           | LDSMINOp \<Rightarrow> sint result = min (sint data) (sint val)
           | LDUMAXOp \<Rightarrow> unat result = max (unat data) (unat val)
           | LDUMINOp \<Rightarrow> unat result = min (unat data) (unat val))
        \<and> memory s' = Memory_Write (memory s) address result
        \<and> registers s' = registers (WriteRegister (GetRt instr) data Reg31IsZeroRegister s)
        \<and> (GetRt instr \<noteq> 31 \<longrightarrow>
             (ReadRegister s' (GetRt instr) Reg31IsZeroRegister :: 64 word) = data))))"
  unfolding VisitAtomicMemory_simple
  using atomic_helpers_spec [where 'a = 64 and h = h and instr = instr and s = s and op = sop
      and is_signed = "sop = LDSMAXOp \<or> sop = LDSMINOp", THEN conjunct1]
  by simp

lemma VisitAtomicMemory_swap_64:
  "(CheckIsValidUnalignedAtomicAccess h (GetRn instr)
      (ReadRegister s (GetRn instr) Reg31IsStackPointer) 8 \<longrightarrow>
    (\<exists>s'. VisitAtomicMemory h (SWP ord Size_x) instr s = Inr s' \<and>
      (let address = (ReadRegister s (GetRn instr) Reg31IsStackPointer :: u64);
           data = (Memory_Read (memory s) address :: 64 word);
           val = (ReadRegister s (GetRs instr) Reg31IsZeroRegister :: 64 word)
       in memory s' = Memory_Write (memory s) address val
        \<and> (Memory_Read (memory s') address :: 64 word) = val
        \<and> registers s' = registers (WriteRegister (GetRt instr) data Reg31IsZeroRegister s)
        \<and> (GetRt instr \<noteq> 31 \<longrightarrow>
             (ReadRegister s' (GetRt instr) Reg31IsZeroRegister :: 64 word) = data))))"
  unfolding VisitAtomicMemory_swap
  using atomic_helpers_spec [where 'a = 64 and h = h and instr = instr and s = s and op = LDADDOp
      and is_signed = False, THEN conjunct2]
  by simp

text \<open>
  Claim C9. When the access check passes, every atomic memory operation of
  \<open>VisitAtomicMemory\<close>, at every ordering suffix and at each of the four element sizes,
  reads the old value at the address, writes the new value to the same address and
  returns the old value in \<open>rt\<close>. The new value is the sum for \<open>LDADD\<close>, the old value
  with the source's bits cleared for \<open>LDCLR\<close>, the exclusive or for \<open>LDEOR\<close>, the
  inclusive or for \<open>LDSET\<close>, the signed maximum and minimum for \<open>LDSMAX\<close> and
  \<open>LDSMIN\<close>, the unsigned ones for \<open>LDUMAX\<close> and \<open>LDUMIN\<close>, and the source register
  itself for a swap.
\<close>

theorem atomic_read_modify_write:
  "(CheckIsValidUnalignedAtomicAccess h (GetRn instr)
      (ReadRegister s (GetRn instr) Reg31IsStackPointer) 1 \<longrightarrow>
    (\<exists>s'. VisitAtomicMemory h (AtomicSimple sop ord Size_B) instr s = Inr s' \<and>
      (let address = (ReadRegister s (GetRn instr) Reg31IsStackPointer :: u64);
           data = (Memory_Read (memory s) address :: 8 word);
           val = (ReadRegister s (GetRs instr) Reg31IsZeroRegister :: 8 word);
           result = (Memory_Read (memory s') address :: 8 word)
       in (case sop of
             LDADDOp \<Rightarrow> result = data + val
           | LDCLROp \<Rightarrow> result = data AND NOT val
           | LDEOROp \<Rightarrow> result = data XOR val
           | LDSETOp \<Rightarrow> result = data OR val
           | LDSMAXOp \<Rightarrow> sint result = max (sint data) (sint val)
           | LDSMINOp \<Rightarrow> sint result = min (sint data) (sint val)
           | LDUMAXOp \<Rightarrow> unat result = max (unat data) (unat val)
           | LDUMINOp \<Rightarrow> unat result = min (unat data) (unat val))
        \<and> memory s' = Memory_Write (memory s) address result
        \<and> registers s' = registers (WriteRegister (GetRt instr) data Reg31IsZeroRegister s)
        \<and> (GetRt instr \<noteq> 31 \<longrightarrow>
             (ReadRegister s' (GetRt instr) Reg31IsZeroRegister :: 8 word) = data))))
 \<and> (CheckIsValidUnalignedAtomicAccess h (GetRn instr)
      (ReadRegister s (GetRn instr) Reg31IsStackPointer) 2 \<longrightarrow>
    (\<exists>s'. VisitAtomicMemory h (AtomicSimple sop ord Size_H) instr s = Inr s' \<and>
      (let address = (ReadRegister s (GetRn instr) Reg31IsStackPointer :: u64);
           data = (Memory_Read (memory s) address :: 16 word);
           val = (ReadRegister s (GetRs instr) Reg31IsZeroRegister :: 16 word);
           result = (Memory_Read (memory s') address :: 16 word)
       in (case sop of
             LDADDOp \<Rightarrow> result = data + val
           | LDCLROp \<Rightarrow> result = data AND NOT val
           | LDEOROp \<Rightarrow> result = data XOR val
           | LDSETOp \<Rightarrow> result = data OR val
           | LDSMAXOp \<Rightarrow> sint result = max (sint data) (sint val)
           | LDSMINOp \<Rightarrow> sint result = min (sint data) (sint val)
           | LDUMAXOp \<Rightarrow> unat result = max (unat data) (unat val)
           | LDUMINOp \<Rightarrow> unat result = min (unat data) (unat val))
        \<and> memory s' = Memory_Write (memory s) address result
        \<and> registers s' = registers (WriteRegister (GetRt instr) data Reg31IsZeroRegister s)
        \<and> (GetRt instr \<noteq> 31 \<longrightarrow>
             (ReadRegister s' (GetRt instr) Reg31IsZeroRegister :: 16 word) = data))))
 \<and> (CheckIsValidUnalignedAtomicAccess h (GetRn instr)
      (ReadRegister s (GetRn instr) Reg31IsStackPointer) 4 \<longrightarrow>
    (\<exists>s'. VisitAtomicMemory h (AtomicSimple sop ord Size_w) instr s = Inr s' \<and>
      (let address = (ReadRegister s (GetRn instr) Reg31IsStackPointer :: u64);
           data = (Memory_Read (memory s) address :: 32 word);
           val = (ReadRegister s (GetRs instr) Reg31IsZeroRegister :: 32 word);
           result = (Memory_Read (memory s') address :: 32 word)
       in (case sop of
             LDADDOp \<Rightarrow> result = data + val
           | LDCLROp \<Rightarrow> result = data AND NOT val
           | LDEOROp \<Rightarrow> result = data XOR val
           | LDSETOp \<Rightarrow> result = data OR val
           | LDSMAXOp \<Rightarrow> sint result = max (sint data) (sint val)
           | LDSMINOp \<Rightarrow> sint result = min (sint data) (sint val)
           | LDUMAXOp \<Rightarrow> unat result = max (unat data) (unat val)
           | LDUMINOp \<Rightarrow> unat result = min (unat data) (unat val))
        \<and> memory s' = Memory_Write (memory s) address result
        \<and> registers s' = registers (WriteRegister (GetRt instr) data Reg31IsZeroRegister s)
        \<and> (GetRt instr \<noteq> 31 \<longrightarrow>
             (ReadRegister s' (GetRt instr) Reg31IsZeroRegister :: 32 word) = data))))
 \<and> (CheckIsValidUnalignedAtomicAccess h (GetRn instr)
      (ReadRegister s (GetRn instr) Reg31IsStackPointer) 8 \<longrightarrow>
    (\<exists>s'. VisitAtomicMemory h (AtomicSimple sop ord Size_x) instr s = Inr s' \<and>
      (let address = (ReadRegister s (GetRn instr) Reg31IsStackPointer :: u64);
           data = (Memory_Read (memory s) address :: 64 word);
           val = (ReadRegister s (GetRs instr) Reg31IsZeroRegister :: 64 word);
           result = (Memory_Read (memory s') address :: 64 word)
       in (case sop of
             LDADDOp \<Rightarrow> result = data + val
           | LDCLROp \<Rightarrow> result = data AND NOT val
           | LDEOROp \<Rightarrow> result = data XOR val
           | LDSETOp \<Rightarrow> result = data OR val
           | LDSMAXOp \<Rightarrow> sint result = max (sint data) (sint val)
           | LDSMINOp \<Rightarrow> sint result = min (sint data) (sint val)
           | LDUMAXOp \<Rightarrow> unat result = max (unat data) (unat val)
           | LDUMINOp \<Rightarrow> unat result = min (unat data) (unat val))
        \<and> memory s' = Memory_Write (memory s) address result
        \<and> registers s' = registers (WriteRegister (GetRt instr) data Reg31IsZeroRegister s)
        \<and> (GetRt instr \<noteq> 31 \<longrightarrow>
             (ReadRegister s' (GetRt instr) Reg31IsZeroRegister :: 64 word) = data))))
 \<and> (CheckIsValidUnalignedAtomicAccess h (GetRn instr)
      (ReadRegister s (GetRn instr) Reg31IsStackPointer) 1 \<longrightarrow>
    (\<exists>s'. VisitAtomicMemory h (SWP ord Size_B) instr s = Inr s' \<and>
      (let address = (ReadRegister s (GetRn instr) Reg31IsStackPointer :: u64);
           data = (Memory_Read (memory s) address :: 8 word);
           val = (ReadRegister s (GetRs instr) Reg31IsZeroRegister :: 8 word)
       in memory s' = Memory_Write (memory s) address val
        \<and> (Memory_Read (memory s') address :: 8 word) = val
        \<and> registers s' = registers (WriteRegister (GetRt instr) data Reg31IsZeroRegister s)
        \<and> (GetRt instr \<noteq> 31 \<longrightarrow>
             (ReadRegister s' (GetRt instr) Reg31IsZeroRegister :: 8 word) = data))))
 \<and> (CheckIsValidUnalignedAtomicAccess h (GetRn instr)
      (ReadRegister s (GetRn instr) Reg31IsStackPointer) 2 \<longrightarrow>
    (\<exists>s'. VisitAtomicMemory h (SWP ord Size_H) instr s = Inr s' \<and>
      (let address = (ReadRegister s (GetRn instr) Reg31IsStackPointer :: u64);
           data = (Memory_Read (memory s) address :: 16 word);
           val = (ReadRegister s (GetRs instr) Reg31IsZeroRegister :: 16 word)
       in memory s' = Memory_Write (memory s) address val
        \<and> (Memory_Read (memory s') address :: 16 word) = val
        \<and> registers s' = registers (WriteRegister (GetRt instr) data Reg31IsZeroRegister s)
        \<and> (GetRt instr \<noteq> 31 \<longrightarrow>
             (ReadRegister s' (GetRt instr) Reg31IsZeroRegister :: 16 word) = data))))
 \<and> (CheckIsValidUnalignedAtomicAccess h (GetRn instr)
      (ReadRegister s (GetRn instr) Reg31IsStackPointer) 4 \<longrightarrow>
    (\<exists>s'. VisitAtomicMemory h (SWP ord Size_w) instr s = Inr s' \<and>
      (let address = (ReadRegister s (GetRn instr) Reg31IsStackPointer :: u64);
           data = (Memory_Read (memory s) address :: 32 word);
           val = (ReadRegister s (GetRs instr) Reg31IsZeroRegister :: 32 word)
       in memory s' = Memory_Write (memory s) address val
        \<and> (Memory_Read (memory s') address :: 32 word) = val
        \<and> registers s' = registers (WriteRegister (GetRt instr) data Reg31IsZeroRegister s)
        \<and> (GetRt instr \<noteq> 31 \<longrightarrow>
             (ReadRegister s' (GetRt instr) Reg31IsZeroRegister :: 32 word) = data))))
 \<and> (CheckIsValidUnalignedAtomicAccess h (GetRn instr)
      (ReadRegister s (GetRn instr) Reg31IsStackPointer) 8 \<longrightarrow>
    (\<exists>s'. VisitAtomicMemory h (SWP ord Size_x) instr s = Inr s' \<and>
      (let address = (ReadRegister s (GetRn instr) Reg31IsStackPointer :: u64);
           data = (Memory_Read (memory s) address :: 64 word);
           val = (ReadRegister s (GetRs instr) Reg31IsZeroRegister :: 64 word)
       in memory s' = Memory_Write (memory s) address val
        \<and> (Memory_Read (memory s') address :: 64 word) = val
        \<and> registers s' = registers (WriteRegister (GetRt instr) data Reg31IsZeroRegister s)
        \<and> (GetRt instr \<noteq> 31 \<longrightarrow>
             (ReadRegister s' (GetRt instr) Reg31IsZeroRegister :: 64 word) = data))))"
  by (intro conjI)
    (rule VisitAtomicMemory_simple_8 VisitAtomicMemory_simple_16 VisitAtomicMemory_simple_32
      VisitAtomicMemory_simple_64 VisitAtomicMemory_swap_8 VisitAtomicMemory_swap_16
      VisitAtomicMemory_swap_32 VisitAtomicMemory_swap_64)+


lemma example_valid_small:
  "CheckIsValidUnalignedAtomicAccess example_host rn 0x1000 1"
  "CheckIsValidUnalignedAtomicAccess example_host rn 0x1000 (Suc 0)"
  "CheckIsValidUnalignedAtomicAccess example_host rn 0x1000 2"
  by (simp_all add: example_defs)

lemma example_reads_byte:
  "(ReadRegister example_state 2 Reg31IsZeroRegister :: 8 word) = 0xff"
  "(Memory_Read (memory example_state) 0x1000 :: 8 word) = 0x44"
  by (simp_all add: example_defs ReadRegister_def kZeroRegCode_def Memory_Read_def
      load_bytes_def upt_rec)

theorem atomic_read_modify_write_witness:
  "(\<exists>s'. VisitAtomicMemory example_host (AtomicSimple LDADDOp NoOrdering Size_w) example_instr
            example_state = Inr s'
      \<and> (Memory_Read (memory s') 0x1000 :: 32 word) = 0x22446688
      \<and> (ReadRegister s' 4 Reg31IsZeroRegister :: 32 word) = 0x11223344)
 \<and> (\<exists>s'. VisitAtomicMemory example_host (AtomicSimple LDSMINOp Ordering_AL Size_w)
            (example_instr\<lparr>GetRs := 2\<rparr>) example_state = Inr s'
      \<and> sint (Memory_Read (memory s') 0x1000 :: 32 word) = - 1
      \<and> (ReadRegister s' 4 Reg31IsZeroRegister :: 32 word) = 0x11223344)
 \<and> (\<exists>s'. VisitAtomicMemory example_host (AtomicSimple LDUMINOp Ordering_AL Size_w)
            (example_instr\<lparr>GetRs := 2\<rparr>) example_state = Inr s'
      \<and> unat (Memory_Read (memory s') 0x1000 :: 32 word) = 0x11223344)
 \<and> (\<exists>s'. VisitAtomicMemory example_host (AtomicSimple LDSMAXOp Ordering_A Size_B)
            (example_instr\<lparr>GetRs := 2\<rparr>) example_state = Inr s'
      \<and> sint (Memory_Read (memory s') 0x1000 :: 8 word) = 0x44)
 \<and> (\<exists>s'. VisitAtomicMemory example_host (AtomicSimple LDUMAXOp Ordering_A Size_B)
            (example_instr\<lparr>GetRs := 2\<rparr>) example_state = Inr s'
      \<and> unat (Memory_Read (memory s') 0x1000 :: 8 word) = 0xff)
 \<and> (\<exists>s'. VisitAtomicMemory example_host (SWP Ordering_L Size_w)
            (example_instr\<lparr>GetRs := 8\<rparr>) example_state = Inr s'
      \<and> (Memory_Read (memory s') 0x1000 :: 32 word) = 0x55667788
      \<and> (ReadRegister s' 4 Reg31IsZeroRegister :: 32 word) = 0x11223344)"
proof -
  note facts = Let_def example_address example_valid example_valid_small example_reads
    example_reads_byte
  have a: "\<exists>s'. VisitAtomicMemory example_host (AtomicSimple LDADDOp NoOrdering Size_w)
            example_instr example_state = Inr s'
      \<and> (Memory_Read (memory s') 0x1000 :: 32 word) = 0x22446688
      \<and> (ReadRegister s' 4 Reg31IsZeroRegister :: 32 word) = 0x11223344"
    using atomic_read_modify_write [where h = example_host and instr = example_instr
        and s = example_state and sop = LDADDOp and ord = NoOrdering]
    by (auto simp add: facts)
  have b: "\<exists>s'. VisitAtomicMemory example_host (AtomicSimple LDSMINOp Ordering_AL Size_w)
            (example_instr\<lparr>GetRs := 2\<rparr>) example_state = Inr s'
      \<and> sint (Memory_Read (memory s') 0x1000 :: 32 word) = - 1
      \<and> (ReadRegister s' 4 Reg31IsZeroRegister :: 32 word) = 0x11223344"
    using atomic_read_modify_write [where h = example_host
        and instr = "example_instr\<lparr>GetRs := 2\<rparr>"
        and s = example_state and sop = LDSMINOp and ord = Ordering_AL]
    by (auto simp add: facts)
  have c: "\<exists>s'. VisitAtomicMemory example_host (AtomicSimple LDUMINOp Ordering_AL Size_w)
            (example_instr\<lparr>GetRs := 2\<rparr>) example_state = Inr s'
      \<and> unat (Memory_Read (memory s') 0x1000 :: 32 word) = 0x11223344"
    using atomic_read_modify_write [where h = example_host
        and instr = "example_instr\<lparr>GetRs := 2\<rparr>"
        and s = example_state and sop = LDUMINOp and ord = Ordering_AL]
    by (auto simp add: facts)
  have d: "\<exists>s'. VisitAtomicMemory example_host (AtomicSimple LDSMAXOp Ordering_A Size_B)
            (example_instr\<lparr>GetRs := 2\<rparr>) example_state = Inr s'
      \<and> sint (Memory_Read (memory s') 0x1000 :: 8 word) = 0x44"
    using atomic_read_modify_write [where h = example_host
        and instr = "example_instr\<lparr>GetRs := 2\<rparr>"
        and s = example_state and sop = LDSMAXOp and ord = Ordering_A, THEN conjunct1]
    by (auto simp add: facts)
  have e: "\<exists>s'. VisitAtomicMemory example_host (AtomicSimple LDUMAXOp Ordering_A Size_B)
            (example_instr\<lparr>GetRs := 2\<rparr>) example_state = Inr s'
      \<and> unat (Memory_Read (memory s') 0x1000 :: 8 word) = 0xff"
    using atomic_read_modify_write [where h = example_host
        and instr = "example_instr\<lparr>GetRs := 2\<rparr>"
        and s = example_state and sop = LDUMAXOp and ord = Ordering_A, THEN conjunct1]
    by (auto simp add: facts)
  have f: "\<exists>s'. VisitAtomicMemory example_host (SWP Ordering_L Size_w)
            (example_instr\<lparr>GetRs := 8\<rparr>) example_state = Inr s'
      \<and> (Memory_Read (memory s') 0x1000 :: 32 word) = 0x55667788
      \<and> (ReadRegister s' 4 Reg31IsZeroRegister :: 32 word) = 0x11223344"
    using atomic_read_modify_write [where h = example_host
        and instr = "example_instr\<lparr>GetRs := 8\<rparr>"
        and s = example_state and ord = Ordering_L]
    by (auto simp add: facts)
  show ?thesis using a b c d e f by (intro conjI)
qed

subsection \<open>Load and store exclusive\<close>

text \<open>
  The compare-and-swap opcodes reach the helpers at the element type of their suffix.
\<close>

lemma VisitLoadStoreExclusive_CAS:
  "op \<in> {CAS_w, CASA_w, CASL_w, CASAL_w} \<Longrightarrow>
     VisitLoadStoreExclusive h op instr s = CompareAndSwapHelper TYPE(32) h instr s"
  "op \<in> {CAS_x, CASA_x, CASL_x, CASAL_x} \<Longrightarrow>
     VisitLoadStoreExclusive h op instr s = CompareAndSwapHelper TYPE(64) h instr s"
  "op \<in> {CASB, CASAB, CASLB, CASALB} \<Longrightarrow>
     VisitLoadStoreExclusive h op instr s = CompareAndSwapHelper TYPE(8) h instr s"
  "op \<in> {CASH, CASAH, CASLH, CASALH} \<Longrightarrow>
     VisitLoadStoreExclusive h op instr s = CompareAndSwapHelper TYPE(16) h instr s"
  "op \<in> {CASP_w, CASPA_w, CASPL_w, CASPAL_w} \<Longrightarrow>
     VisitLoadStoreExclusive h op instr s = CompareAndSwapPairHelper TYPE(32) h instr s"
  "op \<in> {CASP_x, CASPA_x, CASPL_x, CASPAL_x} \<Longrightarrow>
     VisitLoadStoreExclusive h op instr s = CompareAndSwapPairHelper TYPE(64) h instr s"
  by (auto simp add: VisitLoadStoreExclusive_def)

lemma WriteWRegister_fields [simp]:
  "memory (WriteWRegister c v s) = memory s"
  "local_monitor (WriteWRegister c v s) = local_monitor s"
  "memory (WriteXRegister c w s) = memory s"
  "local_monitor (WriteXRegister c w s) = local_monitor s"
  by (simp_all add: WriteWRegister_def WriteXRegister_def)

lemma Clear_fields [simp]:
  "local_monitor (Clear s) = None" "memory (Clear s) = memory s" "registers (Clear s) = registers s"
  by (simp_all add: Clear_def)

lemma MarkExclusive_fields [simp]:
  "local_monitor (MarkExclusive a n s) = Some (a, n)" "memory (MarkExclusive a n s) = memory s"
  "registers (MarkExclusive a n s) = registers s"
  by (simp_all add: MarkExclusive_def)

lemma exclusive_store_ok:
  assumes "op \<in> {STXRB_w, STLXRB_w, STXRH_w, STLXRH_w, STXR_w, STLXR_w,
                          STXR_x, STLXR_x, STXP_w, STLXP_w, STXP_x, STLXP_x}"
  shows "\<exists>s'. exclusive_store op address element_size rt rt2 s = Inr s'
            \<and> registers s' = registers s \<and> local_monitor s' = local_monitor s"
  using assms by (auto simp add: exclusive_store_def)

lemma exclusive_load_ok:
  assumes "op \<in> {LDXRB_w, LDAXRB_w, LDXRH_w, LDAXRH_w, LDXR_w, LDAXR_w,
                          LDXR_x, LDAXR_x, LDXP_w, LDAXP_w, LDXP_x, LDAXP_x}"
  shows "\<exists>s'. exclusive_load op address element_size rt rt2 s = Inr s'
            \<and> memory s' = memory s \<and> local_monitor s' = local_monitor s"
  using assms by (auto simp add: exclusive_load_def)

lemma not_cas:
  assumes "op \<in> {STXRB_w, STLXRB_w, STXRH_w, STLXRH_w, STXR_w, STLXR_w,
                          STXR_x, STLXR_x, STXP_w, STLXP_w, STXP_x, STLXP_x}
        \<or> op \<in> {LDXRB_w, LDAXRB_w, LDXRH_w, LDAXRH_w, LDXR_w, LDAXR_w,
                          LDXR_x, LDAXR_x, LDXP_w, LDAXP_w, LDXP_x, LDAXP_x}"
  shows "op \<notin> {CAS_w, CASA_w, CASL_w, CASAL_w}" "op \<notin> {CAS_x, CASA_x, CASL_x, CASAL_x}"
    "op \<notin> {CASB, CASAB, CASLB, CASALB}" "op \<notin> {CASH, CASAH, CASLH, CASALH}"
    "op \<notin> {CASP_w, CASPA_w, CASPL_w, CASPAL_w}" "op \<notin> {CASP_x, CASPA_x, CASPL_x, CASPAL_x}"
  using assms by auto

lemma ReadWRegister_WriteWRegister_same:
  "code \<noteq> 31 \<Longrightarrow> ReadWRegister (WriteWRegister code v s) code = v"
  by (simp add: ReadWRegister_def WriteWRegister_def ReadRegister_WriteRegister_same)

lemma ReadWRegister_cong:
  "registers s' = registers s \<Longrightarrow> ReadWRegister s' code = ReadWRegister s code"
  by (simp add: ReadWRegister_def ReadRegister_def)

lemma exclusive_store_run:
  assumes op: "op \<in> {STXRB_w, STLXRB_w, STXRH_w, STLXRH_w, STXR_w, STLXR_w,
                          STXR_x, STLXR_x, STXP_w, STLXP_w, STXP_x, STLXP_x}"
    and excl: "\<not> GetLdStXNotExclusive instr" and st: "\<not> GetLdStXLoad instr"
    and valid: "CheckIsValidUnalignedAtomicAccess h (GetRn instr)
                  (ReadRegister s (GetRn instr) Reg31IsStackPointer)
                  (if GetLdStXPair instr then 2 ^ GetLdStXSizeLog2 instr * 2
                   else 2 ^ GetLdStXSizeLog2 instr)"
  shows "VisitLoadStoreExclusive h op instr s =
    (let address = (ReadRegister s (GetRn instr) Reg31IsStackPointer :: u64);
         element_size = 2 ^ GetLdStXSizeLog2 instr;
         access_size = (if GetLdStXPair instr then element_size * 2 else element_size);
         do_store = (IsExclusive s address access_size
                     \<and> global_IsExclusive h address access_size);
         s2 = Clear (WriteWRegister (GetRs instr) (if do_store then 0 else 1) s)
     in if do_store
        then exclusive_store op address element_size (GetRt instr) (GetRt2 instr) s2
        else Inr s2)"
  using excl st valid not_cas [OF disjI1 [OF op]]
  unfolding VisitLoadStoreExclusive_def Let_def
  by (simp split: if_splits)

lemma exclusive_load_run:
  assumes op: "op \<in> {LDXRB_w, LDAXRB_w, LDXRH_w, LDAXRH_w, LDXR_w, LDAXR_w,
                          LDXR_x, LDAXR_x, LDXP_w, LDAXP_w, LDXP_x, LDAXP_x}"
    and excl: "\<not> GetLdStXNotExclusive instr" and ld: "GetLdStXLoad instr"
    and valid: "CheckIsValidUnalignedAtomicAccess h (GetRn instr)
                  (ReadRegister s (GetRn instr) Reg31IsStackPointer)
                  (if GetLdStXPair instr then 2 ^ GetLdStXSizeLog2 instr * 2
                   else 2 ^ GetLdStXSizeLog2 instr)"
  shows "VisitLoadStoreExclusive h op instr s =
    (let address = (ReadRegister s (GetRn instr) Reg31IsStackPointer :: u64);
         element_size = 2 ^ GetLdStXSizeLog2 instr;
         access_size = (if GetLdStXPair instr then element_size * 2 else element_size)
     in exclusive_load op address element_size (GetRt instr) (GetRt2 instr)
          (MarkExclusive address access_size s))"
  using excl ld valid not_cas [OF disjI2 [OF op]]
  unfolding VisitLoadStoreExclusive_def Let_def
  by (simp split: if_splits)

lemma exclusive_store_fails_without_reservation:
  assumes op: "op \<in> {STXRB_w, STLXRB_w, STXRH_w, STLXRH_w, STXR_w, STLXR_w,
                          STXR_x, STLXR_x, STXP_w, STLXP_w, STXP_x, STLXP_x}"
    and excl: "\<not> GetLdStXNotExclusive instr" and st: "\<not> GetLdStXLoad instr"
    and valid: "CheckIsValidUnalignedAtomicAccess h (GetRn instr)
                  (ReadRegister s (GetRn instr) Reg31IsStackPointer)
                  (if GetLdStXPair instr then 2 ^ GetLdStXSizeLog2 instr * 2
                   else 2 ^ GetLdStXSizeLog2 instr)"
    and none: "local_monitor s = None"
  shows "VisitLoadStoreExclusive h op instr s = Inr (Clear (WriteWRegister (GetRs instr) 1 s))"
  using none by (simp add: exclusive_store_run [OF op excl st valid] Let_def IsExclusive_def)

lemma exclusive_store_memory:
  assumes "exclusive_store op address element_size rt rt2 s0 = Inr s'"
  shows "op \<in> {STXRB_w, STLXRB_w} \<Longrightarrow>
           memory s' = Memory_Write (memory s0) address (ucast (ReadWRegister s0 rt) :: 8 word)"
    and "op \<in> {STXRH_w, STLXRH_w} \<Longrightarrow>
           memory s' = Memory_Write (memory s0) address (ucast (ReadWRegister s0 rt) :: 16 word)"
    and "op \<in> {STXR_w, STLXR_w} \<Longrightarrow>
           memory s' = Memory_Write (memory s0) address (ReadWRegister s0 rt)"
    and "op \<in> {STXR_x, STLXR_x} \<Longrightarrow>
           memory s' = Memory_Write (memory s0) address (ReadXRegister s0 rt)"
    and "op \<in> {STXP_w, STLXP_w} \<Longrightarrow>
           memory s' = Memory_Write (Memory_Write (memory s0) address (ReadWRegister s0 rt))
                         (address + of_nat element_size) (ReadWRegister s0 rt2)"
    and "op \<in> {STXP_x, STLXP_x} \<Longrightarrow>
           memory s' = Memory_Write (Memory_Write (memory s0) address (ReadXRegister s0 rt))
                         (address + of_nat element_size) (ReadXRegister s0 rt2)"
  using assms by (auto simp add: exclusive_store_def)

lemma ReadXRegister_cong:
  "registers s' = registers s \<Longrightarrow> ReadXRegister s' code = ReadXRegister s code"
  by (simp add: ReadXRegister_def ReadRegister_def)

lemma Memory_Read_pair_first_32:
  "(Memory_Read (Memory_Write (Memory_Write m a (v :: 32 word)) (a + 4) (w :: 32 word)) a
      :: 32 word) = v"
  using Memory_Read_Write_before [where 'a = 32 and m = "Memory_Write m a v" and a = a and v = w]
    Memory_Read_Write_same [where 'a = 32 and m = m and a = a and v = v]
  by simp

lemma Memory_Read_pair_first_64:
  "(Memory_Read (Memory_Write (Memory_Write m a (v :: 64 word)) (a + 8) (w :: 64 word)) a
      :: 64 word) = v"
  using Memory_Read_Write_before [where 'a = 64 and m = "Memory_Write m a v" and a = a and v = w]
    Memory_Read_Write_same [where 'a = 64 and m = m and a = a and v = v]
  by simp

text \<open>
  Claim C2. For an exclusive store whose access check passes, the store is made iff the
  local monitor and the global monitor both hold the reservation of the address and the
  access size. When it is made, memory afterwards is the memory before with the value of
  \<open>rt\<close> written at the address in the width of the opcode (one, two, four or eight
  bytes), and for a pair with the value of \<open>rt2\<close> written after it at the address
  plus the element size; reading memory back at those addresses returns the stored values.
  When it is not made, memory is unchanged. The status register \<open>rs\<close> is written 0
  when the store is made and 1 when it is not; in both cases the local monitor is cleared,
  so that any exclusive store run on the resulting state fails with status 1 and leaves
  memory alone. An exclusive load leaves the local monitor holding the reservation of its
  address and access size.
\<close>

theorem exclusive_store_protocol:
  assumes op: "op \<in> {STXRB_w, STLXRB_w, STXRH_w, STLXRH_w, STXR_w, STLXR_w,
                          STXR_x, STLXR_x, STXP_w, STLXP_w, STXP_x, STLXP_x}"
    and excl: "\<not> GetLdStXNotExclusive instr" and st: "\<not> GetLdStXLoad instr"
    and valid: "CheckIsValidUnalignedAtomicAccess h (GetRn instr)
                  (ReadRegister s (GetRn instr) Reg31IsStackPointer)
                  (if GetLdStXPair instr then 2 ^ GetLdStXSizeLog2 instr * 2
                   else 2 ^ GetLdStXSizeLog2 instr)"
  shows "(\<exists>s'. VisitLoadStoreExclusive h op instr s = Inr s' \<and>
     (let address = (ReadRegister s (GetRn instr) Reg31IsStackPointer :: u64);
          element_size = 2 ^ GetLdStXSizeLog2 instr;
          access_size = (if GetLdStXPair instr then element_size * 2 else element_size);
          do_store = (IsExclusive s address access_size
                      \<and> global_IsExclusive h address access_size);
          s1 = WriteWRegister (GetRs instr) (if do_store then 0 else 1) s;
          rt = GetRt instr;
          rt2 = GetRt2 instr;
          address2 = address + of_nat element_size
      in (if do_store
          then exclusive_store op address element_size rt rt2 (Clear s1) = Inr s'
             \<and> (op \<in> {STXRB_w, STLXRB_w} \<longrightarrow>
                  memory s' = Memory_Write (memory s) address (ucast (ReadWRegister s1 rt) :: 8 word)
                  \<and> Memory_Read (memory s') address = (ucast (ReadWRegister s1 rt) :: 8 word))
             \<and> (op \<in> {STXRH_w, STLXRH_w} \<longrightarrow>
                  memory s' = Memory_Write (memory s) address (ucast (ReadWRegister s1 rt) :: 16 word)
                  \<and> Memory_Read (memory s') address = (ucast (ReadWRegister s1 rt) :: 16 word))
             \<and> (op \<in> {STXR_w, STLXR_w} \<longrightarrow>
                  memory s' = Memory_Write (memory s) address (ReadWRegister s1 rt)
                  \<and> Memory_Read (memory s') address = ReadWRegister s1 rt)
             \<and> (op \<in> {STXR_x, STLXR_x} \<longrightarrow>
                  memory s' = Memory_Write (memory s) address (ReadXRegister s1 rt)
                  \<and> Memory_Read (memory s') address = ReadXRegister s1 rt)
             \<and> (op \<in> {STXP_w, STLXP_w} \<longrightarrow>
                  memory s' = Memory_Write (Memory_Write (memory s) address (ReadWRegister s1 rt))
                                address2 (ReadWRegister s1 rt2)
                  \<and> Memory_Read (memory s') address2 = ReadWRegister s1 rt2
                  \<and> (element_size = 4 \<longrightarrow> Memory_Read (memory s') address = ReadWRegister s1 rt))
             \<and> (op \<in> {STXP_x, STLXP_x} \<longrightarrow>
                  memory s' = Memory_Write (Memory_Write (memory s) address (ReadXRegister s1 rt))
                                address2 (ReadXRegister s1 rt2)
                  \<and> Memory_Read (memory s') address2 = ReadXRegister s1 rt2
                  \<and> (element_size = 8 \<longrightarrow> Memory_Read (memory s') address = ReadXRegister s1 rt))
          else s' = Clear s1 \<and> memory s' = memory s)
       \<and> registers s' = registers s1
       \<and> (GetRs instr \<noteq> 31 \<longrightarrow>
            ReadWRegister s' (GetRs instr) = (if do_store then 0 else 1))
       \<and> local_monitor s' = None)
     \<and> (\<forall>h2 op2 instr2.
           op2 \<in> {STXRB_w, STLXRB_w, STXRH_w, STLXRH_w, STXR_w, STLXR_w,
                   STXR_x, STLXR_x, STXP_w, STLXP_w, STXP_x, STLXP_x}
           \<and> \<not> GetLdStXNotExclusive instr2 \<and> \<not> GetLdStXLoad instr2
           \<and> CheckIsValidUnalignedAtomicAccess h2 (GetRn instr2)
                 (ReadRegister s' (GetRn instr2) Reg31IsStackPointer)
                 (if GetLdStXPair instr2 then 2 ^ GetLdStXSizeLog2 instr2 * 2
                  else 2 ^ GetLdStXSizeLog2 instr2)
           \<longrightarrow> VisitLoadStoreExclusive h2 op2 instr2 s'
                 = Inr (Clear (WriteWRegister (GetRs instr2) 1 s'))))
   \<and> (lop \<in> {LDXRB_w, LDAXRB_w, LDXRH_w, LDAXRH_w, LDXR_w, LDAXR_w,
               LDXR_x, LDAXR_x, LDXP_w, LDAXP_w, LDXP_x, LDAXP_x}
       \<and> \<not> GetLdStXNotExclusive linstr \<and> GetLdStXLoad linstr
       \<and> CheckIsValidUnalignedAtomicAccess h (GetRn linstr)
             (ReadRegister s (GetRn linstr) Reg31IsStackPointer)
             (if GetLdStXPair linstr then 2 ^ GetLdStXSizeLog2 linstr * 2
              else 2 ^ GetLdStXSizeLog2 linstr)
       \<longrightarrow> (\<exists>s'. VisitLoadStoreExclusive h lop linstr s = Inr s'
              \<and> local_monitor s'
                  = Some (ReadRegister s (GetRn linstr) Reg31IsStackPointer,
                          if GetLdStXPair linstr then 2 ^ GetLdStXSizeLog2 linstr * 2
                          else 2 ^ GetLdStXSizeLog2 linstr)))"
proof (rule conjI)
  define address where "address = (ReadRegister s (GetRn instr) Reg31IsStackPointer :: u64)"
  define element_size :: nat where "element_size = 2 ^ GetLdStXSizeLog2 instr"
  define access_size where
    "access_size = (if GetLdStXPair instr then element_size * 2 else element_size)"
  define do_store where "do_store = (IsExclusive s address access_size
                      \<and> global_IsExclusive h address access_size)"
  define s1 where "s1 = WriteWRegister (GetRs instr) (if do_store then 0 else 1) s"
  define rt where "rt = GetRt instr"
  define rt2 where "rt2 = GetRt2 instr"
  define address2 where "address2 = address + of_nat element_size"
  note defs = address_def element_size_def access_size_def do_store_def s1_def rt_def rt2_def
    address2_def
  have run: "VisitLoadStoreExclusive h op instr s =
      (if do_store
       then exclusive_store op address element_size rt rt2 (Clear s1)
       else Inr (Clear s1))"
    unfolding defs using exclusive_store_run [OF op excl st valid] by (simp add: Let_def)
  obtain s2 where s2: "exclusive_store op address element_size rt rt2 (Clear s1) = Inr s2"
    and s2r: "registers s2 = registers (Clear s1)"
    and s2m: "local_monitor s2 = local_monitor (Clear s1)"
    using exclusive_store_ok [OF op] by blast
  define s' where "s' = (if do_store then s2 else Clear s1)"
  have r: "VisitLoadStoreExclusive h op instr s = Inr s'"
    by (simp add: run s'_def s2)
  have m1: "memory (Clear s1) = memory s"
    by (simp add: s1_def)
  have rw: "ReadWRegister (Clear s1) c = ReadWRegister s1 c" for c
    by (rule ReadWRegister_cong) simp
  have rx: "ReadXRegister (Clear s1) c = ReadXRegister s1 c" for c
    by (rule ReadXRegister_cong) simp
  note mem = exclusive_store_memory [OF s2, unfolded m1 rw rx, folded address2_def]
  have stored: "exclusive_store op address element_size rt rt2 (Clear s1) = Inr s2
             \<and> (op \<in> {STXRB_w, STLXRB_w} \<longrightarrow>
                  memory s2 = Memory_Write (memory s) address (ucast (ReadWRegister s1 rt) :: 8 word)
                  \<and> Memory_Read (memory s2) address = (ucast (ReadWRegister s1 rt) :: 8 word))
             \<and> (op \<in> {STXRH_w, STLXRH_w} \<longrightarrow>
                  memory s2 = Memory_Write (memory s) address (ucast (ReadWRegister s1 rt) :: 16 word)
                  \<and> Memory_Read (memory s2) address = (ucast (ReadWRegister s1 rt) :: 16 word))
             \<and> (op \<in> {STXR_w, STLXR_w} \<longrightarrow>
                  memory s2 = Memory_Write (memory s) address (ReadWRegister s1 rt)
                  \<and> Memory_Read (memory s2) address = ReadWRegister s1 rt)
             \<and> (op \<in> {STXR_x, STLXR_x} \<longrightarrow>
                  memory s2 = Memory_Write (memory s) address (ReadXRegister s1 rt)
                  \<and> Memory_Read (memory s2) address = ReadXRegister s1 rt)
             \<and> (op \<in> {STXP_w, STLXP_w} \<longrightarrow>
                  memory s2 = Memory_Write (Memory_Write (memory s) address (ReadWRegister s1 rt))
                                address2 (ReadWRegister s1 rt2)
                  \<and> Memory_Read (memory s2) address2 = ReadWRegister s1 rt2
                  \<and> (element_size = 4 \<longrightarrow> Memory_Read (memory s2) address = ReadWRegister s1 rt))
             \<and> (op \<in> {STXP_x, STLXP_x} \<longrightarrow>
                  memory s2 = Memory_Write (Memory_Write (memory s) address (ReadXRegister s1 rt))
                                address2 (ReadXRegister s1 rt2)
                  \<and> Memory_Read (memory s2) address2 = ReadXRegister s1 rt2
                  \<and> (element_size = 8 \<longrightarrow> Memory_Read (memory s2) address = ReadXRegister s1 rt))"
  proof (intro conjI impI)
    show "exclusive_store op address element_size rt rt2 (Clear s1) = Inr s2" by (fact s2)
  next
    assume "op \<in> {STXRB_w, STLXRB_w}"
    then show "memory s2 = Memory_Write (memory s) address (ucast (ReadWRegister s1 rt) :: 8 word)"
      by (rule mem(1))
    then show "Memory_Read (memory s2) address = (ucast (ReadWRegister s1 rt) :: 8 word)"
      by (simp add: Memory_Read_Write_same)
  next
    assume "op \<in> {STXRH_w, STLXRH_w}"
    then show "memory s2 = Memory_Write (memory s) address (ucast (ReadWRegister s1 rt) :: 16 word)"
      by (rule mem(2))
    then show "Memory_Read (memory s2) address = (ucast (ReadWRegister s1 rt) :: 16 word)"
      by (simp add: Memory_Read_Write_same)
  next
    assume "op \<in> {STXR_w, STLXR_w}"
    then show "memory s2 = Memory_Write (memory s) address (ReadWRegister s1 rt)"
      by (rule mem(3))
    then show "Memory_Read (memory s2) address = ReadWRegister s1 rt"
      by (simp add: Memory_Read_Write_same)
  next
    assume "op \<in> {STXR_x, STLXR_x}"
    then show "memory s2 = Memory_Write (memory s) address (ReadXRegister s1 rt)"
      by (rule mem(4))
    then show "Memory_Read (memory s2) address = ReadXRegister s1 rt"
      by (simp add: Memory_Read_Write_same)
  next
    assume "op \<in> {STXP_w, STLXP_w}"
    then show p: "memory s2 = Memory_Write (Memory_Write (memory s) address (ReadWRegister s1 rt))
                                address2 (ReadWRegister s1 rt2)"
      by (rule mem(5))
    then show "Memory_Read (memory s2) address2 = ReadWRegister s1 rt2"
      by (simp add: Memory_Read_Write_same)
    assume "element_size = 4"
    then show "Memory_Read (memory s2) address = ReadWRegister s1 rt"
      using p by (simp add: address2_def Memory_Read_pair_first_32)
  next
    assume "op \<in> {STXP_x, STLXP_x}"
    then show p: "memory s2 = Memory_Write (Memory_Write (memory s) address (ReadXRegister s1 rt))
                                address2 (ReadXRegister s1 rt2)"
      by (rule mem(6))
    then show "Memory_Read (memory s2) address2 = ReadXRegister s1 rt2"
      by (simp add: Memory_Read_Write_same)
    assume "element_size = 8"
    then show "Memory_Read (memory s2) address = ReadXRegister s1 rt"
      using p by (simp add: address2_def Memory_Read_pair_first_64)
  qed
  have a: "(if do_store
          then exclusive_store op address element_size rt rt2 (Clear s1) = Inr s'
             \<and> (op \<in> {STXRB_w, STLXRB_w} \<longrightarrow>
                  memory s' = Memory_Write (memory s) address (ucast (ReadWRegister s1 rt) :: 8 word)
                  \<and> Memory_Read (memory s') address = (ucast (ReadWRegister s1 rt) :: 8 word))
             \<and> (op \<in> {STXRH_w, STLXRH_w} \<longrightarrow>
                  memory s' = Memory_Write (memory s) address (ucast (ReadWRegister s1 rt) :: 16 word)
                  \<and> Memory_Read (memory s') address = (ucast (ReadWRegister s1 rt) :: 16 word))
             \<and> (op \<in> {STXR_w, STLXR_w} \<longrightarrow>
                  memory s' = Memory_Write (memory s) address (ReadWRegister s1 rt)
                  \<and> Memory_Read (memory s') address = ReadWRegister s1 rt)
             \<and> (op \<in> {STXR_x, STLXR_x} \<longrightarrow>
                  memory s' = Memory_Write (memory s) address (ReadXRegister s1 rt)
                  \<and> Memory_Read (memory s') address = ReadXRegister s1 rt)
             \<and> (op \<in> {STXP_w, STLXP_w} \<longrightarrow>
                  memory s' = Memory_Write (Memory_Write (memory s) address (ReadWRegister s1 rt))
                                address2 (ReadWRegister s1 rt2)
                  \<and> Memory_Read (memory s') address2 = ReadWRegister s1 rt2
                  \<and> (element_size = 4 \<longrightarrow> Memory_Read (memory s') address = ReadWRegister s1 rt))
             \<and> (op \<in> {STXP_x, STLXP_x} \<longrightarrow>
                  memory s' = Memory_Write (Memory_Write (memory s) address (ReadXRegister s1 rt))
                                address2 (ReadXRegister s1 rt2)
                  \<and> Memory_Read (memory s') address2 = ReadXRegister s1 rt2
                  \<and> (element_size = 8 \<longrightarrow> Memory_Read (memory s') address = ReadXRegister s1 rt))
          else s' = Clear s1 \<and> memory s' = memory s)"
  proof (cases do_store)
    case True
    then have e: "s' = s2" by (simp add: s'_def)
    show ?thesis unfolding e by (simp only: True if_True) (rule stored)
  next
    case False
    then show ?thesis by (simp add: s'_def s1_def)
  qed
  have b: "registers s' = registers s1"
    by (simp add: s'_def s2r)
  have c: "GetRs instr \<noteq> 31 \<longrightarrow> ReadWRegister s' (GetRs instr) = (if do_store then 0 else 1)"
    using ReadWRegister_cong [OF b] by (simp add: s1_def ReadWRegister_WriteWRegister_same)
  have d: "local_monitor s' = None"
    by (simp add: s'_def s2m)
  have e: "(\<forall>h2 op2 instr2.
           op2 \<in> {STXRB_w, STLXRB_w, STXRH_w, STLXRH_w, STXR_w, STLXR_w,
                   STXR_x, STLXR_x, STXP_w, STLXP_w, STXP_x, STLXP_x}
           \<and> \<not> GetLdStXNotExclusive instr2 \<and> \<not> GetLdStXLoad instr2
           \<and> CheckIsValidUnalignedAtomicAccess h2 (GetRn instr2)
                 (ReadRegister s' (GetRn instr2) Reg31IsStackPointer)
                 (if GetLdStXPair instr2 then 2 ^ GetLdStXSizeLog2 instr2 * 2
                  else 2 ^ GetLdStXSizeLog2 instr2)
           \<longrightarrow> VisitLoadStoreExclusive h2 op2 instr2 s'
                 = Inr (Clear (WriteWRegister (GetRs instr2) 1 s')))"
    using exclusive_store_fails_without_reservation [OF _ _ _ _ d] by blast
  show "(\<exists>s'. VisitLoadStoreExclusive h op instr s = Inr s' \<and>
     (let address = (ReadRegister s (GetRn instr) Reg31IsStackPointer :: u64);
          element_size = 2 ^ GetLdStXSizeLog2 instr;
          access_size = (if GetLdStXPair instr then element_size * 2 else element_size);
          do_store = (IsExclusive s address access_size
                      \<and> global_IsExclusive h address access_size);
          s1 = WriteWRegister (GetRs instr) (if do_store then 0 else 1) s;
          rt = GetRt instr;
          rt2 = GetRt2 instr;
          address2 = address + of_nat element_size
      in (if do_store
          then exclusive_store op address element_size rt rt2 (Clear s1) = Inr s'
             \<and> (op \<in> {STXRB_w, STLXRB_w} \<longrightarrow>
                  memory s' = Memory_Write (memory s) address (ucast (ReadWRegister s1 rt) :: 8 word)
                  \<and> Memory_Read (memory s') address = (ucast (ReadWRegister s1 rt) :: 8 word))
             \<and> (op \<in> {STXRH_w, STLXRH_w} \<longrightarrow>
                  memory s' = Memory_Write (memory s) address (ucast (ReadWRegister s1 rt) :: 16 word)
                  \<and> Memory_Read (memory s') address = (ucast (ReadWRegister s1 rt) :: 16 word))
             \<and> (op \<in> {STXR_w, STLXR_w} \<longrightarrow>
                  memory s' = Memory_Write (memory s) address (ReadWRegister s1 rt)
                  \<and> Memory_Read (memory s') address = ReadWRegister s1 rt)
             \<and> (op \<in> {STXR_x, STLXR_x} \<longrightarrow>
                  memory s' = Memory_Write (memory s) address (ReadXRegister s1 rt)
                  \<and> Memory_Read (memory s') address = ReadXRegister s1 rt)
             \<and> (op \<in> {STXP_w, STLXP_w} \<longrightarrow>
                  memory s' = Memory_Write (Memory_Write (memory s) address (ReadWRegister s1 rt))
                                address2 (ReadWRegister s1 rt2)
                  \<and> Memory_Read (memory s') address2 = ReadWRegister s1 rt2
                  \<and> (element_size = 4 \<longrightarrow> Memory_Read (memory s') address = ReadWRegister s1 rt))
             \<and> (op \<in> {STXP_x, STLXP_x} \<longrightarrow>
                  memory s' = Memory_Write (Memory_Write (memory s) address (ReadXRegister s1 rt))
                                address2 (ReadXRegister s1 rt2)
                  \<and> Memory_Read (memory s') address2 = ReadXRegister s1 rt2
                  \<and> (element_size = 8 \<longrightarrow> Memory_Read (memory s') address = ReadXRegister s1 rt))
          else s' = Clear s1 \<and> memory s' = memory s)
       \<and> registers s' = registers s1
       \<and> (GetRs instr \<noteq> 31 \<longrightarrow>
            ReadWRegister s' (GetRs instr) = (if do_store then 0 else 1))
       \<and> local_monitor s' = None)
     \<and> (\<forall>h2 op2 instr2.
           op2 \<in> {STXRB_w, STLXRB_w, STXRH_w, STLXRH_w, STXR_w, STLXR_w,
                   STXR_x, STLXR_x, STXP_w, STLXP_w, STXP_x, STLXP_x}
           \<and> \<not> GetLdStXNotExclusive instr2 \<and> \<not> GetLdStXLoad instr2
           \<and> CheckIsValidUnalignedAtomicAccess h2 (GetRn instr2)
                 (ReadRegister s' (GetRn instr2) Reg31IsStackPointer)
                 (if GetLdStXPair instr2 then 2 ^ GetLdStXSizeLog2 instr2 * 2
                  else 2 ^ GetLdStXSizeLog2 instr2)
           \<longrightarrow> VisitLoadStoreExclusive h2 op2 instr2 s'
                 = Inr (Clear (WriteWRegister (GetRs instr2) 1 s'))))"
    unfolding Let_def
    using r a b c d e unfolding defs
    by (intro exI [of _ s'] conjI) assumption+
next
  show "lop \<in> {LDXRB_w, LDAXRB_w, LDXRH_w, LDAXRH_w, LDXR_w, LDAXR_w,
               LDXR_x, LDAXR_x, LDXP_w, LDAXP_w, LDXP_x, LDAXP_x}
       \<and> \<not> GetLdStXNotExclusive linstr \<and> GetLdStXLoad linstr
       \<and> CheckIsValidUnalignedAtomicAccess h (GetRn linstr)
             (ReadRegister s (GetRn linstr) Reg31IsStackPointer)
             (if GetLdStXPair linstr then 2 ^ GetLdStXSizeLog2 linstr * 2
              else 2 ^ GetLdStXSizeLog2 linstr)
       \<longrightarrow> (\<exists>s'. VisitLoadStoreExclusive h lop linstr s = Inr s'
              \<and> local_monitor s'
                  = Some (ReadRegister s (GetRn linstr) Reg31IsStackPointer,
                          if GetLdStXPair linstr then 2 ^ GetLdStXSizeLog2 linstr * 2
                          else 2 ^ GetLdStXSizeLog2 linstr))"
  proof (intro impI, elim conjE)
    assume lop: "lop \<in> {LDXRB_w, LDAXRB_w, LDXRH_w, LDAXRH_w, LDXR_w, LDAXR_w,
               LDXR_x, LDAXR_x, LDXP_w, LDAXP_w, LDXP_x, LDAXP_x}"
      and lexcl: "\<not> GetLdStXNotExclusive linstr" and ld: "GetLdStXLoad linstr"
      and lvalid: "CheckIsValidUnalignedAtomicAccess h (GetRn linstr)
             (ReadRegister s (GetRn linstr) Reg31IsStackPointer)
             (if GetLdStXPair linstr then 2 ^ GetLdStXSizeLog2 linstr * 2
              else 2 ^ GetLdStXSizeLog2 linstr)"
    show "\<exists>s'. VisitLoadStoreExclusive h lop linstr s = Inr s'
              \<and> local_monitor s'
                  = Some (ReadRegister s (GetRn linstr) Reg31IsStackPointer,
                          if GetLdStXPair linstr then 2 ^ GetLdStXSizeLog2 linstr * 2
                          else 2 ^ GetLdStXSizeLog2 linstr)"
    proof -
      define A where "A = (ReadRegister s (GetRn linstr) Reg31IsStackPointer :: u64)"
      define S :: nat where "S = (if GetLdStXPair linstr then 2 ^ GetLdStXSizeLog2 linstr * 2
                          else 2 ^ GetLdStXSizeLog2 linstr)"
      obtain s' where s': "exclusive_load lop A (2 ^ GetLdStXSizeLog2 linstr) (GetRt linstr)
            (GetRt2 linstr) (MarkExclusive A S s) = Inr s'"
        and m: "local_monitor s' = local_monitor (MarkExclusive A S s)"
        using exclusive_load_ok [OF lop] by blast
      have "VisitLoadStoreExclusive h lop linstr s = Inr s'"
        using s' unfolding A_def S_def
        by (simp add: exclusive_load_run [OF lop lexcl ld lvalid] Let_def)
      moreover have "local_monitor s' = Some (A, S)"
        using m by simp
      ultimately show ?thesis unfolding A_def S_def by blast
    qed
  qed
qed

lemma example_fields:
  "GetRs example_instr = 3" "GetRt example_instr = 4" "GetRt2 example_instr = 5"
  "(2::nat) ^ 2 = 4"
  by (simp_all add: example_instr_def)

lemma example_store_valid:
  "CheckIsValidUnalignedAtomicAccess example_host (GetRn example_instr)
     (ReadRegister example_state (GetRn example_instr) Reg31IsStackPointer)
     (if GetLdStXPair example_instr then 2 ^ GetLdStXSizeLog2 example_instr * 2
      else 2 ^ GetLdStXSizeLog2 example_instr)"
  "\<not> GetLdStXNotExclusive example_instr" "\<not> GetLdStXLoad example_instr"
  "\<not> GetLdStXPair example_instr" "GetLdStXSizeLog2 example_instr = 2"
  "IsExclusive example_state 0x1000 4" "global_IsExclusive example_host a n"
  by (simp_all add: example_defs ReadRegister_def kZeroRegCode_def IsExclusive_def)

lemma monitor_update_reads:
  "(ReadRegister (s\<lparr>local_monitor := X\<rparr>) c m :: 'a::len word) = ReadRegister s c m"
  "ReadWRegister (s\<lparr>local_monitor := X\<rparr>) c = ReadWRegister s c"
  "IsExclusive (s\<lparr>local_monitor := X\<rparr>) a n = (X = Some (a, n))"
  "WriteWRegister c v (s\<lparr>local_monitor := X\<rparr>) = (WriteWRegister c v s)\<lparr>local_monitor := X\<rparr>"
  by (simp_all add: ReadRegister_def ReadWRegister_def IsExclusive_def WriteWRegister_def
      WriteRegister_def)

lemma ReadWRegister_WriteWRegister_other:
  "c' \<noteq> c \<Longrightarrow> ReadWRegister (WriteWRegister c v s) c' = ReadWRegister s c'"
  by (simp add: ReadWRegister_def WriteWRegister_def ReadRegister_WriteRegister_other)

lemma example_store_reads:
  "ReadWRegister example_state 4 = 0xdeadbeef" "ReadWRegister example_state 5 = 7"
  "(ucast (0xdeadbeef :: 32 word) :: 8 word) = 0xef"
  "CheckIsValidUnalignedAtomicAccess example_host rn 0x1000 (Suc 0)"
  by (simp_all add: example_defs ReadWRegister_def ReadRegister_def kZeroRegCode_def)

theorem exclusive_store_protocol_witness:
  "(\<exists>s'. VisitLoadStoreExclusive example_host STXR_w example_instr example_state = Inr s'
      \<and> (Memory_Read (memory s') 0x1000 :: 32 word) = 0xdeadbeef
      \<and> ReadWRegister s' 3 = 0
      \<and> local_monitor s' = None
      \<and> VisitLoadStoreExclusive example_host STXR_w example_instr s'
          = Inr (Clear (WriteWRegister 3 1 s')))
 \<and> (\<exists>s'. VisitLoadStoreExclusive example_host STLXP_w
             (example_instr\<lparr>GetLdStXPair := True\<rparr>)
             (example_state\<lparr>local_monitor := Some (0x1000, 8)\<rparr>) = Inr s'
      \<and> (Memory_Read (memory s') 0x1000 :: 32 word) = 0xdeadbeef
      \<and> (Memory_Read (memory s') 0x1004 :: 32 word) = 7
      \<and> ReadWRegister s' 3 = 0
      \<and> local_monitor s' = None)
 \<and> (\<exists>s'. VisitLoadStoreExclusive example_host STXRB_w
             (example_instr\<lparr>GetLdStXSizeLog2 := 0\<rparr>)
             (example_state\<lparr>local_monitor := Some (0x1000, 1)\<rparr>) = Inr s'
      \<and> (Memory_Read (memory s') 0x1000 :: 8 word) = 0xef
      \<and> local_monitor s' = None)
 \<and> (\<exists>s'. VisitLoadStoreExclusive example_host STXR_w example_instr
             (example_state\<lparr>local_monitor := None\<rparr>) = Inr s'
      \<and> memory s' = memory example_state
      \<and> ReadWRegister s' 3 = 1
      \<and> local_monitor s' = None)
 \<and> (\<exists>s'. VisitLoadStoreExclusive example_host LDXR_w
             (example_instr\<lparr>GetLdStXLoad := True\<rparr>)
             (example_state\<lparr>local_monitor := None\<rparr>) = Inr s'
      \<and> local_monitor s' = Some (0x1000, 4))"
proof -
  note facts = Let_def example_address example_valid example_fields example_store_valid
    example_store_reads monitor_update_reads ReadWRegister_WriteWRegister_other
  have a: "\<exists>s'. VisitLoadStoreExclusive example_host STXR_w example_instr example_state = Inr s'
      \<and> (Memory_Read (memory s') 0x1000 :: 32 word) = 0xdeadbeef
      \<and> ReadWRegister s' 3 = 0
      \<and> local_monitor s' = None
      \<and> VisitLoadStoreExclusive example_host STXR_w example_instr s'
          = Inr (Clear (WriteWRegister 3 1 s'))"
  proof -
    from exclusive_store_protocol [of STXR_w example_instr example_host example_state
        LDXR_w "example_instr\<lparr>GetLdStXLoad := True\<rparr>", THEN conjunct1]
    obtain s' where run: "VisitLoadStoreExclusive example_host STXR_w example_instr example_state = Inr s'"
      and m: "(Memory_Read (memory s') 0x1000 :: 32 word) = 0xdeadbeef"
      and regs: "registers s' = registers (WriteWRegister 3 0 example_state)"
      and status: "ReadWRegister s' 3 = 0"
      and mon: "local_monitor s' = None"
      and again: "\<forall>h2 op2 instr2.
           op2 \<in> {STXRB_w, STLXRB_w, STXRH_w, STLXRH_w, STXR_w, STLXR_w,
                   STXR_x, STLXR_x, STXP_w, STLXP_w, STXP_x, STLXP_x}
           \<and> \<not> GetLdStXNotExclusive instr2 \<and> \<not> GetLdStXLoad instr2
           \<and> CheckIsValidUnalignedAtomicAccess h2 (GetRn instr2)
                 (ReadRegister s' (GetRn instr2) Reg31IsStackPointer)
                 (if GetLdStXPair instr2 then 2 ^ GetLdStXSizeLog2 instr2 * 2
                  else 2 ^ GetLdStXSizeLog2 instr2)
           \<longrightarrow> VisitLoadStoreExclusive h2 op2 instr2 s'
                 = Inr (Clear (WriteWRegister (GetRs instr2) 1 s'))"
      by (auto simp add: facts) 
    have ad: "(ReadRegister s' (GetRn example_instr) Reg31IsStackPointer :: u64) = 0x1000"
      using regs
      by (simp add: ReadRegister_def example_defs WriteWRegister_def WriteRegister_def
          kZeroRegCode_def)
    have second: "VisitLoadStoreExclusive example_host STXR_w example_instr s'
          = Inr (Clear (WriteWRegister 3 1 s'))"
      using again [rule_format, of STXR_w example_instr example_host]
      by (simp add: example_store_valid ad example_fields example_valid)
    show ?thesis using run m status mon second by blast
  qed
  have b: "\<exists>s'. VisitLoadStoreExclusive example_host STLXP_w
             (example_instr\<lparr>GetLdStXPair := True\<rparr>)
             (example_state\<lparr>local_monitor := Some (0x1000, 8)\<rparr>) = Inr s'
      \<and> (Memory_Read (memory s') 0x1000 :: 32 word) = 0xdeadbeef
      \<and> (Memory_Read (memory s') 0x1004 :: 32 word) = 7
      \<and> ReadWRegister s' 3 = 0
      \<and> local_monitor s' = None"
    using exclusive_store_protocol [of STLXP_w "example_instr\<lparr>GetLdStXPair := True\<rparr>"
        example_host "example_state\<lparr>local_monitor := Some (0x1000, 8)\<rparr>"
        LDXR_w "example_instr\<lparr>GetLdStXLoad := True\<rparr>", THEN conjunct1]
    by (auto simp add: facts)
  have c: "\<exists>s'. VisitLoadStoreExclusive example_host STXRB_w
             (example_instr\<lparr>GetLdStXSizeLog2 := 0\<rparr>)
             (example_state\<lparr>local_monitor := Some (0x1000, 1)\<rparr>) = Inr s'
      \<and> (Memory_Read (memory s') 0x1000 :: 8 word) = 0xef
      \<and> local_monitor s' = None"
    using exclusive_store_protocol [of STXRB_w "example_instr\<lparr>GetLdStXSizeLog2 := 0\<rparr>"
        example_host "example_state\<lparr>local_monitor := Some (0x1000, 1)\<rparr>"
        LDXR_w "example_instr\<lparr>GetLdStXLoad := True\<rparr>", THEN conjunct1]
    by (auto simp add: facts)
  have d: "\<exists>s'. VisitLoadStoreExclusive example_host STXR_w example_instr
             (example_state\<lparr>local_monitor := None\<rparr>) = Inr s'
      \<and> memory s' = memory example_state
      \<and> ReadWRegister s' 3 = 1
      \<and> local_monitor s' = None"
    using exclusive_store_protocol [of STXR_w example_instr
        example_host "example_state\<lparr>local_monitor := None\<rparr>"
        LDXR_w "example_instr\<lparr>GetLdStXLoad := True\<rparr>", THEN conjunct1]
    by (auto simp add: facts)
  have e: "\<exists>s'. VisitLoadStoreExclusive example_host LDXR_w
             (example_instr\<lparr>GetLdStXLoad := True\<rparr>)
             (example_state\<lparr>local_monitor := None\<rparr>) = Inr s'
      \<and> local_monitor s' = Some (0x1000, 4)"
    using exclusive_store_protocol [of STXR_w example_instr
        example_host "example_state\<lparr>local_monitor := None\<rparr>"
        LDXR_w "example_instr\<lparr>GetLdStXLoad := True\<rparr>", THEN conjunct2]
    by (auto simp add: facts)
  show ?thesis using a b c d e by (intro conjI)
qed

subsection \<open>Pointer authentication\<close>

lemma disjoint_bits:
  fixes ptr m :: "64 word"
  assumes "ptr AND m = 0"
  shows "\<not> (bit ptr n \<and> bit m n)"
proof -
  have "bit (ptr AND m) n = bit (0 :: 64 word) n" using assms by simp
  then show ?thesis by (simp add: bit_and_iff)
qed

lemma strip_clear:
  fixes ptr m :: "64 word"
  assumes "ptr AND m = 0"
  shows "ptr AND NOT m = ptr"
  by (rule bit_eqI) (use disjoint_bits [OF assms] in \<open>auto simp add: bit_and_iff bit_not_iff\<close>)

lemma splice_strip:
  fixes ptr m pac :: "64 word"
  assumes "ptr AND m = 0"
  shows "((pac AND m) OR ptr) AND NOT m = ptr"
  by (rule bit_eqI)
    (use disjoint_bits [OF assms] in \<open>auto simp add: bit_and_iff bit_or_iff bit_not_iff\<close>)

lemma splice_code:
  fixes ptr m pac :: "64 word"
  assumes "ptr AND m = 0"
  shows "((pac AND m) OR ptr) AND m = pac AND m"
  by (rule bit_eqI)
    (use disjoint_bits [OF assms] in \<open>auto simp add: bit_and_iff bit_or_iff bit_not_iff\<close>)

lemma AuthPAC_AddPAC:
  assumes "ptr AND CalculatePACMask cfg kind = 0"
  shows "AuthPAC cfg (AddPAC cfg ptr modifier key kind) modifier key kind = ptr"
  unfolding AuthPAC_def AddPAC_def Let_def
  by (simp only: strip_clear [OF assms] splice_strip [OF assms] splice_code [OF assms] refl if_True)

lemma three_mask: "(3 :: 64 word) = mask 2"
  by (simp add: mask_eq_exp_minus_1)

lemma marker_bits:
  fixes x ec :: "64 word"
  assumes l: "l + 2 \<le> 64" and ec: "ec AND 3 = ec"
  shows "drop_bit l ((x AND NOT (push_bit l 3)) OR push_bit l ec) AND 3 = ec"
proof (rule bit_eqI)
  fix n
  assume "possible_bit TYPE(64 word) n"
  then have n: "n < 64" by simp
  have ecb: "bit ec n \<longleftrightarrow> bit ec n \<and> n < 2"
    using ec unfolding three_mask by (metis bit_and_iff bit_mask_iff)
  show "bit (drop_bit l ((x AND NOT (push_bit l 3)) OR push_bit l ec) AND 3) n = bit ec n"
    unfolding three_mask
    using l n ecb
    by (auto simp add: bit_and_iff bit_or_iff bit_not_iff bit_push_bit_iff bit_drop_bit_eq
        bit_mask_iff)
qed

lemma error_code_range: "error_code key AND 3 = error_code key" "error_code key \<noteq> 0"
  by (cases key; simp add: error_code_def)+

lemma AuthPAC_mismatch:
  assumes top: "2 \<le> TopPACBit cfg kind" "TopPACBit cfg kind \<le> 64"
    and mis: "ComputePAC cfg (p AND NOT (CalculatePACMask cfg kind)) modifier key
                AND CalculatePACMask cfg kind \<noteq> p AND CalculatePACMask cfg kind"
  shows "drop_bit (GetTopPACBit cfg q kind - 2) (AuthPAC cfg p modifier key kind) AND 3
           = error_code key"
proof -
  have l: "TopPACBit cfg kind - 2 + 2 \<le> 64" using top by simp
  have r: "AuthPAC cfg p modifier key kind =
      ((p AND NOT (CalculatePACMask cfg kind)) AND NOT (push_bit (TopPACBit cfg kind - 2) 3))
        OR push_bit (TopPACBit cfg kind - 2) (error_code key)"
    using mis by (simp add: AuthPAC_def Let_def GetTopPACBit_def)
  show ?thesis
    unfolding r GetTopPACBit_def by (rule marker_bits [OF l error_code_range(1)])
qed

lemma branch_aborts_iff:
  assumes "branch_authenticate op" and "op \<noteq> NotBranchToRegister"
  shows "VisitUnconditionalBranchToRegister cfg op instr s
           = Inl (AbortWithMsg ''Failed to authenticate pointer.'')
     \<longleftrightarrow> (let key = (if ExtractBit instr 10 = 0 then kPACKeyIA else kPACKeyIB);
              addr = AuthPAC cfg (branch_addr op instr s) (branch_context op instr s) key
                       kInstructionPointer
          in drop_bit (GetTopPACBit cfg addr kInstructionPointer - 2) addr AND 3 \<noteq> 0)"
  using assms by (simp add: VisitUnconditionalBranchToRegister_def Let_def)

text \<open>
  Claim C7. For a pointer whose code bits are clear, authenticating the signed pointer
  with the same modifier, key and pointer kind returns the pointer. When the code found
  in a pointer does not match, \<open>AuthPAC\<close> writes a nonzero error code into the two marker
  bits below the top code bit. An authenticating branch aborts the simulation exactly
  when the marker bits of the authenticated address are not both zero.
\<close>

theorem pointer_authentication_round_trip:
  "(ptr AND CalculatePACMask cfg kind = 0 \<longrightarrow>
      AuthPAC cfg (AddPAC cfg ptr modifier key kind) modifier key kind = ptr)
 \<and> (2 \<le> TopPACBit cfg kind \<and> TopPACBit cfg kind \<le> 64
      \<and> ComputePAC cfg (p AND NOT (CalculatePACMask cfg kind)) modifier key
            AND CalculatePACMask cfg kind \<noteq> p AND CalculatePACMask cfg kind \<longrightarrow>
      drop_bit (GetTopPACBit cfg p kind - 2) (AuthPAC cfg p modifier key kind) AND 3
        = error_code key
      \<and> error_code key \<noteq> 0)
 \<and> (branch_authenticate op \<and> op \<noteq> NotBranchToRegister \<longrightarrow>
      (VisitUnconditionalBranchToRegister cfg op instr s
         = Inl (AbortWithMsg ''Failed to authenticate pointer.'')
       \<longleftrightarrow> (let bkey = (if ExtractBit instr 10 = 0 then kPACKeyIA else kPACKeyIB);
                addr = AuthPAC cfg (branch_addr op instr s) (branch_context op instr s) bkey
                         kInstructionPointer
            in drop_bit (GetTopPACBit cfg addr kInstructionPointer - 2) addr AND 3 \<noteq> 0)))"
  using AuthPAC_AddPAC [of ptr cfg kind modifier key]
    AuthPAC_mismatch [of cfg kind p modifier key p] error_code_range(2) [of key]
    branch_aborts_iff [of op cfg instr s]
  by blast

theorem pointer_authentication_round_trip_witness:
  "AuthPAC example_pac (AddPAC example_pac 0x1000 7 kPACKeyIA kInstructionPointer) 7 kPACKeyIA
     kInstructionPointer = 0x1000
 \<and> AddPAC example_pac 0x1000 7 kPACKeyIA kInstructionPointer = 0x5a000000001000
 \<and> AuthPAC example_pac 0x1000 0 kPACKeyIA kInstructionPointer = 0x20000000001000
 \<and> drop_bit 53 (AuthPAC example_pac 0x1000 0 kPACKeyIA kInstructionPointer) AND 3 = 1
 \<and> VisitUnconditionalBranchToRegister example_pac BRAAZ example_instr example_state
     = Inl (AbortWithMsg ''Failed to authenticate pointer.'')"
  using pointer_authentication_round_trip [of "0x1000" example_pac kInstructionPointer 7 kPACKeyIA
      "0x1000" BRAAZ example_instr example_state]
    pointer_authentication_round_trip [of "0x1000" example_pac kInstructionPointer 0 kPACKeyIA
      "0x1000" BRAAZ example_instr example_state]
  by (simp add: example_defs AuthPAC_def AddPAC_def GetTopPACBit_def error_code_def Let_def
      branch_authenticate_def branch_addr_def branch_context_def
      ReadXRegister_def ReadRegister_def kZeroRegCode_def)

end
